theory Spec2Isabelle
  imports Complex_Main "HOL-Library.Extended_Nat" "HOL-Library.Log_Nat"
begin

section \<open>JavaScript values and text\<close>

text \<open>
  Text is a \<^typ>\<open>string\<close>, a character being a code unit below 256. White space
  (for \<open>trim\<close> and \<open>parseInt\<close>) is TAB, LF, VT, FF, CR, SPACE and the no-break space,
  the white space of JavaScript among these code units. \<open>toUpperCase\<close> and
  \<open>toLowerCase\<close> are given on the ASCII range: letters are \<open>a\<close>-\<open>z\<close> and \<open>A\<close>-\<open>Z\<close>,
  every other character is left as it is. The UTF-8 encoding has one byte for a code
  unit below 128 and two for the others. A value of unknown shape (tool arguments,
  tool results, event details) is a \<open>js_value\<close>.
\<close>

datatype js_value =
    JUndefined
  | JNull
  | JBool bool
  | JNum int
  | JStr string
  | JArr "js_value list"
  | JObj "(string \<times> js_value) list"

fun js_falsy :: "js_value \<Rightarrow> bool" where
  "js_falsy JUndefined = True"
| "js_falsy JNull = True"
| "js_falsy (JBool b) = (\<not> b)"
| "js_falsy (JNum n) = (n = 0)"
| "js_falsy (JStr s) = (s = [])"
| "js_falsy (JArr xs) = False"
| "js_falsy (JObj kvs) = False"

fun js_typeof_object :: "js_value \<Rightarrow> bool" where
  "js_typeof_object JNull = True"
| "js_typeof_object (JArr xs) = True"
| "js_typeof_object (JObj kvs) = True"
| "js_typeof_object v = False"

fun js_get :: "js_value \<Rightarrow> string \<Rightarrow> js_value" where
  "js_get (JObj kvs) k = (case map_of kvs k of Some v \<Rightarrow> v | None \<Rightarrow> JUndefined)"
| "js_get v k = JUndefined"

definition is_space :: "char \<Rightarrow> bool" where
  "is_space c = (let n = (of_char c :: nat) in (9 \<le> n \<and> n \<le> 13) \<or> n = 32 \<or> n = 160)"

definition trim :: "string \<Rightarrow> string" where
  "trim s = rev (dropWhile is_space (rev (dropWhile is_space s)))"

definition upper_char :: "char \<Rightarrow> char" where
  "upper_char c = (let n = (of_char c :: nat) in if 97 \<le> n \<and> n \<le> 122 then char_of (n - 32) else c)"

definition lower_char :: "char \<Rightarrow> char" where
  "lower_char c = (let n = (of_char c :: nat) in if 65 \<le> n \<and> n \<le> 90 then char_of (n + 32) else c)"

definition toUpperCase :: "string \<Rightarrow> string" where
  "toUpperCase s = map upper_char s"

definition toLowerCase :: "string \<Rightarrow> string" where
  "toLowerCase s = map lower_char s"

definition byteLength :: "string \<Rightarrow> nat" where
  "byteLength s = sum_list (map (\<lambda>c. if (of_char c :: nat) < 128 then 1 else 2) s)"

section \<open>Tagged protocol parser (parsing.ts)\<close>

text \<open>
  \<open>extractTag\<close> searches the text with the regular expression
  \<open><tag>([\s\S]*?)</tag>\<close>, case-insensitive. The search tries each start position
  from the left (\<open>regex_search\<close>); at a position the opening tag must match
  (\<open>ci_prefix\<close>) and the lazy group takes the shortest run of characters that is followed
  by the closing tag (\<open>lazy_until\<close>). Every call site passes a tag of lower-case letters
  and underscores, so the tag holds no regular-expression operator.
\<close>

fun ci_prefix :: "string \<Rightarrow> string \<Rightarrow> bool" where
  "ci_prefix [] cs = True"
| "ci_prefix (p # ps) [] = False"
| "ci_prefix (p # ps) (c # cs) = (upper_char p = upper_char c \<and> ci_prefix ps cs)"

fun lazy_until :: "string \<Rightarrow> string \<Rightarrow> string option" where
  "lazy_until cl [] = (if ci_prefix cl [] then Some [] else None)"
| "lazy_until cl (c # cs) =
     (if ci_prefix cl (c # cs) then Some []
      else map_option ((#) c) (lazy_until cl cs))"

definition match_at :: "string \<Rightarrow> string \<Rightarrow> string \<Rightarrow> string option" where
  "match_at opn cl cs =
     (if ci_prefix opn cs then lazy_until cl (drop (length opn) cs) else None)"

fun regex_search :: "string \<Rightarrow> string \<Rightarrow> string \<Rightarrow> string option" where
  "regex_search opn cl [] = match_at opn cl []"
| "regex_search opn cl (c # cs) =
     (case match_at opn cl (c # cs) of
        Some body \<Rightarrow> Some body
      | None \<Rightarrow> regex_search opn cl cs)"

definition extractTag :: "string \<Rightarrow> string \<Rightarrow> string option" where
  "extractTag text tag =
     map_option trim (regex_search (''<'' @ tag @ ''>'') (''</'' @ tag @ ''>'') text)"

text \<open>
  \<open>replace(/[.!]+$/, "")\<close>: the leftmost position from which only \<open>.\<close> and \<open>!\<close> run to
  the end of the text, at least one of them; that run is removed.
\<close>

definition is_terminal_punct :: "char \<Rightarrow> bool" where
  "is_terminal_punct c = (c = CHR ''.'' \<or> c = CHR ''!'')"

fun strip_terminal_punct :: "string \<Rightarrow> string" where
  "strip_terminal_punct [] = []"
| "strip_terminal_punct (c # cs) =
     (if list_all is_terminal_punct (c # cs) then []
      else c # strip_terminal_punct cs)"

datatype DriverStatus = StatusContinue | StatusDone
datatype DriverRecommendation = RecContinue | RecHandoff
datatype Decision = Accept | Partial | Reject
datatype JointVerdict = APPROVED | NEEDS_MORE_WORK

record DriverReport =
  status :: DriverStatus
  summary :: string
  changes :: string
  questionsForNavigator :: string
  dr_raw :: string

record NavigatorReview =
  privateReflection :: string
  publicFeedback :: string
  hasFeedback :: bool
  driverRecommendation :: DriverRecommendation
  nr_raw :: string

record DriverDecision =
  decision :: Decision
  justification :: string
  dd_raw :: string

record JointVerdictParts =
  jv_jointVerdict :: JointVerdict
  jv_rationale :: string
  jv_nextSteps :: string
  jv_raw :: string

definition or_else :: "'a option \<Rightarrow> 'a \<Rightarrow> 'a" where
  "or_else v d = (case v of Some x \<Rightarrow> x | None \<Rightarrow> d)"

definition parseDriverReport :: "string \<Rightarrow> DriverReport" where
  "parseDriverReport raw =
     (let statusRaw = map_option toLowerCase (extractTag raw ''status'');
          st = (if statusRaw = Some ''done'' then StatusDone else StatusContinue);
          sm = or_else (extractTag raw ''summary'') (trim raw);
          ch = or_else (extractTag raw ''changes'')
                 ''(driver did not provide a structured changes section)'';
          qs = or_else (extractTag raw ''questions_for_navigator'') ''NONE''
      in \<lparr>status = st, summary = sm, changes = ch, questionsForNavigator = qs, dr_raw = raw\<rparr>)"

definition parseNavigatorReview :: "string \<Rightarrow> NavigatorReview" where
  "parseNavigatorReview raw =
     (let pr = or_else (extractTag raw ''private_reflection'') ''(no private reflection provided)'';
          pf = or_else (extractTag raw ''public_feedback'') ''NONE'';
          normalizedFeedback = strip_terminal_punct (toUpperCase (trim pf));
          hf = (normalizedFeedback \<noteq> ''NONE'');
          recommendationRaw = map_option toLowerCase (extractTag raw ''driver_recommendation'');
          rc = (if recommendationRaw = Some ''handoff'' then RecHandoff else RecContinue)
      in \<lparr>privateReflection = pr, publicFeedback = pf, hasFeedback = hf,
          driverRecommendation = rc, nr_raw = raw\<rparr>)"

definition parseDriverDecision :: "string \<Rightarrow> DriverDecision" where
  "parseDriverDecision raw =
     (let decisionRaw = map_option toLowerCase (extractTag raw ''decision'');
          d = (if decisionRaw = Some ''accept'' then Accept
               else if decisionRaw = Some ''reject'' then Reject else Partial);
          j = or_else (extractTag raw ''justification'') (trim raw)
      in \<lparr>decision = d, justification = j, dd_raw = raw\<rparr>)"

definition parseJointVerdict :: "string \<Rightarrow> JointVerdictParts" where
  "parseJointVerdict raw =
     (let verdictRaw = map_option toUpperCase (extractTag raw ''joint_verdict'');
          v = (if verdictRaw = Some ''APPROVED'' then APPROVED else NEEDS_MORE_WORK);
          r = or_else (extractTag raw ''rationale'') (trim raw);
          n = or_else (extractTag raw ''next_steps'') ''NONE''
      in \<lparr>jv_jointVerdict = v, jv_rationale = r, jv_nextSteps = n, jv_raw = raw\<rparr>)"

text \<open>
  The specification's reading of \<open>hasFeedback\<close>: the public-feedback field is the content
  of the first \<open>public_feedback\<close> tag, or the literal \<open>NONE\<close> when there is none; it
  counts as no feedback when, trimmed and upper-cased, it is \<open>NONE\<close> followed only by
  \<open>.\<close> and \<open>!\<close>.
\<close>

definition spec_public_feedback :: "string \<Rightarrow> string" where
  "spec_public_feedback raw =
     (case extractTag raw ''public_feedback'' of None \<Rightarrow> ''NONE'' | Some s \<Rightarrow> s)"

definition spec_strip_trailing :: "string \<Rightarrow> string" where
  "spec_strip_trailing s = rev (dropWhile (\<lambda>c. c = CHR ''.'' \<or> c = CHR ''!'') (rev s))"

definition spec_no_feedback :: "string \<Rightarrow> bool" where
  "spec_no_feedback field = (spec_strip_trailing (toUpperCase (trim field)) = ''NONE'')"

section \<open>Execution tracker (pair-orchestrator.ts)\<close>

datatype Phase = Driving | FeedbackResolution

datatype PauseStrategy =
    PauseNone
  | EveryNFileEdits (editsPerPause: nat) (countedTools: "string list")

record AgentMessage =
  role :: string
  stopReason :: string
  errorMessage :: "string option"
  textParts :: "string list"

datatype AgentEvent =
    ToolExecutionStart string string js_value
  | ToolExecutionEnd string string bool js_value
  | MessageUpdate string
  | MessageStart AgentMessage
  | MessageEnd AgentMessage
  | TurnEnd AgentMessage nat
  | OtherEvent string

definition estimateWrittenBytes :: "string \<Rightarrow> js_value \<Rightarrow> nat" where
  "estimateWrittenBytes toolName args =
     (if js_falsy args \<or> \<not> js_typeof_object args then 0
      else if toolName = ''write'' then
        (case js_get args ''content'' of JStr content \<Rightarrow> byteLength content | _ \<Rightarrow> 0)
      else if toolName = ''edit'' then
        (case js_get args ''newText'' of JStr newText \<Rightarrow> byteLength newText | _ \<Rightarrow> 0)
      else 0)"

record tracker =
  pauseTriggered :: bool
  countedEdits :: nat
  nextCheckpointAt :: enat
  checkpointCount :: nat
  editWriteCallCount :: nat
  estimatedWrittenBytes :: nat
  pendingWriteEstimates :: "string \<rightharpoonup> nat"
  currentPhase :: Phase

definition createDriverExecutionTracker :: "PauseStrategy \<Rightarrow> tracker" where
  "createDriverExecutionTracker ps =
     \<lparr>pauseTriggered = False,
      countedEdits = 0,
      nextCheckpointAt = (case ps of EveryNFileEdits n tools \<Rightarrow> enat n | PauseNone \<Rightarrow> \<infinity>),
      checkpointCount = 0,
      editWriteCallCount = 0,
      estimatedWrittenBytes = 0,
      pendingWriteEstimates = Map.empty,
      currentPhase = Driving\<rparr>"

definition promote :: "string \<Rightarrow> tracker \<Rightarrow> tracker" where
  "promote cid t =
     t\<lparr>editWriteCallCount := editWriteCallCount t + 1,
       estimatedWrittenBytes :=
         estimatedWrittenBytes t + or_else (pendingWriteEstimates t cid) 0\<rparr>"

definition clear_pending :: "string \<Rightarrow> tracker \<Rightarrow> tracker" where
  "clear_pending cid t = t\<lparr>pendingWriteEstimates := (pendingWriteEstimates t)(cid := None)\<rparr>"

text \<open>
  \<open>onEvent\<close> returns the tracker after the event and, when a checkpoint fires, the phase
  the \<open>onCheckpoint\<close> callback is invoked with.
\<close>

fun onEvent :: "PauseStrategy \<Rightarrow> tracker \<Rightarrow> AgentEvent \<Rightarrow> tracker \<times> Phase option" where
  "onEvent ps t (ToolExecutionStart cid toolName args) =
     (if toolName = ''edit'' \<or> toolName = ''write'' then
        (t\<lparr>pendingWriteEstimates :=
             (pendingWriteEstimates t)(cid \<mapsto> estimateWrittenBytes toolName args)\<rparr>, None)
      else (t, None))"
| "onEvent ps t (ToolExecutionEnd cid toolName isError result) =
     (case ps of
        PauseNone \<Rightarrow>
          (if \<not> isError \<and> (toolName = ''edit'' \<or> toolName = ''write'')
           then (clear_pending cid (promote cid t), None)
           else (t, None))
      | EveryNFileEdits n tools \<Rightarrow>
          (let t1 = (if toolName = ''edit'' \<or> toolName = ''write''
                     then clear_pending cid (if \<not> isError then promote cid t else t)
                     else t)
           in if isError then (t1, None)
              else if toolName \<notin> set tools then (t1, None)
              else
                (let t2 = t1\<lparr>countedEdits := countedEdits t1 + 1\<rparr>
                 in if enat (countedEdits t2) < nextCheckpointAt t2 then (t2, None)
                    else (t2\<lparr>pauseTriggered := True,
                              checkpointCount := checkpointCount t2 + 1,
                              nextCheckpointAt := nextCheckpointAt t2 + enat n\<rparr>,
                          Some (currentPhase t2)))))"
| "onEvent ps t ev = (t, None)"

definition setPhase :: "Phase \<Rightarrow> tracker \<Rightarrow> tracker" where
  "setPhase p t = t\<lparr>currentPhase := p\<rparr>"

record snapshot =
  snap_pauseTriggered :: bool
  snap_checkpointCount :: nat
  snap_editWriteCallCount :: nat
  snap_estimatedWrittenBytes :: nat

definition snapshot :: "tracker \<Rightarrow> snapshot" where
  "snapshot t =
     \<lparr>snap_pauseTriggered = pauseTriggered t,
      snap_checkpointCount = checkpointCount t,
      snap_editWriteCallCount = editWriteCallCount t,
      snap_estimatedWrittenBytes = estimatedWrittenBytes t\<rparr>"

text \<open>The event stream of one worker call, delivered to the handler in order.\<close>

fun deliver :: "PauseStrategy \<Rightarrow> tracker \<Rightarrow> AgentEvent list \<Rightarrow> tracker \<times> Phase list" where
  "deliver ps t [] = (t, [])"
| "deliver ps t (ev # evs) =
     (case onEvent ps t ev of
        (t', fired) \<Rightarrow>
          (case deliver ps t' evs of
             (t'', later) \<Rightarrow> (t'', (case fired of None \<Rightarrow> [] | Some p \<Rightarrow> [p]) @ later)))"

fun qualifying :: "string list \<Rightarrow> AgentEvent \<Rightarrow> bool" where
  "qualifying tools (ToolExecutionEnd cid toolName isError result) =
     (\<not> isError \<and> toolName \<in> set tools)"
| "qualifying tools ev = False"

section \<open>Domain types (types.ts)\<close>

datatype AgentId = A | B

datatype Actor = AgentActor AgentId | System

datatype EventStreamMode = Compact | Full

datatype WorkspaceMode = Direct | EphemeralCopy

datatype ThinkingLevel = Off | Minimal | Low | Medium | High | XHigh

datatype TurnPolicy =
    AlternateEachRound
  | SameDriverUntilNavigatorSignoff (maxConsecutiveRounds: nat) (maxConsecutiveCheckpoints: nat)

record ModelSpec =
  provider :: string
  modelId :: string
  thinkingLevel :: ThinkingLevel

record PairAgentConfig =
  modelA :: ModelSpec
  modelB :: ModelSpec
  cwd :: string
  maxRounds :: nat
  driverStartsAs :: AgentId
  pauseStrategy :: PauseStrategy
  turnPolicy :: TurnPolicy

record ContributionSummary =
  agent :: AgentId
  cs_estimatedWrittenBytes :: nat
  cs_editWriteCallCount :: nat
  roundsDriven :: nat
  checkpointsWhileDriving :: nat
  roughCodeSharePercent :: rat

record RunSummary =
  rs_checkpointCount :: nat
  rs_swapCount :: nat
  totalEstimatedWrittenBytes :: nat
  rs_contributions :: "AgentId \<Rightarrow> ContributionSummary"

fun otherAgent :: "AgentId \<Rightarrow> AgentId" where
  "otherAgent A = B"
| "otherAgent B = A"

section \<open>Run summary (pair-orchestrator.ts)\<close>

text \<open>
  Counts are natural numbers and the percentage is an exact rational: \<open>Math.round\<close> is
  \<open>\<lfloor>x + 1/2\<rfloor>\<close> (ties go up).
\<close>

definition contributionTemplate :: "AgentId \<Rightarrow> ContributionSummary" where
  "contributionTemplate a =
     \<lparr>agent = a, cs_estimatedWrittenBytes = 0, cs_editWriteCallCount = 0, roundsDriven = 0,
      checkpointsWhileDriving = 0, roughCodeSharePercent = 0\<rparr>"

text \<open>
  Numbers are binary64 doubles. A finite double is the rational it denotes, and an
  arithmetic operation of the program is the exact operation followed by \<open>to_double\<close>,
  the rounding to the nearest double with ties to the even significand: for \<open>x\<close> in
  the binade \<open>2^e \<le> |x| < 2^(e+1)\<close> the doubles are the multiples of \<open>2^(e-52)\<close>.
  The exponent is not bounded, so this is binary64 on its normal range
  (\<open>2^-1022 \<le> |x| < 2^1024\<close>), where every number of \<open>buildSummary\<close> lies when the
  counts are below \<open>2^53\<close>. \<open>Math.round\<close> is exact on a double: the nearest integer,
  a tie going up.
\<close>

definition round_half_even :: "rat \<Rightarrow> int" where
  "round_half_even y =
     (let f = \<lfloor>y\<rfloor>; d = y - of_int f
      in if d < 1 / 2 then f
         else if 1 / 2 < d then f + 1
         else if even f then f else f + 1)"

definition binade :: "rat \<Rightarrow> int" where
  "binade x =
     (case quotient_of \<bar>x\<bar> of
        (p, q) \<Rightarrow>
          (let d = bitlen p - bitlen q
           in if power_int 2 d \<le> \<bar>x\<bar> then d else d - 1))"

definition to_double :: "rat \<Rightarrow> rat" where
  "to_double x =
     (if x = 0 then 0
      else (let ulp = power_int 2 (binade x - 52)
            in of_int (round_half_even (x / ulp)) * ulp))"

definition math_round :: "rat \<Rightarrow> int" where
  "math_round x = \<lfloor>x + 1 / 2\<rfloor>"

definition roundPercent :: "rat \<Rightarrow> rat" where
  "roundPercent v = to_double (of_int (math_round (to_double (v * 10))) / 10)"

definition set_share :: "rat \<Rightarrow> ContributionSummary \<Rightarrow> ContributionSummary" where
  "set_share p c = c\<lparr>roughCodeSharePercent := p\<rparr>"

definition buildSummary ::
  "(AgentId \<Rightarrow> ContributionSummary) \<Rightarrow> nat \<Rightarrow> nat \<Rightarrow> RunSummary" where
  "buildSummary contributions checkpoints swaps =
     (let total = cs_estimatedWrittenBytes (contributions A)
                    + cs_estimatedWrittenBytes (contributions B);
          shares =
            (if total > 0 then
               (roundPercent (to_double (to_double
                  (of_nat (cs_estimatedWrittenBytes (contributions A)) / of_nat total) * 100)),
                roundPercent (to_double (to_double
                  (of_nat (cs_estimatedWrittenBytes (contributions B)) / of_nat total) * 100)))
             else
               (let totalDrivenRounds = roundsDriven (contributions A)
                                          + roundsDriven (contributions B)
                in if totalDrivenRounds > 0 then
                     (roundPercent (to_double (to_double
                        (of_nat (roundsDriven (contributions A)) / of_nat totalDrivenRounds)
                          * 100)),
                      roundPercent (to_double (to_double
                        (of_nat (roundsDriven (contributions B)) / of_nat totalDrivenRounds)
                          * 100)))
                   else (0, 0)))
      in \<lparr>rs_checkpointCount = checkpoints,
          rs_swapCount = swaps,
          totalEstimatedWrittenBytes = total,
          rs_contributions =
            (\<lambda>a. case a of A \<Rightarrow> set_share (fst shares) (contributions A)
                          | B \<Rightarrow> set_share (snd shares) (contributions B))\<rparr>)"

section \<open>Session observer (observability.ts)\<close>

text \<open>
  The observer's state is a record of its fields and of the two files it writes. The
  file system may refuse a write: \<open>fs_stream_error k\<close> is the error of the \<open>k\<close>-th line
  written to the event stream (if any), \<open>fs_log_error\<close> the error of the write of the
  final log (if any). The promise chain of stream writes is run at each call, in order.
  \<open>Date.now()\<close> is the argument \<open>now\<close>. Errors are JavaScript values: an \<open>Error\<close> with its
  message, or any other thrown value with its \<open>String(...)\<close> rendering.
\<close>

datatype js_error = Error string | Thrown string

fun error_message :: "js_error \<Rightarrow> string" where
  "error_message (Error m) = m"
| "error_message (Thrown s) = s"

datatype Category = CatSession | CatPrompt | CatAgentEvent | CatOrchestrator

datatype RunStatus = Completed | Failed

record EventInput =
  category :: Category
  ev_name :: string
  ev_actor :: "Actor option"
  ev_round :: "nat option"
  ev_phase :: "string option"
  ev_details :: "(string \<times> js_value) list option"

record LogEvent = EventInput +
  index :: nat
  timestamp :: int

record ObservabilitySummary =
  os_logFile :: string
  eventStreamFile :: "string option"
  os_eventStreamMode :: "EventStreamMode option"
  os_eventStreamWriteError :: "string option"
  eventCount :: nat
  promptCount :: nat
  toolExecutionCount :: nat
  toolExecutionErrorCount :: nat
  durationMs :: int

record StreamSummary =
  ss_eventCount :: nat
  ss_promptCount :: nat
  ss_toolExecutionCount :: nat
  ss_toolExecutionErrorCount :: nat
  ss_durationMs :: int
  ss_eventStreamMode :: EventStreamMode

datatype stream_line =
    MetaStart int string EventStreamMode
  | EventLine LogEvent
  | MetaEnd int RunStatus "string option" StreamSummary

record LogMeta =
  lm_startedAt :: int
  lm_endedAt :: int
  lm_durationMs :: int
  lm_status :: RunStatus
  lm_errorMessage :: "string option"
  lm_eventLogFile :: "string option"
  lm_eventStreamMode :: EventStreamMode
  lm_eventLogWriteError :: "string option"

record LogPayload =
  lp_meta :: LogMeta
  lp_summary :: ObservabilitySummary
  lp_events :: "LogEvent list"

record SessionObserverOptions =
  opt_cwd :: string
  opt_logFile :: "string option"
  opt_eventLogFile :: "string option"
  opt_disableEventStream :: bool
  opt_eventStreamMode :: "EventStreamMode option"

record SessionObserver =
  logFile :: string
  eventLogFile :: "string option"
  startedAt :: int
  events :: "LogEvent list"
  eventStreamMode :: EventStreamMode
  eventIndex :: nat
  flushedSummary :: "ObservabilitySummary option"
  eventStreamInitialized :: bool
  eventStreamWriteError :: "string option"
  stream_file :: "stream_line list"
  stream_writes :: nat
  log_file :: "LogPayload option"
  fs_stream_error :: "nat \<Rightarrow> string option"
  fs_log_error :: "string option"

definition ends_with :: "string \<Rightarrow> string \<Rightarrow> bool" where
  "ends_with sfx s = (length sfx \<le> length s \<and> drop (length s - length sfx) s = sfx)"

definition defaultEventLogFile :: "string \<Rightarrow> string" where
  "defaultEventLogFile lf =
     (if ends_with ''.json'' lf then take (length lf - length ''.json'') lf @ ''.events.jsonl''
      else lf @ ''.events.jsonl'')"

definition shouldStreamEvent :: "SessionObserver \<Rightarrow> LogEvent \<Rightarrow> bool" where
  "shouldStreamEvent ob ev =
     (if eventStreamMode ob = Full then True
      else if category ev = CatAgentEvent \<and> ev_name ev = ''message_update'' then False
      else True)"

definition queueEventStreamLine :: "stream_line \<Rightarrow> SessionObserver \<Rightarrow> SessionObserver" where
  "queueEventStreamLine entry ob =
     (if eventLogFile ob = None \<or> eventLogFile ob = Some []
         \<or> (case eventStreamWriteError ob of None \<Rightarrow> False | Some e \<Rightarrow> e \<noteq> [])
      then ob
      else
        (case fs_stream_error ob (stream_writes ob) of
           Some err \<Rightarrow>
             ob\<lparr>eventStreamWriteError := Some err, stream_writes := stream_writes ob + 1\<rparr>
         | None \<Rightarrow>
             ob\<lparr>eventStreamInitialized := True,
                stream_file := stream_file ob @ [entry],
                stream_writes := stream_writes ob + 1\<rparr>))"

text \<open>
  The constructor. The default log path is built by \<open>path.join\<close> from the start time:
  it is the argument \<open>default_log\<close>.
\<close>

definition new_SessionObserver ::
  "int \<Rightarrow> string \<Rightarrow> (nat \<Rightarrow> string option) \<Rightarrow> string option \<Rightarrow> SessionObserverOptions
     \<Rightarrow> SessionObserver" where
  "new_SessionObserver now default_log stream_err log_err options =
     (let lf = or_else (opt_logFile options) default_log;
          elf = (if opt_disableEventStream options then None
                 else Some (or_else (opt_eventLogFile options) (defaultEventLogFile lf)));
          mode = or_else (opt_eventStreamMode options) Compact
      in queueEventStreamLine (MetaStart now lf mode)
           \<lparr>logFile = lf, eventLogFile = elf, startedAt = now, events = [],
            eventStreamMode = mode, eventIndex = 0, flushedSummary = None,
            eventStreamInitialized = False, eventStreamWriteError = None,
            stream_file = [], stream_writes = 0, log_file = None,
            fs_stream_error = stream_err, fs_log_error = log_err\<rparr>)"

definition record_ev :: "int \<Rightarrow> EventInput \<Rightarrow> SessionObserver \<Rightarrow> SessionObserver" where
  "record_ev now event ob =
     (if flushedSummary ob \<noteq> None then ob
      else
        (let renderedEvent = EventInput.extend event \<lparr>index = eventIndex ob, timestamp = now\<rparr>;
             ob1 = ob\<lparr>events := events ob @ [renderedEvent], eventIndex := eventIndex ob + 1\<rparr>
         in if shouldStreamEvent ob1 renderedEvent
            then queueEventStreamLine (EventLine renderedEvent) ob1
            else ob1))"

definition is_prompt_start :: "LogEvent \<Rightarrow> bool" where
  "is_prompt_start ev = (category ev = CatPrompt \<and> ev_name ev = ''prompt_start'')"

definition is_tool_end :: "LogEvent \<Rightarrow> bool" where
  "is_tool_end ev = (category ev = CatAgentEvent \<and> ev_name ev = ''tool_execution_end'')"

definition details_isError :: "LogEvent \<Rightarrow> bool" where
  "details_isError ev =
     (case ev_details ev of
        None \<Rightarrow> False
      | Some kvs \<Rightarrow> \<not> js_falsy (js_get (JObj kvs) ''isError''))"

definition truthy_message :: "string option \<Rightarrow> string option" where
  "truthy_message m = (case m of None \<Rightarrow> None | Some s \<Rightarrow> if s = [] then None else Some s)"

definition flush ::
  "int \<Rightarrow> RunStatus \<Rightarrow> string option \<Rightarrow> SessionObserver
     \<Rightarrow> (js_error + ObservabilitySummary) \<times> SessionObserver" where
  "flush now st msg ob =
     (case flushedSummary ob of
        Some s \<Rightarrow> (Inr s, ob)
      | None \<Rightarrow>
          (let endedAt = now;
               duration = endedAt - startedAt ob;
               prompts = length (filter is_prompt_start (events ob));
               toolEnds = filter is_tool_end (events ob);
               toolCount = length toolEnds;
               toolErrors = length (filter details_isError toolEnds);
               ob1 = queueEventStreamLine
                       (MetaEnd endedAt st (truthy_message msg)
                          \<lparr>ss_eventCount = length (events ob), ss_promptCount = prompts,
                           ss_toolExecutionCount = toolCount,
                           ss_toolExecutionErrorCount = toolErrors,
                           ss_durationMs = duration,
                           ss_eventStreamMode = eventStreamMode ob\<rparr>) ob;
               summ = \<lparr>os_logFile = logFile ob1,
                       eventStreamFile = eventLogFile ob1,
                       os_eventStreamMode = Some (eventStreamMode ob1),
                       os_eventStreamWriteError = truthy_message (eventStreamWriteError ob1),
                       eventCount = length (events ob1),
                       promptCount = prompts,
                       toolExecutionCount = toolCount,
                       toolExecutionErrorCount = toolErrors,
                       durationMs = duration\<rparr>;
               payload = \<lparr>lp_meta =
                            \<lparr>lm_startedAt = startedAt ob1, lm_endedAt = endedAt,
                             lm_durationMs = duration, lm_status = st,
                             lm_errorMessage = msg,
                             lm_eventLogFile = eventLogFile ob1,
                             lm_eventStreamMode = eventStreamMode ob1,
                             lm_eventLogWriteError = eventStreamWriteError ob1\<rparr>,
                          lp_summary = summ,
                          lp_events = events ob1\<rparr>
           in case fs_log_error ob1 of
                Some err \<Rightarrow> (Inl (Error err), ob1)
              | None \<Rightarrow> (Inr summ, ob1\<lparr>log_file := Some payload, flushedSummary := Some summ\<rparr>)))"

text \<open>
  The recording helpers of the observer. \<open>shortHash\<close> (the first 12 hexadecimal digits
  of a SHA-256 digest) is the argument \<open>sh\<close>.
\<close>

definition js_is_string :: "js_value \<Rightarrow> bool" where
  "js_is_string v = (case v of JStr x \<Rightarrow> True | _ \<Rightarrow> False)"

definition js_string :: "js_value \<Rightarrow> string" where
  "js_string v = (case v of JStr x \<Rightarrow> x | _ \<Rightarrow> [])"

definition summarize_field ::
  "(string \<Rightarrow> string) \<Rightarrow> js_value \<Rightarrow> string \<Rightarrow> string \<Rightarrow> (string \<times> js_value) list" where
  "summarize_field sh rec key out =
     (if js_is_string (js_get rec key)
      then [(out @ ''Length'', JNum (int (length (js_string (js_get rec key))))),
            (out @ ''Hash'', JStr (sh (js_string (js_get rec key))))]
      else [])"

definition summarizeToolArgs :: "(string \<Rightarrow> string) \<Rightarrow> js_value \<Rightarrow> (string \<times> js_value) list" where
  "summarizeToolArgs sh args =
     (if js_falsy args \<or> \<not> js_typeof_object args then []
      else
        (if js_is_string (js_get args ''path'') then [(''path'', js_get args ''path'')] else [])
        @ summarize_field sh args ''command'' ''command''
        @ summarize_field sh args ''content'' ''content''
        @ summarize_field sh args ''oldText'' ''oldText''
        @ summarize_field sh args ''newText'' ''newText'')"

definition is_text_item :: "js_value \<Rightarrow> bool" where
  "is_text_item item =
     (\<not> js_falsy item \<and> js_typeof_object item \<and> js_get item ''type'' = JStr ''text'')"

definition summarizeToolResult :: "js_value \<Rightarrow> (string \<times> js_value) list" where
  "summarizeToolResult res =
     (if js_falsy res \<or> \<not> js_typeof_object res then []
      else
        (case js_get res ''content'' of
           JArr items \<Rightarrow>
             (''contentBlocks'', JNum (int (length items)))
             # (case find is_text_item items of
                  Some item \<Rightarrow>
                    (if js_is_string (js_get item ''text'')
                     then [(''firstTextLength'',
                            JNum (int (length (js_string (js_get item ''text'')))))]
                     else [])
                | None \<Rightarrow> [])
         | _ \<Rightarrow> []))"

definition agent_name :: "AgentId \<Rightarrow> string" where
  "agent_name a = (case a of A \<Rightarrow> ''A'' | B \<Rightarrow> ''B'')"

definition recordPromptStart ::
  "int \<Rightarrow> (string \<Rightarrow> string) \<Rightarrow> AgentId \<Rightarrow> nat option \<Rightarrow> string \<Rightarrow> string \<Rightarrow> string
     \<Rightarrow> SessionObserver \<Rightarrow> SessionObserver" where
  "recordPromptStart now sh a rnd ph promptKind prompt =
     record_ev now
       \<lparr>category = CatPrompt, ev_name = ''prompt_start'', ev_actor = Some (AgentActor a),
        ev_round = rnd, ev_phase = Some ph,
        ev_details = Some [(''promptKind'', JStr promptKind),
                           (''promptLength'', JNum (int (length prompt))),
                           (''promptHash'', JStr (sh prompt))]\<rparr>"

definition recordPromptEnd ::
  "int \<Rightarrow> (string \<Rightarrow> string) \<Rightarrow> AgentId \<Rightarrow> nat option \<Rightarrow> string \<Rightarrow> string \<Rightarrow> string
     \<Rightarrow> SessionObserver \<Rightarrow> SessionObserver" where
  "recordPromptEnd now sh a rnd ph promptKind response =
     record_ev now
       \<lparr>category = CatPrompt, ev_name = ''prompt_end'', ev_actor = Some (AgentActor a),
        ev_round = rnd, ev_phase = Some ph,
        ev_details = Some [(''promptKind'', JStr promptKind),
                           (''responseLength'', JNum (int (length response))),
                           (''responseHash'', JStr (sh response))]\<rparr>"

definition message_details :: "AgentMessage \<Rightarrow> (string \<times> js_value) list" where
  "message_details m =
     (if role m = ''assistant''
      then (''stopReason'', JStr (stopReason m))
           # (case truthy_message (errorMessage m) of
                Some e \<Rightarrow> [(''errorMessage'', JStr e)]
              | None \<Rightarrow> [])
      else [])"

definition agent_event_input ::
  "(string \<Rightarrow> string) \<Rightarrow> AgentId \<Rightarrow> nat option \<Rightarrow> string \<Rightarrow> AgentEvent \<Rightarrow> EventInput" where
  "agent_event_input sh a rnd ph event =
     (let base = \<lparr>category = CatAgentEvent, ev_name = [], ev_actor = Some (AgentActor a),
                  ev_round = rnd, ev_phase = Some ph, ev_details = None\<rparr>
      in case event of
           MessageUpdate ty \<Rightarrow>
             base\<lparr>ev_name := ''message_update'',
                  ev_details := Some [(''assistantEventType'', JStr ty)]\<rparr>
         | ToolExecutionStart cid toolName args \<Rightarrow>
             base\<lparr>ev_name := ''tool_execution_start'',
                  ev_details := Some [(''toolCallId'', JStr cid), (''toolName'', JStr toolName),
                                      (''args'', JObj (summarizeToolArgs sh args))]\<rparr>
         | ToolExecutionEnd cid toolName isError res \<Rightarrow>
             base\<lparr>ev_name := ''tool_execution_end'',
                  ev_details := Some [(''toolCallId'', JStr cid), (''toolName'', JStr toolName),
                                      (''isError'', JBool isError),
                                      (''result'', JObj (summarizeToolResult res))]\<rparr>
         | MessageStart m \<Rightarrow>
             base\<lparr>ev_name := ''message_start'',
                  ev_details := Some ((''role'', JStr (role m)) # message_details m)\<rparr>
         | MessageEnd m \<Rightarrow>
             base\<lparr>ev_name := ''message_end'',
                  ev_details := Some ((''role'', JStr (role m)) # message_details m)\<rparr>
         | TurnEnd m n \<Rightarrow>
             base\<lparr>ev_name := ''turn_end'',
                  ev_details := Some ((''toolResults'', JNum (int n)) # message_details m)\<rparr>
         | OtherEvent ty \<Rightarrow> base\<lparr>ev_name := ty\<rparr>)"

definition recordAgentEvent ::
  "int \<Rightarrow> (string \<Rightarrow> string) \<Rightarrow> AgentId \<Rightarrow> nat option \<Rightarrow> string \<Rightarrow> AgentEvent
     \<Rightarrow> SessionObserver \<Rightarrow> SessionObserver" where
  "recordAgentEvent now sh a rnd ph event = record_ev now (agent_event_input sh a rnd ph event)"

section \<open>Model worker and the world outside (model-worker.ts)\<close>

text \<open>
  The agent runtime, the clock, the prompt texts and the hash are the world \<open>w\<close> the
  orchestrator runs in. \<open>env w k a p\<close> is what the \<open>k\<close>-th call of \<open>agent.prompt\<close> of the run
  does, made on agent \<open>a\<close> with prompt \<open>p\<close>: the events it emits, and how it ends (it
  throws, or it leaves a last assistant message, or none). \<open>clock w k\<close> is the value of
  the \<open>k\<close>-th read of \<open>Date.now()\<close>. \<open>render w\<close> is the text of a prompt (prompts.ts),
  \<open>shortHash w\<close> the hash of the observer, \<open>toISOString w\<close> the rendering of a time.
  The calls made on the two agents are kept in order in \<open>agent_log\<close>.
\<close>

datatype PairRole = Driver | Navigator

datatype agent_result =
    PromptThrows js_error
  | NoAssistantMessage
  | LastAssistant AgentMessage

record prompt_outcome =
  po_events :: "AgentEvent list"
  po_result :: agent_result

datatype prompt =
    PlanDraftPrompt string
  | PlanCritiquePrompt string string
  | PlanRevisionPrompt string string string
  | SoloPlanPrompt string
  | DriverTurnPrompt string string nat AgentId AgentId PauseStrategy TurnPolicy
  | SoloDriverTurnPrompt string string AgentId AgentId PauseStrategy
  | PauseInterruptionPrompt AgentId Phase
  | NavigatorReviewPrompt string string nat AgentId string bool TurnPolicy
  | SoloNavigatorReviewPrompt string string AgentId AgentId string nat
  | DriverDecisionPrompt string
  | FinalReviewPrompt string string
  | JointSynthesisPrompt string string

record world =
  env :: "nat \<Rightarrow> AgentId \<Rightarrow> string \<Rightarrow> prompt_outcome"
  clock :: "nat \<Rightarrow> int"
  render :: "prompt \<Rightarrow> string"
  shortHash :: "string \<Rightarrow> string"
  toISOString :: "int \<Rightarrow> string"

datatype agent_call =
    AgentSetTools AgentId PairRole
  | AgentAppendMessage AgentId string int
  | AgentSteer AgentId string int
  | AgentPrompt AgentId string

record SharedEntry =
  stage :: string
  se_actor :: Actor
  content :: string
  se_timestamp :: int

record ostate =
  sharedJournal :: "SharedEntry list"
  observer :: "SessionObserver option"
  ticks :: nat
  calls :: nat
  agent_log :: "agent_call list"

type_synonym 'a orch = "ostate \<Rightarrow> (js_error + 'a) \<times> ostate"

definition ret :: "'a \<Rightarrow> 'a orch" where
  "ret x st = (Inr x, st)"

definition throw :: "js_error \<Rightarrow> 'a orch" where
  "throw e st = (Inl e, st)"

definition bnd :: "'a orch \<Rightarrow> ('a \<Rightarrow> 'b orch) \<Rightarrow> 'b orch" where
  "bnd m k st = (case m st of (Inl e, st') \<Rightarrow> (Inl e, st') | (Inr x, st') \<Rightarrow> k x st')"

definition seq :: "unit orch \<Rightarrow> 'b orch \<Rightarrow> 'b orch" where
  "seq m k = bnd m (\<lambda>u. k)"

definition date_now :: "world \<Rightarrow> int orch" where
  "date_now w st = (Inr (clock w (ticks st)), st\<lparr>ticks := ticks st + 1\<rparr>)"

definition agent_do :: "agent_call \<Rightarrow> unit orch" where
  "agent_do c st = (Inr (), st\<lparr>agent_log := agent_log st @ [c]\<rparr>)"

text \<open>\<open>this.observer?.record(...)\<close> and its helpers: nothing without an observer.\<close>

definition observe :: "world \<Rightarrow> (int \<Rightarrow> SessionObserver \<Rightarrow> SessionObserver) \<Rightarrow> unit orch" where
  "observe w f st =
     (case observer st of
        None \<Rightarrow> (Inr (), st)
      | Some ob \<Rightarrow>
          (Inr (), st\<lparr>observer := Some (f (clock w (ticks st)) ob), ticks := ticks st + 1\<rparr>))"

definition newline :: string where
  "newline = [CHR 0x0A]"

fun join_with :: "string \<Rightarrow> string list \<Rightarrow> string" where
  "join_with sep [] = []"
| "join_with sep [x] = x"
| "join_with sep (x # y # zs) = x @ sep @ join_with sep (y # zs)"

definition setRole :: "AgentId \<Rightarrow> PairRole \<Rightarrow> unit orch" where
  "setRole a r = agent_do (AgentSetTools a r)"

definition appendSharedContext :: "world \<Rightarrow> AgentId \<Rightarrow> string \<Rightarrow> unit orch" where
  "appendSharedContext w a text =
     bnd (date_now w) (\<lambda>t. agent_do (AgentAppendMessage a (''[SHARED CONTEXT]'' @ newline @ text) t))"

definition appendPrivateMemory :: "world \<Rightarrow> AgentId \<Rightarrow> string \<Rightarrow> unit orch" where
  "appendPrivateMemory w a text =
     bnd (date_now w) (\<lambda>t. agent_do (AgentAppendMessage a
        (''[PRIVATE MEMORY - MODEL '' @ agent_name a @ '' ONLY]'' @ newline @ text) t))"

definition assistantText :: "AgentMessage \<Rightarrow> string" where
  "assistantText m = trim (join_with newline (textParts m))"

fun deliver_events :: "(AgentEvent \<Rightarrow> 'h \<Rightarrow> 'h orch) \<Rightarrow> AgentEvent list \<Rightarrow> 'h \<Rightarrow> 'h orch" where
  "deliver_events f [] h = ret h"
| "deliver_events f (ev # evs) h = bnd (f ev h) (deliver_events f evs)"

definition agent_prompt :: "world \<Rightarrow> AgentId \<Rightarrow> string \<Rightarrow> prompt_outcome orch" where
  "agent_prompt w a p st =
     (Inr (env w (calls st) a p),
      st\<lparr>calls := calls st + 1, agent_log := agent_log st @ [AgentPrompt a p]\<rparr>)"

definition failure_reason :: "AgentMessage \<Rightarrow> string" where
  "failure_reason m =
     (case errorMessage m of
        None \<Rightarrow> ''unknown provider error''
      | Some e \<Rightarrow> if trim e = [] then ''unknown provider error'' else trim e)"

text \<open>
  \<open>ModelWorker.runPrompt\<close>: the subscriber \<open>f\<close> sees the events of the call, with its
  state \<open>h\<close>; then the call throws what \<open>agent.prompt\<close> threw, or returns the empty text
  when there is no assistant message, or throws when the last assistant message stopped
  with \<open>error\<close> or \<open>aborted\<close>, or returns the text of that message.
\<close>

definition runPrompt ::
  "world \<Rightarrow> ModelSpec \<Rightarrow> AgentId \<Rightarrow> string \<Rightarrow> (AgentEvent \<Rightarrow> 'h \<Rightarrow> 'h orch) \<Rightarrow> 'h
     \<Rightarrow> (string \<times> 'h) orch" where
  "runPrompt w spec a p f h =
     bnd (agent_prompt w a p) (\<lambda>out.
     bnd (deliver_events f (po_events out) h) (\<lambda>h'.
       case po_result out of
         PromptThrows e \<Rightarrow> throw e
       | NoAssistantMessage \<Rightarrow> ret ([], h')
       | LastAssistant m \<Rightarrow>
           if stopReason m = ''error'' \<or> stopReason m = ''aborted''
           then throw (Error (''Model '' @ agent_name a @ '' ('' @ provider spec @ ''/''
                              @ modelId spec @ '') failed: '' @ failure_reason m))
           else ret (assistantText m, h')))"


section \<open>Session orchestrator (pair-orchestrator.ts)\<close>

record RoundResult =
  rr_round :: nat
  rr_driver :: AgentId
  rr_navigator :: AgentId
  rr_pauseTriggered :: bool
  rr_checkpointCount :: nat
  rr_editWriteCallCount :: nat
  rr_estimatedWrittenBytes :: nat
  driverReport :: DriverReport
  navigatorReview :: NavigatorReview
  driverDecision :: "DriverDecision option"

record FinalReview =
  reviewA :: NavigatorReview
  reviewB :: NavigatorReview
  jointVerdict :: JointVerdict
  rationale :: string
  nextSteps :: string
  fr_raw :: string

record ExecutionResult =
  er_rounds :: "RoundResult list"
  er_checkpointCount :: nat
  er_swapCount :: nat
  er_contributions :: "AgentId \<Rightarrow> ContributionSummary"
  er_finalReview :: "FinalReview option"

record ResultCore =
  prr_task :: string
  prr_agreedPlan :: string
  prr_rounds :: "RoundResult list"
  prr_finalReview :: FinalReview
  prr_summary :: RunSummary
  prr_sharedJournal :: "SharedEntry list"

record PairRunResult = ResultCore +
  observability :: "ObservabilitySummary option"

text \<open>
  Modelled from the spec: the \<open>ExecutionMode\<close> type and the \<open>executionMode\<close> field of
  \<open>PairAgentConfig\<close>, which the later orchestrator reads; the types.ts among the sources
  is the one of the earlier orchestrator. The two strategies are \<open>paired_turns\<close> and
  \<open>solo_driver_then_reviewer\<close>.
\<close>

datatype ExecutionMode = PairedTurns | SoloDriverThenReviewer

record PairAgentConfig2 = PairAgentConfig +
  executionMode :: ExecutionMode

fun string_of_nat :: "nat \<Rightarrow> string" where
  "string_of_nat n =
     (if n < 10 then [char_of (48 + n)]
      else string_of_nat (n div 10) @ [char_of (48 + n mod 10)])"

definition actor_name :: "Actor \<Rightarrow> string" where
  "actor_name a = (case a of AgentActor x \<Rightarrow> agent_name x | System \<Rightarrow> ''system'')"

definition status_name :: "DriverStatus \<Rightarrow> string" where
  "status_name x = (case x of StatusContinue \<Rightarrow> ''continue'' | StatusDone \<Rightarrow> ''done'')"

definition recommendation_name :: "DriverRecommendation \<Rightarrow> string" where
  "recommendation_name x = (case x of RecContinue \<Rightarrow> ''continue'' | RecHandoff \<Rightarrow> ''handoff'')"

definition decision_name :: "Decision \<Rightarrow> string" where
  "decision_name x = (case x of Accept \<Rightarrow> ''accept'' | Partial \<Rightarrow> ''partial'' | Reject \<Rightarrow> ''reject'')"

definition verdict_name :: "JointVerdict \<Rightarrow> string" where
  "verdict_name x = (case x of APPROVED \<Rightarrow> ''APPROVED'' | NEEDS_MORE_WORK \<Rightarrow> ''NEEDS_MORE_WORK'')"

definition turn_policy_mode :: "TurnPolicy \<Rightarrow> string" where
  "turn_policy_mode tp =
     (case tp of AlternateEachRound \<Rightarrow> ''alternate_each_round''
               | SameDriverUntilNavigatorSignoff r c \<Rightarrow> ''same_driver_until_navigator_signoff'')"

definition pause_mode :: "PauseStrategy \<Rightarrow> string" where
  "pause_mode ps = (case ps of PauseNone \<Rightarrow> ''none'' | EveryNFileEdits n tools \<Rightarrow> ''every_n_file_edits'')"

definition execution_mode_name :: "ExecutionMode \<Rightarrow> string" where
  "execution_mode_name m =
     (case m of PairedTurns \<Rightarrow> ''paired_turns''
              | SoloDriverThenReviewer \<Rightarrow> ''solo_driver_then_reviewer'')"

definition formatSharedEntry :: "world \<Rightarrow> SharedEntry \<Rightarrow> string" where
  "formatSharedEntry w entry =
     join_with newline
       [''Stage: '' @ stage entry, ''Actor: '' @ actor_name (se_actor entry),
        ''Timestamp: '' @ toISOString w (se_timestamp entry), content entry]"

definition push_entry :: "SharedEntry \<Rightarrow> unit orch" where
  "push_entry entry st = (Inr (), st\<lparr>sharedJournal := sharedJournal st @ [entry]\<rparr>)"

definition broadcastShared :: "world \<Rightarrow> string \<Rightarrow> Actor \<Rightarrow> string \<Rightarrow> unit orch" where
  "broadcastShared w stg act txt =
     bnd (date_now w) (\<lambda>t.
       (let entry = \<lparr>stage = stg, se_actor = act, content = txt, se_timestamp = t\<rparr>;
            rendered = formatSharedEntry w entry
        in seq (push_entry entry)
          (seq (appendSharedContext w A rendered)
               (appendSharedContext w B rendered))))"

definition worker_spec :: "'c PairAgentConfig_scheme \<Rightarrow> AgentId \<Rightarrow> ModelSpec" where
  "worker_spec cfg a = (case a of A \<Rightarrow> modelA cfg | B \<Rightarrow> modelB cfg)"

definition runPromptWithObservability ::
  "world \<Rightarrow> 'c PairAgentConfig_scheme \<Rightarrow> AgentId \<Rightarrow> string \<Rightarrow> string \<Rightarrow> string \<Rightarrow> nat option
     \<Rightarrow> (AgentEvent \<Rightarrow> 'h \<Rightarrow> 'h orch) \<Rightarrow> 'h \<Rightarrow> (string \<times> 'h) orch" where
  "runPromptWithObservability w cfg a p promptKind ph rnd onEv h =
     seq (observe w (\<lambda>now. recordPromptStart now (shortHash w) a rnd ph promptKind p))
    (bnd (runPrompt w (worker_spec cfg a) a p
            (\<lambda>ev h'. seq (observe w (\<lambda>now. recordAgentEvent now (shortHash w) a rnd ph ev))
                         (onEv ev h')) h) (\<lambda>res.
     seq (observe w (\<lambda>now. recordPromptEnd now (shortHash w) a rnd ph promptKind (fst res)))
         (ret res)))"

text \<open>A call with no \<open>onEvent\<close> of the caller's.\<close>

definition runPromptObserved ::
  "world \<Rightarrow> 'c PairAgentConfig_scheme \<Rightarrow> AgentId \<Rightarrow> string \<Rightarrow> string \<Rightarrow> string \<Rightarrow> nat option
     \<Rightarrow> string orch" where
  "runPromptObserved w cfg a p promptKind ph rnd =
     bnd (runPromptWithObservability w cfg a p promptKind ph rnd (\<lambda>ev h. ret h) ())
         (\<lambda>res. ret (fst res))"

definition collaborativePlanning :: "world \<Rightarrow> 'c PairAgentConfig_scheme \<Rightarrow> string \<Rightarrow> string orch" where
  "collaborativePlanning w cfg task =
     seq (setRole A Navigator)
    (seq (setRole B Navigator)
    (bnd (runPromptObserved w cfg A (render w (PlanDraftPrompt task))
            ''plan_draft'' ''planning'' None) (\<lambda>aDraftRaw.
     seq (broadcastShared w ''plan_draft'' (AgentActor A) (trim aDraftRaw))
    (bnd (runPromptObserved w cfg B (render w (PlanCritiquePrompt task (trim aDraftRaw)))
            ''plan_feedback'' ''planning'' None) (\<lambda>bFeedbackRaw.
     seq (broadcastShared w ''plan_feedback'' (AgentActor B) (trim bFeedbackRaw))
    (bnd (runPromptObserved w cfg A
            (render w (PlanRevisionPrompt task (trim aDraftRaw) (trim bFeedbackRaw)))
            ''plan_revision'' ''planning'' None) (\<lambda>aFinalRaw.
     seq (broadcastShared w ''plan_agreed'' (AgentActor A) (trim aFinalRaw))
         (ret (trim aFinalRaw)))))))))"

definition soloPlanning :: "world \<Rightarrow> 'c PairAgentConfig_scheme \<Rightarrow> string \<Rightarrow> string orch" where
  "soloPlanning w cfg task =
     seq (setRole A Navigator)
    (seq (setRole B Navigator)
    (bnd (runPromptObserved w cfg A (render w (SoloPlanPrompt task))
            ''plan_solo'' ''planning'' None) (\<lambda>aPlanRaw.
     seq (broadcastShared w ''plan_agreed'' (AgentActor A) (trim aPlanRaw))
         (ret (trim aPlanRaw)))))"

definition tracker_onEvent ::
  "PauseStrategy \<Rightarrow> (Phase \<Rightarrow> unit orch) option \<Rightarrow> AgentEvent \<Rightarrow> tracker \<Rightarrow> tracker orch" where
  "tracker_onEvent ps onCheckpoint ev t =
     (case onEvent ps t ev of
        (t', fired) \<Rightarrow>
          (case fired of
             None \<Rightarrow> ret t'
           | Some p \<Rightarrow>
               (case onCheckpoint of
                  None \<Rightarrow> ret t'
                | Some callback \<Rightarrow> seq (callback p) (ret t'))))"

definition steer :: "world \<Rightarrow> AgentId \<Rightarrow> AgentId \<Rightarrow> Phase \<Rightarrow> unit orch" where
  "steer w driverId navigatorId p =
     bnd (date_now w) (\<lambda>t.
       agent_do (AgentSteer driverId (render w (PauseInterruptionPrompt navigatorId p)) t))"

definition driver_report_text :: "nat \<Rightarrow> DriverReport \<Rightarrow> string" where
  "driver_report_text rnd report =
     join_with newline
       [''Round '' @ string_of_nat rnd,
        ''Status: '' @ status_name (status report),
        ''Summary: '' @ summary report,
        ''Changes: '' @ changes report,
        ''Navigator questions: '' @ questionsForNavigator report]"

definition decision_text :: "DriverDecision \<Rightarrow> string" where
  "decision_text d =
     ''Decision: '' @ decision_name (decision d) @ newline
       @ ''Justification: '' @ justification d"

definition round_result ::
  "nat \<Rightarrow> AgentId \<Rightarrow> AgentId \<Rightarrow> snapshot \<Rightarrow> DriverReport \<Rightarrow> NavigatorReview
     \<Rightarrow> DriverDecision option \<Rightarrow> RoundResult" where
  "round_result rnd driverId navigatorId stats report review dec =
     \<lparr>rr_round = rnd, rr_driver = driverId, rr_navigator = navigatorId,
      rr_pauseTriggered = snap_pauseTriggered stats,
      rr_checkpointCount = snap_checkpointCount stats,
      rr_editWriteCallCount = snap_editWriteCallCount stats,
      rr_estimatedWrittenBytes = snap_estimatedWrittenBytes stats,
      driverReport = report, navigatorReview = review, driverDecision = dec\<rparr>"

definition runRound ::
  "world \<Rightarrow> 'c PairAgentConfig_scheme \<Rightarrow> string \<Rightarrow> string \<Rightarrow> nat \<Rightarrow> AgentId \<Rightarrow> RoundResult orch" where
  "runRound w cfg task plan rnd driverId =
     (let navigatorId = otherAgent driverId;
          onEv = tracker_onEvent (pauseStrategy cfg) (Some (steer w driverId navigatorId))
      in
     seq (setRole driverId Driver)
    (seq (setRole navigatorId Navigator)
    (bnd (runPromptWithObservability w cfg driverId
            (render w (DriverTurnPrompt task plan rnd driverId navigatorId
                         (pauseStrategy cfg) (turnPolicy cfg)))
            ''driver_turn'' ''driving'' (Some rnd) onEv
            (createDriverExecutionTracker (pauseStrategy cfg))) (\<lambda>driven.
     (let report = parseDriverReport (fst driven);
          drivingStats = snapshot (snd driven)
      in
     seq (broadcastShared w ''driver_report'' (AgentActor driverId) (driver_report_text rnd report))
    (bnd (runPromptObserved w cfg navigatorId
            (render w (NavigatorReviewPrompt task plan rnd driverId (dr_raw report)
                         (snap_pauseTriggered drivingStats) (turnPolicy cfg)))
            ''navigator_review'' ''navigation'' (Some rnd)) (\<lambda>navigatorReviewRaw.
     (let review = parseNavigatorReview navigatorReviewRaw
      in
     seq (appendPrivateMemory w navigatorId (privateReflection review))
    (seq (if hasFeedback review
          then broadcastShared w ''navigator_feedback'' (AgentActor navigatorId)
                 (publicFeedback review)
          else broadcastShared w ''navigator_feedback'' (AgentActor navigatorId) ''NONE'')
    (seq (broadcastShared w ''navigator_handoff_signal'' (AgentActor navigatorId)
            (recommendation_name (driverRecommendation review)))
    (if hasFeedback review then
       bnd (runPromptWithObservability w cfg driverId
              (render w (DriverDecisionPrompt (publicFeedback review)))
              ''driver_decision'' ''feedback_resolution'' (Some rnd) onEv
              (setPhase FeedbackResolution (snd driven))) (\<lambda>decided.
       (let dec = parseDriverDecision (fst decided)
        in
       seq (broadcastShared w ''driver_decision'' (AgentActor driverId) (decision_text dec))
           (ret (round_result rnd driverId navigatorId (snapshot (snd decided))
                   report review (Some dec)))))
     else
       ret (round_result rnd driverId navigatorId (snapshot (snd driven))
              report review None))))))))))))"

definition shouldSwapDriver ::
  "'c PairAgentConfig_scheme \<Rightarrow> RoundResult \<Rightarrow> nat \<Rightarrow> nat \<Rightarrow> bool \<times> string" where
  "shouldSwapDriver cfg result consecutiveRounds consecutiveCheckpoints =
     (case turnPolicy cfg of
        AlternateEachRound \<Rightarrow> (True, ''alternate_each_round'')
      | SameDriverUntilNavigatorSignoff maxR maxC \<Rightarrow>
          if driverRecommendation (navigatorReview result) = RecHandoff
          then (True, ''navigator_requested_handoff'')
          else if consecutiveRounds \<ge> maxR
          then (True, ''safety_cap_rounds_'' @ string_of_nat maxR)
          else if consecutiveCheckpoints \<ge> maxC
          then (True, ''safety_cap_checkpoints_'' @ string_of_nat maxC)
          else (False, ''continue_same_driver''))"


record loop_state =
  ls_rounds :: "RoundResult list"
  ls_driverId :: AgentId
  consecutiveRoundsWithDriver :: nat
  consecutiveCheckpointsWithDriver :: nat
  ls_swapCount :: nat
  ls_checkpointCount :: nat
  ls_contributions :: "AgentId \<Rightarrow> ContributionSummary"

datatype 'a loop_ctl = Break 'a | Continue 'a

definition initial_loop_state :: "'c PairAgentConfig_scheme \<Rightarrow> loop_state" where
  "initial_loop_state cfg =
     \<lparr>ls_rounds = [], ls_driverId = driverStartsAs cfg, consecutiveRoundsWithDriver = 0,
      consecutiveCheckpointsWithDriver = 0, ls_swapCount = 0, ls_checkpointCount = 0,
      ls_contributions = contributionTemplate\<rparr>"

definition add_round :: "RoundResult \<Rightarrow> ContributionSummary \<Rightarrow> ContributionSummary" where
  "add_round result c =
     c\<lparr>roundsDriven := roundsDriven c + 1,
       checkpointsWhileDriving := checkpointsWhileDriving c + rr_checkpointCount result,
       cs_editWriteCallCount := cs_editWriteCallCount c + rr_editWriteCallCount result,
       cs_estimatedWrittenBytes := cs_estimatedWrittenBytes c + rr_estimatedWrittenBytes result\<rparr>"

definition accumulate_round :: "RoundResult \<Rightarrow> loop_state \<Rightarrow> loop_state" where
  "accumulate_round result ls =
     ls\<lparr>ls_rounds := ls_rounds ls @ [result],
        ls_checkpointCount := ls_checkpointCount ls + rr_checkpointCount result,
        consecutiveRoundsWithDriver := consecutiveRoundsWithDriver ls + 1,
        consecutiveCheckpointsWithDriver :=
          consecutiveCheckpointsWithDriver ls + rr_checkpointCount result,
        ls_contributions :=
          (ls_contributions ls)(ls_driverId ls :=
             add_round result (ls_contributions ls (ls_driverId ls)))\<rparr>"

definition swap_driver :: "loop_state \<Rightarrow> loop_state" where
  "swap_driver ls =
     ls\<lparr>ls_driverId := otherAgent (ls_driverId ls),
        ls_swapCount := ls_swapCount ls + 1,
        consecutiveRoundsWithDriver := 0,
        consecutiveCheckpointsWithDriver := 0\<rparr>"

definition round_start_event :: "nat \<Rightarrow> AgentId \<Rightarrow> EventInput" where
  "round_start_event rnd driverId =
     \<lparr>category = CatOrchestrator, ev_name = ''round_start'', ev_actor = Some System,
      ev_round = Some rnd, ev_phase = None,
      ev_details = Some [(''driver'', JStr (agent_name driverId)),
                         (''navigator'', JStr (agent_name (otherAgent driverId)))]\<rparr>"

definition round_end_event :: "nat \<Rightarrow> RoundResult \<Rightarrow> EventInput" where
  "round_end_event rnd result =
     \<lparr>category = CatOrchestrator, ev_name = ''round_end'', ev_actor = Some System,
      ev_round = Some rnd, ev_phase = None,
      ev_details = Some
        [(''driverStatus'', JStr (status_name (status (driverReport result)))),
         (''navigatorHasFeedback'', JBool (hasFeedback (navigatorReview result))),
         (''navigatorRecommendation'',
            JStr (recommendation_name (driverRecommendation (navigatorReview result)))),
         (''checkpointCount'', JNum (int (rr_checkpointCount result))),
         (''editWriteCallCount'', JNum (int (rr_editWriteCallCount result)))]\<rparr>"

definition driver_swap_event :: "nat \<Rightarrow> AgentId \<Rightarrow> AgentId \<Rightarrow> string \<Rightarrow> EventInput" where
  "driver_swap_event rnd previousDriver driverId reason =
     \<lparr>category = CatOrchestrator, ev_name = ''driver_swap'', ev_actor = Some System,
      ev_round = Some rnd, ev_phase = None,
      ev_details = Some [(''from'', JStr (agent_name previousDriver)),
                         (''to'', JStr (agent_name driverId)),
                         (''reason'', JStr reason)]\<rparr>"

definition stop_done_text :: "nat \<Rightarrow> string" where
  "stop_done_text rnd =
     ''Stopped at round '' @ string_of_nat rnd
       @ '' because driver signaled done and navigator had no feedback.''"

definition stop_max_text :: "nat \<Rightarrow> string" where
  "stop_max_text n = ''Reached max rounds ('' @ string_of_nat n @ '').''"

definition swap_text :: "AgentId \<Rightarrow> AgentId \<Rightarrow> string \<Rightarrow> string" where
  "swap_text previousDriver driverId reason =
     ''Swapped driver from '' @ agent_name previousDriver @ '' to '' @ agent_name driverId
       @ ''. Reason: '' @ reason @ ''.''"

text \<open>
  What follows a round in the loop of \<open>runPairedExecution\<close>: the counters, the
  \<open>round_end\<close> event, the two \<open>break\<close>s, and the swap decision.
\<close>

definition after_round ::
  "world \<Rightarrow> 'c PairAgentConfig_scheme \<Rightarrow> nat \<Rightarrow> loop_state \<Rightarrow> RoundResult
     \<Rightarrow> loop_state loop_ctl orch" where
  "after_round w cfg rnd ls result =
     (let ls1 = accumulate_round result ls
      in
     seq (observe w (\<lambda>now. record_ev now (round_end_event rnd result)))
       (if status (driverReport result) = StatusDone \<and> \<not> hasFeedback (navigatorReview result)
        then seq (broadcastShared w ''loop_stop'' System (stop_done_text rnd)) (ret (Break ls1))
        else if rnd = maxRounds cfg
        then seq (broadcastShared w ''loop_stop'' System (stop_max_text (maxRounds cfg)))
                 (ret (Break ls1))
        else
          (let swapDecision = shouldSwapDriver cfg result (consecutiveRoundsWithDriver ls1)
                                (consecutiveCheckpointsWithDriver ls1)
           in if fst swapDecision then
                (let ls2 = swap_driver ls1
                 in seq (broadcastShared w ''driver_swap'' System
                           (swap_text (ls_driverId ls1) (ls_driverId ls2) (snd swapDecision)))
                   (seq (observe w (\<lambda>now. record_ev now
                           (driver_swap_event rnd (ls_driverId ls1) (ls_driverId ls2)
                              (snd swapDecision))))
                        (ret (Continue ls2))))
              else ret (Continue ls1))))"

definition paired_iteration ::
  "world \<Rightarrow> 'c PairAgentConfig_scheme \<Rightarrow> string \<Rightarrow> string \<Rightarrow> nat \<Rightarrow> loop_state
     \<Rightarrow> loop_state loop_ctl orch" where
  "paired_iteration w cfg task plan rnd ls =
     seq (observe w (\<lambda>now. record_ev now (round_start_event rnd (ls_driverId ls))))
    (bnd (runRound w cfg task plan rnd (ls_driverId ls)) (after_round w cfg rnd ls))"

function paired_loop ::
  "world \<Rightarrow> 'c PairAgentConfig_scheme \<Rightarrow> string \<Rightarrow> string \<Rightarrow> nat \<Rightarrow> loop_state
     \<Rightarrow> loop_state orch" where
  "paired_loop w cfg task plan rnd ls st =
     (if rnd \<le> maxRounds cfg then
        (case paired_iteration w cfg task plan rnd ls st of
           (Inl e, st') \<Rightarrow> (Inl e, st')
         | (Inr (Break ls'), st') \<Rightarrow> (Inr ls', st')
         | (Inr (Continue ls'), st') \<Rightarrow> paired_loop w cfg task plan (rnd + 1) ls' st')
      else (Inr ls, st))"
  by pat_completeness auto
termination
  by (relation "measure (\<lambda>(w, cfg, task, plan, rnd, ls, st). Suc (maxRounds cfg) - rnd)") auto

definition runPairedExecution ::
  "world \<Rightarrow> 'c PairAgentConfig_scheme \<Rightarrow> string \<Rightarrow> string \<Rightarrow> ExecutionResult orch" where
  "runPairedExecution w cfg task plan =
     bnd (paired_loop w cfg task plan 1 (initial_loop_state cfg)) (\<lambda>ls.
       ret \<lparr>er_rounds = ls_rounds ls, er_checkpointCount = ls_checkpointCount ls,
            er_swapCount = ls_swapCount ls, er_contributions = ls_contributions ls,
            er_finalReview = None\<rparr>)"

definition solo_review_text :: "RoundResult \<Rightarrow> string" where
  "solo_review_text r =
     join_with newline
       [''<private_reflection>Skipped extra final review in solo mode.</private_reflection>'',
        (case driverDecision r of
           Some d \<Rightarrow> ''<public_feedback>Driver decision: '' @ decision_name (decision d)
                       @ ''. '' @ justification d @ ''</public_feedback>''
         | None \<Rightarrow> ''<public_feedback>NONE</public_feedback>''),
        ''<driver_recommendation>continue</driver_recommendation>'']"

definition solo_approved_rationale :: string where
  "solo_approved_rationale =
     ''Solo mode completed after B'' @ [CHR 0x27] @ ''s final review and A'' @ [CHR 0x27]
       @ ''s integration decision.''"

definition synthesizeSoloFinalReview :: "world \<Rightarrow> RoundResult \<Rightarrow> FinalReview orch" where
  "synthesizeSoloFinalReview w r =
     (let rA = parseNavigatorReview (solo_review_text r);
          rB = navigatorReview r;
          accepted = (case driverDecision r of Some d \<Rightarrow> decision d = Accept | None \<Rightarrow> False);
          verdict = (if \<not> hasFeedback rB \<or> accepted then APPROVED else NEEDS_MORE_WORK);
          why = (if verdict = APPROVED then solo_approved_rationale
                 else ''B provided final feedback and A did not fully accept it in solo mode.'');
          steps = (if verdict = APPROVED then ''NONE'' else publicFeedback rB)
      in
     seq (broadcastShared w ''joint_verdict'' System
            (''Verdict: '' @ verdict_name verdict @ newline @ ''Rationale: '' @ why @ newline
               @ ''Next steps: '' @ steps))
         (ret \<lparr>reviewA = rA, reviewB = rB, jointVerdict = verdict, rationale = why,
               nextSteps = steps, fr_raw = ''synthetic_solo_final_review''\<rparr>))"

definition solo_round_start_event :: EventInput where
  "solo_round_start_event =
     \<lparr>category = CatOrchestrator, ev_name = ''round_start'', ev_actor = Some System,
      ev_round = Some 1, ev_phase = None,
      ev_details = Some [(''driver'', JStr (agent_name A)), (''navigator'', JStr (agent_name B)),
                         (''mode'', JStr ''solo_driver_then_reviewer'')]\<rparr>"

definition solo_execution_result :: "world \<Rightarrow> RoundResult \<Rightarrow> ExecutionResult orch" where
  "solo_execution_result w roundResult =
     seq (observe w (\<lambda>now. record_ev now (round_end_event 1 roundResult)))
    (seq (broadcastShared w ''loop_stop'' System
            ''Stopped after solo driver pass plus reviewer feedback/integration cycle.'')
    (bnd (synthesizeSoloFinalReview w roundResult) (\<lambda>fr.
       ret \<lparr>er_rounds = [roundResult],
            er_checkpointCount = rr_checkpointCount roundResult,
            er_swapCount = 0,
            er_contributions = contributionTemplate(A :=
               (contributionTemplate A)
                 \<lparr>roundsDriven := 1,
                  checkpointsWhileDriving := rr_checkpointCount roundResult,
                  cs_editWriteCallCount := rr_editWriteCallCount roundResult,
                  cs_estimatedWrittenBytes := rr_estimatedWrittenBytes roundResult\<rparr>),
            er_finalReview = Some fr\<rparr>)))"

definition runSoloDriverThenReviewerExecution ::
  "world \<Rightarrow> 'c PairAgentConfig_scheme \<Rightarrow> string \<Rightarrow> string \<Rightarrow> ExecutionResult orch" where
  "runSoloDriverThenReviewerExecution w cfg task plan =
     (let onEv = tracker_onEvent (pauseStrategy cfg) None
      in
     seq (setRole A Driver)
    (seq (setRole B Navigator)
    (seq (observe w (\<lambda>now. record_ev now solo_round_start_event))
    (bnd (runPromptWithObservability w cfg A
            (render w (SoloDriverTurnPrompt task plan A B (pauseStrategy cfg)))
            ''driver_turn_solo'' ''driving'' (Some 1) onEv
            (createDriverExecutionTracker (pauseStrategy cfg))) (\<lambda>driven.
     (let report = parseDriverReport (fst driven);
          drivingStats = snapshot (snd driven)
      in
     seq (broadcastShared w ''driver_report'' (AgentActor A) (driver_report_text 1 report))
    (bnd (runPromptObserved w cfg B
            (render w (SoloNavigatorReviewPrompt task plan A B (dr_raw report)
                         (snap_checkpointCount drivingStats)))
            ''navigator_review_solo'' ''navigation'' (Some 1)) (\<lambda>navigatorReviewRaw.
     (let review = parseNavigatorReview navigatorReviewRaw
      in
     seq (appendPrivateMemory w B (privateReflection review))
    (seq (if hasFeedback review
          then broadcastShared w ''navigator_feedback'' (AgentActor B) (publicFeedback review)
          else broadcastShared w ''navigator_feedback'' (AgentActor B) ''NONE'')
    (seq (broadcastShared w ''navigator_handoff_signal'' (AgentActor B)
            (recommendation_name (driverRecommendation review)))
    (bnd (if hasFeedback review then
            bnd (runPromptWithObservability w cfg A
                   (render w (DriverDecisionPrompt (publicFeedback review)))
                   ''driver_decision'' ''feedback_resolution'' (Some 1) onEv
                   (setPhase FeedbackResolution (snd driven))) (\<lambda>decided.
            (let dec = parseDriverDecision (fst decided)
             in
            seq (broadcastShared w ''driver_decision'' (AgentActor A) (decision_text dec))
                (ret (round_result 1 A B (snapshot (snd decided)) report review (Some dec)))))
          else ret (round_result 1 A B (snapshot (snd driven)) report review None))
         (solo_execution_result w)))))))))))))"

definition finalReview ::
  "world \<Rightarrow> 'c PairAgentConfig_scheme \<Rightarrow> string \<Rightarrow> string \<Rightarrow> FinalReview orch" where
  "finalReview w cfg task plan =
     seq (setRole A Navigator)
    (seq (setRole B Navigator)
    (bnd (runPromptObserved w cfg A (render w (FinalReviewPrompt task plan))
            ''final_review'' ''final_review'' None) (\<lambda>reviewARaw.
     bnd (runPromptObserved w cfg B (render w (FinalReviewPrompt task plan))
            ''final_review'' ''final_review'' None) (\<lambda>reviewBRaw.
     (let rA = parseNavigatorReview reviewARaw; rB = parseNavigatorReview reviewBRaw
      in
     seq (appendPrivateMemory w A (privateReflection rA))
    (seq (appendPrivateMemory w B (privateReflection rB))
    (seq (broadcastShared w ''final_review_A'' (AgentActor A) (publicFeedback rA))
    (seq (broadcastShared w ''final_review_B'' (AgentActor B) (publicFeedback rB))
    (bnd (runPromptObserved w cfg A
            (render w (JointSynthesisPrompt (publicFeedback rA) (publicFeedback rB)))
            ''joint_synthesis'' ''final_review'' None) (\<lambda>synthesisRaw.
     (let synthesis = parseJointVerdict synthesisRaw
      in
     seq (broadcastShared w ''joint_verdict'' (AgentActor A)
            (''Verdict: '' @ verdict_name (jv_jointVerdict synthesis) @ newline
               @ ''Rationale: '' @ jv_rationale synthesis @ newline
               @ ''Next steps: '' @ jv_nextSteps synthesis))
         (ret \<lparr>reviewA = rA, reviewB = rB, jointVerdict = jv_jointVerdict synthesis,
               rationale = jv_rationale synthesis, nextSteps = jv_nextSteps synthesis,
               fr_raw = jv_raw synthesis\<rparr>))))))))))))"

definition session_start_event :: "string \<Rightarrow> PairAgentConfig2 \<Rightarrow> EventInput" where
  "session_start_event task cfg =
     \<lparr>category = CatSession, ev_name = ''session_start'', ev_actor = Some System,
      ev_round = None, ev_phase = None,
      ev_details = Some [(''taskLength'', JNum (int (length task))),
                         (''maxRounds'', JNum (int (maxRounds cfg))),
                         (''executionMode'', JStr (execution_mode_name (executionMode cfg))),
                         (''turnPolicy'', JStr (turn_policy_mode (turnPolicy cfg))),
                         (''pausePolicy'', JStr (pause_mode (pauseStrategy cfg)))]\<rparr>"

definition session_error_event :: "string \<Rightarrow> EventInput" where
  "session_error_event message =
     \<lparr>category = CatSession, ev_name = ''session_error'', ev_actor = Some System,
      ev_round = None, ev_phase = None,
      ev_details = Some [(''message'', JStr message)]\<rparr>"

definition result_core ::
  "string \<Rightarrow> string \<Rightarrow> RoundResult list \<Rightarrow> FinalReview \<Rightarrow> RunSummary \<Rightarrow> ResultCore orch" where
  "result_core task plan rs fr sm st =
     (Inr \<lparr>prr_task = task, prr_agreedPlan = plan, prr_rounds = rs, prr_finalReview = fr,
           prr_summary = sm, prr_sharedJournal = sharedJournal st\<rparr>, st)"

text \<open>The \<open>try\<close> block of \<open>run\<close>.\<close>

definition run_try :: "world \<Rightarrow> PairAgentConfig2 \<Rightarrow> string \<Rightarrow> ResultCore orch" where
  "run_try w cfg task =
     seq (observe w (\<lambda>now. record_ev now (session_start_event task cfg)))
    (seq (broadcastShared w ''task'' System task)
    (bnd (if executionMode cfg = SoloDriverThenReviewer
          then soloPlanning w cfg task else collaborativePlanning w cfg task) (\<lambda>plan.
     bnd (if executionMode cfg = SoloDriverThenReviewer
          then runSoloDriverThenReviewerExecution w cfg task plan
          else runPairedExecution w cfg task plan) (\<lambda>execution.
     bnd (case er_finalReview execution of
            Some fr \<Rightarrow> ret fr
          | None \<Rightarrow> finalReview w cfg task plan) (\<lambda>fr.
     result_core task plan (er_rounds execution) fr
       (buildSummary (er_contributions execution) (er_checkpointCount execution)
          (er_swapCount execution)))))))"

text \<open>
  The \<open>catch\<close> and \<open>finally\<close> blocks of \<open>run\<close> and its last statements. \<open>thrown\<close> is the
  error the \<open>catch\<close> block rethrows; an error of the flush in \<open>finally\<close> replaces it.
\<close>

definition flush_observer ::
  "world \<Rightarrow> RunStatus \<Rightarrow> string option \<Rightarrow> ObservabilitySummary option orch" where
  "flush_observer w st msg s =
     (case observer s of
        None \<Rightarrow> (Inr None, s)
      | Some ob \<Rightarrow>
          (case flush (clock w (ticks s)) st msg ob of
             (r, ob') \<Rightarrow>
               (map_sum id Some r, s\<lparr>observer := Some ob', ticks := ticks s + 1\<rparr>)))"

definition run_end ::
  "world \<Rightarrow> (js_error + ResultCore) \<Rightarrow> PairRunResult orch" where
  "run_end w tried =
     (case tried of
        Inr core \<Rightarrow>
          bnd (flush_observer w Completed None) (\<lambda>observabilitySummary.
            ret (ResultCore.extend core \<lparr>observability = observabilitySummary\<rparr>))
      | Inl err \<Rightarrow>
          seq (observe w (\<lambda>now. record_ev now (session_error_event (error_message err))))
         (bnd (flush_observer w Failed (Some (error_message err))) (\<lambda>observabilitySummary.
            throw err)))"

definition run :: "world \<Rightarrow> PairAgentConfig2 \<Rightarrow> string \<Rightarrow> PairRunResult orch" where
  "run w cfg task st = (case run_try w cfg task st of (tried, st') \<Rightarrow> run_end w tried st')"


section \<open>The earlier orchestrator (inline checkpoint logic)\<close>

text \<open>
  The earlier version of pair-orchestrator.ts has no execution mode, keeps the
  checkpoint variables as locals of \<open>runRound\<close> (here a \<open>tracker\<close> record, with
  \<open>currentDriverPhase\<close> as \<open>currentPhase\<close>) with the handler \<open>onDriverEvent\<close> closed over
  them, and has the round loop inside \<open>run\<close>. \<open>runPromptWithObservability\<close>,
  \<open>broadcastShared\<close>, \<open>collaborativePlanning\<close>, \<open>shouldSwapDriver\<close>, \<open>buildSummary\<close>,
  \<open>finalReview\<close>, the statements of the loop after the round and the \<open>catch\<close> and
  \<open>finally\<close> blocks are the same text in both versions.
\<close>

definition onDriverEvent ::
  "world \<Rightarrow> 'c PairAgentConfig_scheme \<Rightarrow> AgentId \<Rightarrow> AgentId \<Rightarrow> AgentEvent \<Rightarrow> tracker
     \<Rightarrow> tracker orch" where
  "onDriverEvent w cfg driverId navigatorId ev t =
     (case ev of
        ToolExecutionStart cid toolName args \<Rightarrow>
          (if toolName = ''edit'' \<or> toolName = ''write'' then
             ret (t\<lparr>pendingWriteEstimates :=
                      (pendingWriteEstimates t)(cid \<mapsto> estimateWrittenBytes toolName args)\<rparr>)
           else ret t)
      | ToolExecutionEnd cid toolName isError res \<Rightarrow>
          (case pauseStrategy cfg of
             PauseNone \<Rightarrow>
               (if \<not> isError \<and> (toolName = ''edit'' \<or> toolName = ''write'') then
                  ret (t\<lparr>editWriteCallCount := editWriteCallCount t + 1,
                         estimatedWrittenBytes :=
                           estimatedWrittenBytes t + or_else (pendingWriteEstimates t cid) 0,
                         pendingWriteEstimates := (pendingWriteEstimates t)(cid := None)\<rparr>)
                else ret t)
           | EveryNFileEdits n tools \<Rightarrow>
               (let t0 = (if (toolName = ''edit'' \<or> toolName = ''write'') \<and> \<not> isError
                          then t\<lparr>editWriteCallCount := editWriteCallCount t + 1,
                                 estimatedWrittenBytes :=
                                   estimatedWrittenBytes t
                                     + or_else (pendingWriteEstimates t cid) 0\<rparr>
                          else t);
                    t1 = (if toolName = ''edit'' \<or> toolName = ''write''
                          then t0\<lparr>pendingWriteEstimates :=
                                    (pendingWriteEstimates t0)(cid := None)\<rparr>
                          else t0)
                in if isError then ret t1
                   else if toolName \<notin> set tools then ret t1
                   else if enat (countedEdits t1 + 1) < nextCheckpointAt t1
                   then ret (t1\<lparr>countedEdits := countedEdits t1 + 1\<rparr>)
                   else
                     (let t2 = t1\<lparr>countedEdits := countedEdits t1 + 1,
                                  pauseTriggered := True,
                                  checkpointCount := checkpointCount t1 + 1,
                                  nextCheckpointAt := nextCheckpointAt t1 + enat n\<rparr>
                      in bnd (date_now w) (\<lambda>ts.
                         seq (agent_do (AgentSteer driverId
                                (render w (PauseInterruptionPrompt navigatorId (currentPhase t2)))
                                ts))
                             (ret t2)))))
      | _ \<Rightarrow> ret t)"

definition runRound_v1 ::
  "world \<Rightarrow> 'c PairAgentConfig_scheme \<Rightarrow> string \<Rightarrow> string \<Rightarrow> nat \<Rightarrow> AgentId \<Rightarrow> RoundResult orch" where
  "runRound_v1 w cfg task plan rnd driverId =
     (let navigatorId = otherAgent driverId;
          locals = \<lparr>pauseTriggered = False, countedEdits = 0,
                    nextCheckpointAt = (case pauseStrategy cfg of
                                          EveryNFileEdits n tools \<Rightarrow> enat n
                                        | PauseNone \<Rightarrow> \<infinity>),
                    checkpointCount = 0, editWriteCallCount = 0, estimatedWrittenBytes = 0,
                    pendingWriteEstimates = Map.empty, currentPhase = Driving\<rparr>
      in
     seq (setRole driverId Driver)
    (seq (setRole navigatorId Navigator)
    (bnd (runPromptWithObservability w cfg driverId
            (render w (DriverTurnPrompt task plan rnd driverId navigatorId
                         (pauseStrategy cfg) (turnPolicy cfg)))
            ''driver_turn'' ''driving'' (Some rnd)
            (onDriverEvent w cfg driverId navigatorId) locals) (\<lambda>driven.
     (let report = parseDriverReport (fst driven)
      in
     seq (broadcastShared w ''driver_report'' (AgentActor driverId) (driver_report_text rnd report))
    (bnd (runPromptObserved w cfg navigatorId
            (render w (NavigatorReviewPrompt task plan rnd driverId (dr_raw report)
                         (pauseTriggered (snd driven)) (turnPolicy cfg)))
            ''navigator_review'' ''navigation'' (Some rnd)) (\<lambda>navigatorReviewRaw.
     (let review = parseNavigatorReview navigatorReviewRaw
      in
     seq (appendPrivateMemory w navigatorId (privateReflection review))
    (seq (if hasFeedback review
          then broadcastShared w ''navigator_feedback'' (AgentActor navigatorId)
                 (publicFeedback review)
          else broadcastShared w ''navigator_feedback'' (AgentActor navigatorId) ''NONE'')
    (seq (broadcastShared w ''navigator_handoff_signal'' (AgentActor navigatorId)
            (recommendation_name (driverRecommendation review)))
    (bnd (if hasFeedback review then
            bnd (runPromptWithObservability w cfg driverId
                   (render w (DriverDecisionPrompt (publicFeedback review)))
                   ''driver_decision'' ''feedback_resolution'' (Some rnd)
                   (onDriverEvent w cfg driverId navigatorId)
                   ((snd driven)\<lparr>currentPhase := FeedbackResolution\<rparr>)) (\<lambda>decided.
            (let dec = parseDriverDecision (fst decided)
             in
            seq (broadcastShared w ''driver_decision'' (AgentActor driverId) (decision_text dec))
                (ret (snd decided, Some dec))))
          else ret (snd driven, None)) (\<lambda>fin.
       ret \<lparr>rr_round = rnd, rr_driver = driverId, rr_navigator = navigatorId,
            rr_pauseTriggered = pauseTriggered (fst fin),
            rr_checkpointCount = checkpointCount (fst fin),
            rr_editWriteCallCount = editWriteCallCount (fst fin),
            rr_estimatedWrittenBytes = estimatedWrittenBytes (fst fin),
            driverReport = report, navigatorReview = review,
            driverDecision = snd fin\<rparr>))))))))))))"

definition iteration_v1 ::
  "world \<Rightarrow> 'c PairAgentConfig_scheme \<Rightarrow> string \<Rightarrow> string \<Rightarrow> nat \<Rightarrow> loop_state
     \<Rightarrow> loop_state loop_ctl orch" where
  "iteration_v1 w cfg task plan rnd ls =
     seq (observe w (\<lambda>now. record_ev now (round_start_event rnd (ls_driverId ls))))
    (bnd (runRound_v1 w cfg task plan rnd (ls_driverId ls)) (after_round w cfg rnd ls))"

function loop_v1 ::
  "world \<Rightarrow> 'c PairAgentConfig_scheme \<Rightarrow> string \<Rightarrow> string \<Rightarrow> nat \<Rightarrow> loop_state
     \<Rightarrow> loop_state orch" where
  "loop_v1 w cfg task plan rnd ls st =
     (if rnd \<le> maxRounds cfg then
        (case iteration_v1 w cfg task plan rnd ls st of
           (Inl e, st') \<Rightarrow> (Inl e, st')
         | (Inr (Break ls'), st') \<Rightarrow> (Inr ls', st')
         | (Inr (Continue ls'), st') \<Rightarrow> loop_v1 w cfg task plan (rnd + 1) ls' st')
      else (Inr ls, st))"
  by pat_completeness auto
termination
  by (relation "measure (\<lambda>(w, cfg, task, plan, rnd, ls, st). Suc (maxRounds cfg) - rnd)") auto

definition session_start_event_v1 :: "string \<Rightarrow> 'c PairAgentConfig_scheme \<Rightarrow> EventInput" where
  "session_start_event_v1 task cfg =
     \<lparr>category = CatSession, ev_name = ''session_start'', ev_actor = Some System,
      ev_round = None, ev_phase = None,
      ev_details = Some [(''taskLength'', JNum (int (length task))),
                         (''maxRounds'', JNum (int (maxRounds cfg))),
                         (''turnPolicy'', JStr (turn_policy_mode (turnPolicy cfg))),
                         (''pausePolicy'', JStr (pause_mode (pauseStrategy cfg)))]\<rparr>"

definition run_try_v1 :: "world \<Rightarrow> 'c PairAgentConfig_scheme \<Rightarrow> string \<Rightarrow> ResultCore orch" where
  "run_try_v1 w cfg task =
     seq (observe w (\<lambda>now. record_ev now (session_start_event_v1 task cfg)))
    (seq (broadcastShared w ''task'' System task)
    (bnd (collaborativePlanning w cfg task) (\<lambda>plan.
     bnd (loop_v1 w cfg task plan 1 (initial_loop_state cfg)) (\<lambda>ls.
     bnd (finalReview w cfg task plan) (\<lambda>fr.
     result_core task plan (ls_rounds ls) fr
       (buildSummary (ls_contributions ls) (ls_checkpointCount ls) (ls_swapCount ls)))))))"

definition run_v1 :: "world \<Rightarrow> 'c PairAgentConfig_scheme \<Rightarrow> string \<Rightarrow> PairRunResult orch" where
  "run_v1 w cfg task st =
     (case run_try_v1 w cfg task st of (tried, st') \<Rightarrow> run_end w tried st')"

text \<open>
  Results without their time stamps: a journal entry as stage, actor and content.
\<close>

definition entry_text :: "SharedEntry \<Rightarrow> string \<times> Actor \<times> string" where
  "entry_text e = (stage e, se_actor e, content e)"

definition returned ::
  "(js_error + PairRunResult) \<times> ostate \<Rightarrow> js_error + ResultCore" where
  "returned r = map_sum id ResultCore.truncate (fst r)"

definition replayed ::
  "(js_error + PairRunResult) \<times> ostate
     \<Rightarrow> js_error + (RoundResult list \<times> (string \<times> Actor \<times> string) list)" where
  "replayed r =
     map_sum id (\<lambda>res. (prr_rounds res, map entry_text (prr_sharedJournal res))) (fst r)"


text \<open>
  Two runs side by side. Two states correspond when they have made the same number of
  agent calls and clock reads, their journals agree entry by entry up to a relation \<open>T\<close>
  on the time stamps, and their observers (both present or both absent) agree on
  whether they are flushed and on how the write of the final log ends. Two
  computations correspond when from corresponding states they both raise the same
  error or both return values related by \<open>S\<close>, in corresponding states.
\<close>

definition entry_rel :: "(int \<Rightarrow> int \<Rightarrow> bool) \<Rightarrow> SharedEntry \<Rightarrow> SharedEntry \<Rightarrow> bool" where
  "entry_rel T e1 e2 =
     (stage e1 = stage e2 \<and> se_actor e1 = se_actor e2 \<and> content e1 = content e2
      \<and> T (se_timestamp e1) (se_timestamp e2))"

definition observer_rel :: "SessionObserver \<Rightarrow> SessionObserver \<Rightarrow> bool" where
  "observer_rel a b =
     ((flushedSummary a = None) = (flushedSummary b = None) \<and> fs_log_error a = fs_log_error b)"

definition state_rel :: "(int \<Rightarrow> int \<Rightarrow> bool) \<Rightarrow> ostate \<Rightarrow> ostate \<Rightarrow> bool" where
  "state_rel T s1 s2 =
     (calls s1 = calls s2 \<and> ticks s1 = ticks s2
      \<and> list_all2 (entry_rel T) (sharedJournal s1) (sharedJournal s2)
      \<and> rel_option observer_rel (observer s1) (observer s2))"

definition world_rel :: "(int \<Rightarrow> int \<Rightarrow> bool) \<Rightarrow> world \<Rightarrow> world \<Rightarrow> bool" where
  "world_rel T w1 w2 =
     (env w1 = env w2 \<and> render w1 = render w2 \<and> (\<forall>k. T (clock w1 k) (clock w2 k)))"

definition outcome_rel ::
  "(int \<Rightarrow> int \<Rightarrow> bool) \<Rightarrow> ('a \<Rightarrow> 'b \<Rightarrow> bool)
     \<Rightarrow> (js_error + 'a) \<times> ostate \<Rightarrow> (js_error + 'b) \<times> ostate \<Rightarrow> bool" where
  "outcome_rel T S r1 r2 =
     (state_rel T (snd r1) (snd r2) \<and> rel_sum (=) S (fst r1) (fst r2))"

definition orch_rel ::
  "(int \<Rightarrow> int \<Rightarrow> bool) \<Rightarrow> ('a \<Rightarrow> 'b \<Rightarrow> bool) \<Rightarrow> 'a orch \<Rightarrow> 'b orch \<Rightarrow> bool" where
  "orch_rel T S m1 m2 = (\<forall>s1 s2. state_rel T s1 s2 \<longrightarrow> outcome_rel T S (m1 s1) (m2 s2))"

definition core_rel :: "(int \<Rightarrow> int \<Rightarrow> bool) \<Rightarrow> ResultCore \<Rightarrow> ResultCore \<Rightarrow> bool" where
  "core_rel T c1 c2 =
     (prr_task c1 = prr_task c2 \<and> prr_agreedPlan c1 = prr_agreedPlan c2
      \<and> prr_rounds c1 = prr_rounds c2 \<and> prr_finalReview c1 = prr_finalReview c2
      \<and> prr_summary c1 = prr_summary c2
      \<and> list_all2 (entry_rel T) (prr_sharedJournal c1) (prr_sharedJournal c2))"


text \<open>A caller's calls to one observer, in order, with the results of the flushes.\<close>

datatype observer_call =
    CallRecord int EventInput
  | CallFlush int RunStatus "string option"

fun observer_calls ::
  "observer_call list \<Rightarrow> SessionObserver
     \<Rightarrow> (js_error + ObservabilitySummary) list \<times> SessionObserver" where
  "observer_calls [] ob = ([], ob)"
| "observer_calls (CallRecord now ev # cs) ob = observer_calls cs (record_ev now ev ob)"
| "observer_calls (CallFlush now st msg # cs) ob =
     (case flush now st msg ob of
        (r, ob1) \<Rightarrow> (case observer_calls cs ob1 of (rs, ob2) \<Rightarrow> (r # rs, ob2)))"

fun is_flush_call :: "observer_call \<Rightarrow> bool" where
  "is_flush_call (CallFlush now st msg) = True"
| "is_flush_call (CallRecord now ev) = False"


section \<open>Command line (config.ts)\<close>

text \<open>
  \<open>parseCli\<close> raises an \<open>Error\<close> with a message; the model returns the kind of error and
  the text the message quotes. \<open>path.resolve\<close> is the argument \<open>rs\<close>. \<open>Number.parseInt\<close>
  with radix 10 skips leading white space, reads a sign and the longest run of decimal
  digits, and is \<open>NaN\<close> (\<open>None\<close>) when there is no digit; its value is read as an
  integer.
\<close>

datatype cli_error =
    HelpRequested
  | MissingValue string
  | UnknownArgument string
  | InvalidThinkingLevel string
  | InvalidAgentId string
  | NotPositiveInteger string string
  | InvalidWorkspaceMode string
  | InvalidEventStreamMode string
  | InvalidTurnPolicy string
  | InvalidPauseMode string
  | MissingTask

record CliConfig =
  cli_task :: string
  outputPath :: "string option"
  cli_logFile :: "string option"
  cli_eventLogFile :: "string option"
  cli_eventStreamMode :: EventStreamMode
  workspaceMode :: WorkspaceMode
  keepWorkspace :: bool
  pair :: PairAgentConfig

definition starts_with :: "string \<Rightarrow> string \<Rightarrow> bool" where
  "starts_with pfx s = (take (length pfx) s = pfx)"

text \<open>
  \<open>Number.parseInt(value, 10)\<close>: leading white space, a sign, then decimal digits; what
  follows the digits is ignored, and with no digit the result is \<open>NaN\<close> (here \<open>None\<close>).
  The result is the exact value of the digits: the code's double is that number up to
  \<open>2^53\<close>.
\<close>

definition is_digit :: "char \<Rightarrow> bool" where
  "is_digit c = (let n = (of_char c :: nat) in 48 \<le> n \<and> n \<le> 57)"

definition digits_value :: "string \<Rightarrow> int" where
  "digits_value ds = foldl (\<lambda>acc c. acc * 10 + (int (of_char c) - 48)) 0 ds"

definition parseInt10 :: "string \<Rightarrow> int option" where
  "parseInt10 s =
     (let s1 = dropWhile is_space s;
          sgn = (case s1 of c # r \<Rightarrow> if c = CHR ''-'' then - 1 else 1 | [] \<Rightarrow> (1::int));
          s2 = (case s1 of c # r \<Rightarrow> if c = CHR ''-'' \<or> c = CHR ''+'' then r else s1 | [] \<Rightarrow> s1);
          ds = takeWhile is_digit s2
      in if ds = [] then None else Some (sgn * digits_value ds))"

definition parseThinking :: "string \<Rightarrow> cli_error + ThinkingLevel" where
  "parseThinking v =
     (if v = ''off'' then Inr Off
      else if v = ''minimal'' then Inr Minimal
      else if v = ''low'' then Inr Low
      else if v = ''medium'' then Inr Medium
      else if v = ''high'' then Inr High
      else if v = ''xhigh'' then Inr XHigh
      else Inl (InvalidThinkingLevel v))"

definition parseAgentId :: "string \<Rightarrow> cli_error + AgentId" where
  "parseAgentId v =
     (if v = ''A'' then Inr A else if v = ''B'' then Inr B else Inl (InvalidAgentId v))"

definition parsePositiveInteger :: "string \<Rightarrow> string \<Rightarrow> cli_error + nat" where
  "parsePositiveInteger nm v =
     (case parseInt10 v of
        None \<Rightarrow> Inl (NotPositiveInteger nm v)
      | Some parsed \<Rightarrow> if parsed \<le> 0 then Inl (NotPositiveInteger nm v) else Inr (nat parsed))"

definition parseWorkspaceMode :: "string \<Rightarrow> cli_error + WorkspaceMode" where
  "parseWorkspaceMode v =
     (if v = ''direct'' then Inr Direct
      else if v = ''ephemeral_copy'' then Inr EphemeralCopy
      else Inl (InvalidWorkspaceMode v))"

definition parseEventStreamMode :: "string \<Rightarrow> cli_error + EventStreamMode" where
  "parseEventStreamMode v =
     (if v = ''compact'' then Inr Compact
      else if v = ''full'' then Inr Full
      else Inl (InvalidEventStreamMode v))"

definition defaultPauseStrategy :: PauseStrategy where
  "defaultPauseStrategy = EveryNFileEdits 3 [''edit'', ''write'']"

definition defaultEveryNFileEditsPause :: PauseStrategy where
  "defaultEveryNFileEditsPause = EveryNFileEdits 3 [''edit'', ''write'']"

definition defaultTurnPolicy :: TurnPolicy where
  "defaultTurnPolicy = SameDriverUntilNavigatorSignoff 3 4"

definition defaultStickyTurnPolicy :: TurnPolicy where
  "defaultStickyTurnPolicy = SameDriverUntilNavigatorSignoff 3 4"

definition defaultPairConfig :: "string \<Rightarrow> PairAgentConfig" where
  "defaultPairConfig dir =
     \<lparr>modelA = \<lparr>provider = ''anthropic'', modelId = ''claude-opus-4-6'', thinkingLevel = High\<rparr>,
      modelB = \<lparr>provider = ''openai'', modelId = ''gpt-5.2-codex'', thinkingLevel = High\<rparr>,
      cwd = dir,
      maxRounds = 8,
      driverStartsAs = A,
      pauseStrategy = defaultPauseStrategy,
      turnPolicy = defaultTurnPolicy\<rparr>"

definition with_pair :: "(PairAgentConfig \<Rightarrow> PairAgentConfig) \<Rightarrow> CliConfig \<Rightarrow> CliConfig" where
  "with_pair f cfg = cfg\<lparr>pair := f (pair cfg)\<rparr>"

definition with_value :: "cli_error + 'a \<Rightarrow> ('a \<Rightarrow> CliConfig) \<Rightarrow> cli_error + CliConfig" where
  "with_value r k = (case r of Inl e \<Rightarrow> Inl e | Inr v \<Rightarrow> Inr (k v))"

text \<open>The \<open>switch\<close> of the argument loop: one option \<open>arg\<close> with its value \<open>nxt\<close>.\<close>

definition parse_option ::
  "(string \<Rightarrow> string) \<Rightarrow> CliConfig \<Rightarrow> string \<Rightarrow> string \<Rightarrow> cli_error + CliConfig" where
  "parse_option rs cfg arg nxt =
     (if arg = ''--task'' then Inr (cfg\<lparr>cli_task := trim nxt\<rparr>)
      else if arg = ''--cwd'' then Inr (with_pair (\<lambda>p. p\<lparr>cwd := rs nxt\<rparr>) cfg)
      else if arg = ''--max-rounds'' then
        with_value (parsePositiveInteger ''--max-rounds'' nxt)
          (\<lambda>n. with_pair (\<lambda>p. p\<lparr>maxRounds := n\<rparr>) cfg)
      else if arg = ''--driver-start'' then
        with_value (parseAgentId nxt) (\<lambda>a. with_pair (\<lambda>p. p\<lparr>driverStartsAs := a\<rparr>) cfg)
      else if arg = ''--turn-policy'' then
        (if nxt = ''alternate_each_round'' then
           Inr (with_pair (\<lambda>p. p\<lparr>turnPolicy := AlternateEachRound\<rparr>) cfg)
         else if nxt = ''same_driver_until_navigator_signoff'' then
           (let previous = (case turnPolicy (pair cfg) of
                              SameDriverUntilNavigatorSignoff r c \<Rightarrow> turnPolicy (pair cfg)
                            | AlternateEachRound \<Rightarrow> defaultStickyTurnPolicy)
            in Inr (with_pair (\<lambda>p. p\<lparr>turnPolicy :=
                      SameDriverUntilNavigatorSignoff (maxConsecutiveRounds previous)
                        (maxConsecutiveCheckpoints previous)\<rparr>) cfg))
         else Inl (InvalidTurnPolicy nxt))
      else if arg = ''--max-consecutive-rounds'' then
        (let tp = (case turnPolicy (pair cfg) of
                     AlternateEachRound \<Rightarrow> defaultStickyTurnPolicy
                   | SameDriverUntilNavigatorSignoff r c \<Rightarrow> turnPolicy (pair cfg))
         in with_value (parsePositiveInteger ''--max-consecutive-rounds'' nxt)
              (\<lambda>n. with_pair (\<lambda>p. p\<lparr>turnPolicy :=
                      SameDriverUntilNavigatorSignoff n (maxConsecutiveCheckpoints tp)\<rparr>) cfg))
      else if arg = ''--max-consecutive-checkpoints'' then
        (let tp = (case turnPolicy (pair cfg) of
                     AlternateEachRound \<Rightarrow> defaultStickyTurnPolicy
                   | SameDriverUntilNavigatorSignoff r c \<Rightarrow> turnPolicy (pair cfg))
         in with_value (parsePositiveInteger ''--max-consecutive-checkpoints'' nxt)
              (\<lambda>n. with_pair (\<lambda>p. p\<lparr>turnPolicy :=
                      SameDriverUntilNavigatorSignoff (maxConsecutiveRounds tp) n\<rparr>) cfg))
      else if arg = ''--pause-mode'' then
        (if nxt = ''none'' then Inr (with_pair (\<lambda>p. p\<lparr>pauseStrategy := PauseNone\<rparr>) cfg)
         else if nxt = ''every_n_file_edits'' then
           (let previous = (case pauseStrategy (pair cfg) of
                              EveryNFileEdits n tools \<Rightarrow> pauseStrategy (pair cfg)
                            | PauseNone \<Rightarrow> defaultEveryNFileEditsPause)
            in Inr (with_pair (\<lambda>p. p\<lparr>pauseStrategy :=
                      EveryNFileEdits (editsPerPause previous) (countedTools previous)\<rparr>) cfg))
         else Inl (InvalidPauseMode nxt))
      else if arg = ''--edits-per-pause'' then
        (let ps = (case pauseStrategy (pair cfg) of
                     PauseNone \<Rightarrow> defaultEveryNFileEditsPause
                   | EveryNFileEdits n tools \<Rightarrow> pauseStrategy (pair cfg))
         in with_value (parsePositiveInteger ''--edits-per-pause'' nxt)
              (\<lambda>n. with_pair (\<lambda>p. p\<lparr>pauseStrategy := EveryNFileEdits n (countedTools ps)\<rparr>) cfg))
      else if arg = ''--model-a-provider'' then
        Inr (with_pair (\<lambda>p. p\<lparr>modelA := (modelA p)\<lparr>provider := nxt\<rparr>\<rparr>) cfg)
      else if arg = ''--model-a-id'' then
        Inr (with_pair (\<lambda>p. p\<lparr>modelA := (modelA p)\<lparr>modelId := nxt\<rparr>\<rparr>) cfg)
      else if arg = ''--model-a-thinking'' then
        with_value (parseThinking nxt)
          (\<lambda>l. with_pair (\<lambda>p. p\<lparr>modelA := (modelA p)\<lparr>thinkingLevel := l\<rparr>\<rparr>) cfg)
      else if arg = ''--model-b-provider'' then
        Inr (with_pair (\<lambda>p. p\<lparr>modelB := (modelB p)\<lparr>provider := nxt\<rparr>\<rparr>) cfg)
      else if arg = ''--model-b-id'' then
        Inr (with_pair (\<lambda>p. p\<lparr>modelB := (modelB p)\<lparr>modelId := nxt\<rparr>\<rparr>) cfg)
      else if arg = ''--model-b-thinking'' then
        with_value (parseThinking nxt)
          (\<lambda>l. with_pair (\<lambda>p. p\<lparr>modelB := (modelB p)\<lparr>thinkingLevel := l\<rparr>\<rparr>) cfg)
      else if arg = ''--output'' then Inr (cfg\<lparr>outputPath := Some (rs nxt)\<rparr>)
      else if arg = ''--log-file'' then Inr (cfg\<lparr>cli_logFile := Some (rs nxt)\<rparr>)
      else if arg = ''--event-log-file'' then Inr (cfg\<lparr>cli_eventLogFile := Some (rs nxt)\<rparr>)
      else if arg = ''--event-stream-mode'' then
        with_value (parseEventStreamMode nxt) (\<lambda>m. cfg\<lparr>cli_eventStreamMode := m\<rparr>)
      else if arg = ''--workspace-mode'' then
        with_value (parseWorkspaceMode nxt) (\<lambda>m. cfg\<lparr>workspaceMode := m\<rparr>)
      else Inl (UnknownArgument arg))"

fun parse_args ::
  "(string \<Rightarrow> string) \<Rightarrow> CliConfig \<Rightarrow> string list \<Rightarrow> cli_error + CliConfig" where
  "parse_args rs cfg [] = Inr cfg"
| "parse_args rs cfg (arg # rest) =
     (if arg = [] then parse_args rs cfg rest
      else if arg = ''--help'' \<or> arg = ''-h'' then Inl HelpRequested
      else if arg = ''--keep-workspace'' then parse_args rs (cfg\<lparr>keepWorkspace := True\<rparr>) rest
      else if \<not> starts_with ''--'' arg then parse_args rs cfg rest
      else
        (case rest of
           [] \<Rightarrow> Inl (MissingValue arg)
         | nxt # rest' \<Rightarrow>
             if nxt = [] then Inl (MissingValue arg)
             else
               (case parse_option rs cfg arg nxt of
                  Inl e \<Rightarrow> Inl e
                | Inr cfg' \<Rightarrow> parse_args rs cfg' rest')))"

definition parseCli ::
  "(string \<Rightarrow> string) \<Rightarrow> string list \<Rightarrow> string \<Rightarrow> cli_error + CliConfig" where
  "parseCli rs argv processCwd =
     (case parse_args rs
             \<lparr>cli_task = [], outputPath = None, cli_logFile = None, cli_eventLogFile = None,
              cli_eventStreamMode = Compact, workspaceMode = Direct, keepWorkspace = False,
              pair = defaultPairConfig (rs processCwd)\<rparr> argv of
        Inl e \<Rightarrow> Inl e
      | Inr cfg \<Rightarrow>
          if cli_task cfg = [] then Inl MissingTask
          else Inr (cfg\<lparr>pair := (pair cfg)\<lparr>cwd := rs (cwd (pair cfg))\<rparr>,
                        outputPath := truthy_message (outputPath cfg),
                        cli_logFile := truthy_message (cli_logFile cfg),
                        cli_eventLogFile := truthy_message (cli_eventLogFile cfg)\<rparr>))"

text \<open>
  The options of an argument list, as the loop reads them: each argument that starts
  with \<open>--\<close> (other than \<open>--keep-workspace\<close>) with the argument after it as its value.
\<close>

fun options_of :: "string list \<Rightarrow> (string \<times> string) list" where
  "options_of [] = []"
| "options_of (arg # rest) =
     (if arg = [] \<or> arg = ''--keep-workspace'' \<or> \<not> starts_with ''--'' arg then options_of rest
      else (case rest of [] \<Rightarrow> [] | nxt # rest' \<Rightarrow> (arg, nxt) # options_of rest'))"

definition touches_turn_policy :: "string \<times> string \<Rightarrow> bool" where
  "touches_turn_policy opt =
     (fst opt = ''--turn-policy'' \<or> fst opt = ''--max-consecutive-rounds''
      \<or> fst opt = ''--max-consecutive-checkpoints'')"

definition share_example :: "nat \<Rightarrow> nat \<Rightarrow> AgentId \<Rightarrow> ContributionSummary" where
  "share_example a b x =
     (contributionTemplate x)\<lparr>cs_estimatedWrittenBytes := (case x of A \<Rightarrow> a | B \<Rightarrow> b)\<rparr>"

definition observer_example :: SessionObserver where
  "observer_example =
     record_ev 5
       \<lparr>category = CatSession, ev_name = ''test_event'', ev_actor = Some System, ev_round = None,
        ev_phase = None, ev_details = None\<rparr>
       (new_SessionObserver 0 ''session.json'' (\<lambda>k. None) None
          \<lparr>opt_cwd = ''/tmp'', opt_logFile = None, opt_eventLogFile = None,
           opt_disableEventStream = False, opt_eventStreamMode = None\<rparr>)"


text \<open>
  The tracker's checkpoint invariant under \<open>every_n_file_edits\<close> with \<open>editsPerPause = n\<close>:
  the next threshold is the next multiple of \<open>n\<close>, and the checkpoints fired so far are
  the counted calls divided by \<open>n\<close>.
\<close>

definition tracker_inv :: "nat \<Rightarrow> tracker \<Rightarrow> bool" where
  "tracker_inv n t =
     (nextCheckpointAt t = enat ((checkpointCount t + 1) * n) \<and>
      checkpointCount t = countedEdits t div n)"


section \<open>Properties of runs\<close>

text \<open>
  A function on observers that records one event: what \<open>observe\<close> is given by the
  orchestrator at each of its recording calls.
\<close>

definition recorder :: "(int \<Rightarrow> SessionObserver \<Rightarrow> SessionObserver) \<Rightarrow> bool" where
  "recorder f = (\<forall>now ob. \<exists>ev. f now ob = record_ev now ev ob)"

text \<open>Results compared without their observability summary.\<close>

definition result_rel :: "(int \<Rightarrow> int \<Rightarrow> bool) \<Rightarrow> PairRunResult \<Rightarrow> PairRunResult \<Rightarrow> bool" where
  "result_rel T r1 r2 = core_rel T (ResultCore.truncate r1) (ResultCore.truncate r2)"

text \<open>
  What both versions of \<open>run\<close> do in the \<open>try\<close> block after \<open>session_start\<close> under
  \<open>paired_turns\<close>: the task entry, the planning, the round loop, the final review and
  the result.
\<close>

definition paired_rest :: "world \<Rightarrow> PairAgentConfig2 \<Rightarrow> string \<Rightarrow> ResultCore orch" where
  "paired_rest w cfg task =
    (seq (broadcastShared w ''task'' System task)
    (bnd (collaborativePlanning w cfg task) (\<lambda>plan.
     bnd (paired_loop w cfg task plan 1 (initial_loop_state cfg)) (\<lambda>ls.
     bnd (finalReview w cfg task plan) (\<lambda>fr.
     result_core task plan (ls_rounds ls) fr
       (buildSummary (ls_contributions ls) (ls_checkpointCount ls) (ls_swapCount ls)))))))"



text \<open>
  Example worlds: the agents answer the \<open>k\<close>-th call with \<open>replies k\<close> whatever the
  agent and the prompt, every prompt text is empty, and the clock is \<open>clk\<close>. An agent
  call may leave no assistant message (\<open>silent\<close>), throw (\<open>failing\<close>), or end with
  an assistant message of one text part (\<open>said\<close>). In \<open>done_world\<close> the first
  answer is a driver report with status \<open>done\<close> and every later one a review whose
  public feedback is \<open>NONE.\<close>; in \<open>handoff_world\<close> the report is the fourth answer,
  after the three of the planning.
\<close>

definition silent :: prompt_outcome where
  "silent = \<lparr>po_events = [], po_result = NoAssistantMessage\<rparr>"


definition said :: "string \<Rightarrow> prompt_outcome" where
  "said txt = \<lparr>po_events = [],
     po_result = LastAssistant \<lparr>role = ''assistant'', stopReason = ''stop'', errorMessage = None,
                                textParts = [txt]\<rparr>\<rparr>"

definition done_text :: string where
  "done_text = ''<status>done</status>''"

definition none_text :: string where
  "none_text = ''<public_feedback>NONE.</public_feedback>''"

definition example_world :: "(nat \<Rightarrow> prompt_outcome) \<Rightarrow> (nat \<Rightarrow> int) \<Rightarrow> world" where
  "example_world replies clk =
     \<lparr>env = (\<lambda>k a p. replies k), clock = clk, render = (\<lambda>p. []), shortHash = (\<lambda>s. []),
      toISOString = (\<lambda>t. [])\<rparr>"

definition done_world :: world where
  "done_world = example_world (\<lambda>k. if k = 0 then said done_text else said none_text) (\<lambda>k. 0)"

definition handoff_world :: world where
  "handoff_world = example_world (\<lambda>k. if k = 3 then said done_text else said none_text) (\<lambda>k. 0)"

definition example_config :: "ExecutionMode \<Rightarrow> PairAgentConfig2" where
  "example_config m = PairAgentConfig.extend (defaultPairConfig ''/w'') \<lparr>executionMode = m\<rparr>"

definition initial_state :: "SessionObserver option \<Rightarrow> ostate" where
  "initial_state ob = \<lparr>sharedJournal = [], observer = ob, ticks = 0, calls = 0, agent_log = []\<rparr>"


section \<open>Verification: execution tracker\<close>

lemma div_step_lt:
  assumes "0 < (n::nat)" "c + 1 < (c div n + 1) * n"
  shows "(c + 1) div n = c div n"
proof -
  have "c div n * n \<le> c + 1"
    by (metis div_times_less_eq_dividend le_SucI Suc_eq_plus1)
  then show ?thesis using assms
    by (metis Suc_eq_plus1 div_nat_eqI mult.commute)
qed

lemma div_step_ge:
  assumes "0 < (n::nat)" "\<not> c + 1 < (c div n + 1) * n"
  shows "(c + 1) div n = c div n + 1"
proof -
  have "c < (c div n + 1) * n" using assms(1)
    by (metis Suc_eq_plus1 dividend_less_div_times mult.commute mult_Suc add.commute)
  then have "c + 1 = (c div n + 1) * n" using assms(2) by linarith
  then show ?thesis using assms(1)
    by (metis nonzero_mult_div_cancel_right less_numeral_extra(3))
qed

lemma div_step_lt_Suc:
  "0 < (n::nat) \<Longrightarrow> Suc c < n + c div n * n \<Longrightarrow> Suc c div n = c div n"
  using div_step_lt[of n c] by simp

lemma div_step_ge_Suc:
  "0 < (n::nat) \<Longrightarrow> \<not> Suc c < n + c div n * n \<Longrightarrow> Suc c div n = Suc (c div n)"
  using div_step_ge[of n c] by simp

lemma onEvent_inv:
  assumes "0 < n" "tracker_inv n t" "onEvent (EveryNFileEdits n tools) t ev = (t', fired)"
  shows "tracker_inv n t' \<and>
         countedEdits t' = countedEdits t + (if qualifying tools ev then 1 else 0)"
  using assms
  by (cases ev)
     (auto simp: tracker_inv_def clear_pending_def promote_def Let_def
                 div_step_lt_Suc div_step_ge_Suc split: if_splits)

lemma deliver_inv:
  assumes "0 < n"
  shows "tracker_inv n t \<Longrightarrow> deliver (EveryNFileEdits n tools) t evs = (t', fired) \<Longrightarrow>
         tracker_inv n t' \<and>
         countedEdits t' = countedEdits t + length (filter (qualifying tools) evs)"
proof (induction evs arbitrary: t t' fired)
  case Nil
  then show ?case by simp
next
  case (Cons ev evs)
  obtain t1 f1 where s1: "onEvent (EveryNFileEdits n tools) t ev = (t1, f1)" by fastforce
  obtain t2 f2 where s2: "deliver (EveryNFileEdits n tools) t1 evs = (t2, f2)" by fastforce
  from Cons.prems(2) s1 s2 have t': "t' = t2" by simp
  from onEvent_inv[OF assms Cons.prems(1) s1]
  have i1: "tracker_inv n t1"
    and c1: "countedEdits t1 = countedEdits t + (if qualifying tools ev then 1 else 0)"
    by auto
  from Cons.IH[OF i1 s2] c1 t' show ?case by simp
qed

lemma create_inv: "tracker_inv n (createDriverExecutionTracker (EveryNFileEdits n tools))"
  by (simp add: tracker_inv_def createDriverExecutionTracker_def)

lemma errored_not_counted:
  "countedEdits (fst (onEvent ps t (ToolExecutionEnd cid toolName True result))) = countedEdits t"
  by (cases ps) (simp_all add: clear_pending_def Let_def)

text \<open>
  C1. Under \<open>every_n_file_edits\<close> with \<open>editsPerPause = n > 0\<close>, after any finite event
  sequence the tracker's \<open>checkpointCount\<close> is \<open>K div n\<close>, where \<open>K\<close> is the number of
  successful \<open>tool_execution_end\<close> events whose tool is in \<open>countedTools\<close>; \<open>countedEdits\<close>
  is exactly \<open>K\<close>, and an errored call leaves \<open>countedEdits\<close> as it was.
\<close>

theorem checkpoint_arithmetic:
  assumes "0 < n"
  shows "checkpointCount (fst (deliver (EveryNFileEdits n tools)
            (createDriverExecutionTracker (EveryNFileEdits n tools)) evs))
           = length (filter (qualifying tools) evs) div n
       \<and> countedEdits (fst (deliver (EveryNFileEdits n tools)
            (createDriverExecutionTracker (EveryNFileEdits n tools)) evs))
           = length (filter (qualifying tools) evs)
       \<and> countedEdits (fst (onEvent (EveryNFileEdits n tools) t
            (ToolExecutionEnd cid toolName True result))) = countedEdits t"
proof -
  obtain t' f where d: "deliver (EveryNFileEdits n tools)
      (createDriverExecutionTracker (EveryNFileEdits n tools)) evs = (t', f)"
    by fastforce
  from deliver_inv[OF assms create_inv d]
  have "tracker_inv n t'" and "countedEdits t' = length (filter (qualifying tools) evs)"
    by (simp_all add: createDriverExecutionTracker_def)
  then have a: "checkpointCount t' = length (filter (qualifying tools) evs) div n"
    and b: "countedEdits t' = length (filter (qualifying tools) evs)"
    by (simp_all add: tracker_inv_def)
  have c: "countedEdits (fst (onEvent (EveryNFileEdits n tools) t
      (ToolExecutionEnd cid toolName True result))) = countedEdits t"
    by (rule errored_not_counted)
  from a b c d show ?thesis by (simp only: fst_conv simp_thms)
qed

theorem checkpoint_arithmetic_witness:
  "(0::nat) < 2 \<and>
   checkpointCount (fst (deliver (EveryNFileEdits 2 [''edit'', ''write''])
      (createDriverExecutionTracker (EveryNFileEdits 2 [''edit'', ''write'']))
      [ToolExecutionEnd ''a'' ''edit'' False JNull, ToolExecutionEnd ''b'' ''write'' True JNull,
       ToolExecutionEnd ''c'' ''write'' False JNull, ToolExecutionEnd ''d'' ''read'' False JNull,
       ToolExecutionEnd ''e'' ''edit'' False JNull])) = 1"
  using checkpoint_arithmetic[of 2 "[''edit'', ''write'']"
      "[ToolExecutionEnd ''a'' ''edit'' False JNull, ToolExecutionEnd ''b'' ''write'' True JNull,
        ToolExecutionEnd ''c'' ''write'' False JNull, ToolExecutionEnd ''d'' ''read'' False JNull,
        ToolExecutionEnd ''e'' ''edit'' False JNull]"]
  by simp

text \<open>
  What holds of the pending-estimate map: under \<open>every_n_file_edits\<close> the end of an
  \<open>edit\<close> or \<open>write\<close> call always clears the entry of its call id; under \<open>none\<close> only a
  successful one does. Under both strategies an errored call changes neither
  \<open>estimatedWrittenBytes\<close> nor \<open>editWriteCallCount\<close>.
\<close>

lemma pending_cleared_every_n:
  "toolName = ''edit'' \<or> toolName = ''write'' \<Longrightarrow>
   pendingWriteEstimates (fst (onEvent (EveryNFileEdits n tools) t
     (ToolExecutionEnd cid toolName isError result))) cid = None"
  by (auto simp: clear_pending_def promote_def Let_def)

lemma pending_cleared_none_success:
  "toolName = ''edit'' \<or> toolName = ''write'' \<Longrightarrow>
   pendingWriteEstimates (fst (onEvent PauseNone t
     (ToolExecutionEnd cid toolName False result))) cid = None"
  by (auto simp: clear_pending_def promote_def)

lemma errored_not_promoted:
  "estimatedWrittenBytes (fst (onEvent ps t (ToolExecutionEnd cid toolName True result)))
     = estimatedWrittenBytes t \<and>
   editWriteCallCount (fst (onEvent ps t (ToolExecutionEnd cid toolName True result)))
     = editWriteCallCount t"
  by (cases ps) (simp_all add: clear_pending_def Let_def)

text \<open>
  C4. Under the \<open>none\<close> strategy an errored \<open>edit\<close> call keeps its pending entry: after
  the start and the errored end of call \<open>c1\<close>, the map still holds the 3 bytes estimated
  for it. The \<open>every_n_file_edits\<close> branch of the same handler clears the entry.
\<close>

theorem pending_kept_on_error_under_none:
  "pendingWriteEstimates (fst (deliver PauseNone (createDriverExecutionTracker PauseNone)
      [ToolExecutionStart ''c1'' ''edit'' (JObj [(''newText'', JStr ''abc'')]),
       ToolExecutionEnd ''c1'' ''edit'' True JNull])) ''c1'' = Some 3
   \<and> pendingWriteEstimates (fst (deliver (EveryNFileEdits 3 [''edit'', ''write''])
      (createDriverExecutionTracker (EveryNFileEdits 3 [''edit'', ''write'']))
      [ToolExecutionStart ''c1'' ''edit'' (JObj [(''newText'', JStr ''abc'')]),
       ToolExecutionEnd ''c1'' ''edit'' True JNull])) ''c1'' = None"
  by (simp add: createDriverExecutionTracker_def estimateWrittenBytes_def byteLength_def
                clear_pending_def)

section \<open>Verification: tagged protocol parser\<close>

lemma strip_all_punct: "list_all is_terminal_punct s \<Longrightarrow> strip_terminal_punct s = []"
  by (cases s) simp_all

lemma strip_terminal_punct_eq:
  "strip_terminal_punct s = rev (dropWhile is_terminal_punct (rev s))"
proof (induction s)
  case Nil
  then show ?case by simp
next
  case (Cons c cs)
  show ?case
  proof (cases "list_all is_terminal_punct (c # cs)")
    case True
    then have "dropWhile is_terminal_punct (rev (c # cs)) = []"
      by (simp add: list_all_iff)
    with True show ?thesis by simp
  next
    case False
    show ?thesis
    proof (cases "list_all is_terminal_punct cs")
      case True
      with False have nc: "\<not> is_terminal_punct c" by simp
      from True have "dropWhile is_terminal_punct (rev cs) = []"
        by (simp add: list_all_iff)
      with True nc False show ?thesis
        by (simp add: dropWhile_append strip_all_punct list_all_iff)
    next
      case False2: False
      then obtain x where "x \<in> set (rev cs)" "\<not> is_terminal_punct x"
        by (auto simp: list_all_iff)
      then have "dropWhile is_terminal_punct (rev cs @ [c])
                   = dropWhile is_terminal_punct (rev cs) @ [c]"
        by (rule dropWhile_append1)
      with False Cons.IH show ?thesis by simp
    qed
  qed
qed

lemma spec_strip_eq: "spec_strip_trailing s = strip_terminal_punct s"
  unfolding spec_strip_trailing_def strip_terminal_punct_eq is_terminal_punct_def ..

text \<open>
  C2. \<open>parseNavigatorReview\<close> is a total function of the text (no branch of it raises),
  and its \<open>hasFeedback\<close> is false exactly when the public-feedback field (the literal
  \<open>NONE\<close> when the tag is absent), trimmed, upper-cased and stripped of trailing \<open>.\<close> and
  \<open>!\<close>, is \<open>NONE\<close>.
\<close>

theorem navigator_has_feedback_iff:
  "hasFeedback (parseNavigatorReview raw) = (\<not> spec_no_feedback (spec_public_feedback raw))"
  by (simp add: parseNavigatorReview_def spec_no_feedback_def spec_public_feedback_def
                spec_strip_eq or_else_def Let_def split: option.splits)

section \<open>Verification: run summary\<close>

lemma round_half_even_error: "\<bar>of_int (round_half_even y) - y\<bar> \<le> 1 / 2"
proof -
  have "of_int \<lfloor>y\<rfloor> \<le> y" "y < of_int \<lfloor>y\<rfloor> + 1" by linarith+
  then show ?thesis by (auto simp: round_half_even_def Let_def)
qed

lemma binade_le:
  assumes "x \<noteq> 0"
  shows "power_int 2 (binade x) \<le> \<bar>x\<bar>"
proof -
  obtain p q where pq: "quotient_of \<bar>x\<bar> = (p, q)" by fastforce
  then have q: "0 < q" and x: "\<bar>x\<bar> = of_int p / of_int q"
    by (simp_all add: quotient_of_denom_pos quotient_of_div)
  from assms have "0 < \<bar>x\<bar>" by simp
  with x q have p: "0 < p" by (simp add: zero_less_divide_iff)
  let ?d = "bitlen p - bitlen q"
  show ?thesis
  proof (cases "power_int 2 ?d \<le> \<bar>x\<bar>")
    case True
    with pq show ?thesis by (simp add: binade_def)
  next
    case False
    from bitlen_bounds[OF p] have lo: "2 ^ nat (bitlen p - 1) \<le> p" by simp
    from bitlen_bounds[OF q] have hi: "q < 2 ^ nat (bitlen q)" by simp
    have bp: "1 \<le> bitlen p" using p bitlen_eq_zero_iff[of p] bitlen_nonneg[of p] by linarith
    have bq: "0 \<le> bitlen q" by (rule bitlen_nonneg)
    have lo': "(power_int 2 (bitlen p - 1) :: rat) \<le> of_int p"
    proof -
      have "(of_int (2 ^ nat (bitlen p - 1)) :: rat) \<le> of_int p" using lo by (simp only: of_int_le_iff)
      moreover have "(power_int 2 (bitlen p - 1) :: rat) = 2 ^ nat (bitlen p - 1)"
        using bp by (simp add: power_int_def)
      ultimately show ?thesis by simp
    qed
    have hi': "(of_int q :: rat) \<le> power_int 2 (bitlen q)"
    proof -
      have "(of_int q :: rat) < of_int (2 ^ nat (bitlen q))" using hi by (simp only: of_int_less_iff)
      moreover have "(power_int 2 (bitlen q) :: rat) = 2 ^ nat (bitlen q)"
        using bq by (simp add: power_int_def)
      ultimately show ?thesis by simp
    qed
    have "(power_int 2 (?d - 1) :: rat) = power_int 2 (bitlen p - 1) / power_int 2 (bitlen q)"
      by (simp add: power_int_diff[symmetric] algebra_simps)
    also have "\<dots> \<le> of_int p / power_int 2 (bitlen q)"
      using lo' by (simp add: divide_right_mono)
    also have "\<dots> \<le> of_int p / of_int q"
      using hi' p q by (simp add: divide_left_mono)
    finally have "power_int 2 (?d - 1) \<le> \<bar>x\<bar>" using x by simp
    with False pq show ?thesis by (simp add: binade_def)
  qed
qed

text \<open>Rounding to a double moves a number by at most \<open>2^-53\<close> of its magnitude.\<close>

lemma to_double_error: "\<bar>to_double x - x\<bar> \<le> \<bar>x\<bar> / 2 ^ 53"
proof (cases "x = 0")
  case True
  then show ?thesis by (simp add: to_double_def)
next
  case False
  define ulp :: rat where "ulp = power_int 2 (binade x - 52)"
  have pos: "0 < ulp" by (simp add: ulp_def)
  have td: "to_double x = of_int (round_half_even (x / ulp)) * ulp"
    using False by (simp add: to_double_def ulp_def Let_def)
  have "to_double x - x = (of_int (round_half_even (x / ulp)) - x / ulp) * ulp"
    using pos by (simp add: td algebra_simps)
  then have "\<bar>to_double x - x\<bar> = \<bar>of_int (round_half_even (x / ulp)) - x / ulp\<bar> * ulp"
    using pos by (simp add: abs_mult)
  also have "\<dots> \<le> 1 / 2 * ulp"
    using round_half_even_error[of "x / ulp"] pos by (simp add: mult_right_mono)
  also have "1 / 2 * ulp = power_int 2 (binade x) / 2 ^ 53"
  proof -
    have "ulp = power_int 2 (binade x) / power_int 2 52"
      unfolding ulp_def by (simp add: power_int_diff)
    then show ?thesis by simp
  qed
  also have "\<dots> \<le> \<bar>x\<bar> / 2 ^ 53"
    using binade_le[OF False] by (simp add: divide_right_mono)
  finally show ?thesis .
qed

lemma to_double_bound:
  assumes "0 \<le> x" and "x \<le> c"
  shows "\<bar>to_double x - x\<bar> \<le> c * (1 / 2 ^ 53)" and "0 \<le> to_double x"
proof -
  have e: "\<bar>to_double x - x\<bar> \<le> x / 2 ^ 53" using to_double_error[of x] assms(1) by simp
  also have "\<dots> \<le> c / 2 ^ 53" using assms(2) by (simp add: divide_right_mono)
  finally show "\<bar>to_double x - x\<bar> \<le> c * (1 / 2 ^ 53)" by simp
  have "x / 2 ^ 53 \<le> x" using assms(1) by (simp add: field_simps)
  with e show "0 \<le> to_double x" by linarith
qed

text \<open>
  One share: the quotient, the two products and the last division are each rounded to
  a double, and \<open>Math.round\<close> moves the tenths by at most one half.
\<close>

lemma share_error:
  fixes a t :: nat
  assumes "0 < t" and "a \<le> t"
  shows "\<bar>roundPercent (to_double (to_double (of_nat a / of_nat t) * 100))
           - 100 * (of_nat a / of_nat t)\<bar> \<le> 1 / 20 + 1 / 2 ^ 44"
    and "0 \<le> roundPercent (to_double (to_double (of_nat a / of_nat t) * 100))"
proof -
  define u :: rat where "u = 1 / 2 ^ 53"
  define x :: rat where "x = of_nat a / of_nat t"
  define q where "q = to_double x"
  define p where "p = to_double (q * 100)"
  define v where "v = to_double (p * 10)"
  define m where "m = math_round v"
  define r where "r = to_double (of_int m / 10)"
  have u0: "0 < u" and u1: "u \<le> 1 / 10000" and u2: "512 * u = 1 / 2 ^ 44"
    by (simp_all add: u_def)
  have s: "roundPercent (to_double (to_double (of_nat a / of_nat t) * 100)) = r"
    by (simp add: roundPercent_def r_def m_def v_def p_def q_def x_def)
  have x0: "0 \<le> x" by (simp add: x_def)
  have x1: "x \<le> 1" using assms by (simp add: x_def)
  from to_double_bound[OF x0 x1] have q1: "\<bar>q - x\<bar> \<le> 1 * u" and q0: "0 \<le> q"
    unfolding q_def u_def by blast+
  have a1: "0 \<le> q * 100" using q0 by linarith
  have a2: "q * 100 \<le> 101" using q1 x1 u1 by linarith
  from to_double_bound[OF a1 a2] have p1: "\<bar>p - q * 100\<bar> \<le> 101 * u" and p0: "0 \<le> p"
    unfolding p_def u_def by blast+
  have b1: "0 \<le> p * 10" using p0 by linarith
  have b2: "p * 10 \<le> 1020" using p1 a2 u1 by linarith
  from to_double_bound[OF b1 b2] have v1: "\<bar>v - p * 10\<bar> \<le> 1020 * u" and v0: "0 \<le> v"
    unfolding v_def u_def by blast+
  have vx: "\<bar>v - 1000 * x\<bar> \<le> 3030 * u" using v1 p1 q1 by linarith
  have m1: "of_int m \<le> v + 1 / 2" and m2: "v + 1 / 2 < of_int m + 1"
    unfolding m_def math_round_def by linarith+
  have "0 \<le> m" using v0 unfolding m_def math_round_def by simp
  then have c1: "(0::rat) \<le> of_int m / 10" by simp
  have c2: "(of_int m :: rat) / 10 \<le> 101" using m1 vx x1 u1 by linarith
  from to_double_bound[OF c1 c2] have r1: "\<bar>r - of_int m / 10\<bar> \<le> 101 * u" and r0: "0 \<le> r"
    unfolding r_def u_def by blast+
  have "\<bar>r - 100 * x\<bar> \<le> 1 / 20 + 512 * u" using r1 m1 m2 vx u0 by linarith
  then show "\<bar>roundPercent (to_double (to_double (of_nat a / of_nat t) * 100))
           - 100 * (of_nat a / of_nat t)\<bar> \<le> 1 / 20 + 1 / 2 ^ 44"
    unfolding u2 by (simp add: s x_def)
  show "0 \<le> roundPercent (to_double (to_double (of_nat a / of_nat t) * 100))"
    using r0 by (simp add: s)
qed

text \<open>
  C6. When the estimated written bytes of the two agents sum to more than zero (and to
  less than \<open>2^53\<close>, so that the counts are exact doubles), each
  \<open>roughCodeSharePercent\<close> that \<open>buildSummary\<close> assigns is within \<open>0.05 + 2^-44\<close> of the
  agent's exact percentage of the bytes, and so the two sum to within \<open>0.1 + 2^-43\<close> of
  100; their sum computed in binary64 is within \<open>0.1 + 2^-42\<close> of 100.
\<close>

theorem share_invariant:
  assumes "0 < cs_estimatedWrittenBytes (c A) + cs_estimatedWrittenBytes (c B)"
    and "cs_estimatedWrittenBytes (c A) + cs_estimatedWrittenBytes (c B) < 2 ^ 53"
  shows "\<bar>roughCodeSharePercent (rs_contributions (buildSummary c k s) A)
           - 100 * (of_nat (cs_estimatedWrittenBytes (c A))
                     / of_nat (cs_estimatedWrittenBytes (c A) + cs_estimatedWrittenBytes (c B)))\<bar>
           \<le> 1 / 20 + 1 / 2 ^ 44
       \<and> \<bar>roughCodeSharePercent (rs_contributions (buildSummary c k s) B)
           - 100 * (of_nat (cs_estimatedWrittenBytes (c B))
                     / of_nat (cs_estimatedWrittenBytes (c A) + cs_estimatedWrittenBytes (c B)))\<bar>
           \<le> 1 / 20 + 1 / 2 ^ 44
       \<and> \<bar>roughCodeSharePercent (rs_contributions (buildSummary c k s) A)
           + roughCodeSharePercent (rs_contributions (buildSummary c k s) B) - 100\<bar>
           \<le> 1 / 10 + 1 / 2 ^ 43
       \<and> \<bar>to_double (roughCodeSharePercent (rs_contributions (buildSummary c k s) A)
                      + roughCodeSharePercent (rs_contributions (buildSummary c k s) B)) - 100\<bar>
           \<le> 1 / 10 + 1 / 2 ^ 42"
proof -
  define a where "a = cs_estimatedWrittenBytes (c A)"
  define b where "b = cs_estimatedWrittenBytes (c B)"
  define sa where "sa = roundPercent (to_double (to_double (of_nat a / of_nat (a + b)) * 100))"
  define sb where "sb = roundPercent (to_double (to_double (of_nat b / of_nat (a + b)) * 100))"
  define t :: rat where "t = of_nat (a + b)"
  have pos: "0 < a + b" using assms(1) by (simp add: a_def b_def)
  have A: "roughCodeSharePercent (rs_contributions (buildSummary c k s) A) = sa"
    using pos by (simp add: buildSummary_def Let_def set_share_def sa_def a_def b_def)
  have B: "roughCodeSharePercent (rs_contributions (buildSummary c k s) B) = sb"
    using pos by (simp add: buildSummary_def Let_def set_share_def sb_def a_def b_def)
  have ea: "\<bar>sa - 100 * (of_nat a / t)\<bar> \<le> 1 / 20 + 1 / 2 ^ 44"
    unfolding sa_def t_def by (rule share_error(1)[OF pos]) simp
  have eb: "\<bar>sb - 100 * (of_nat b / t)\<bar> \<le> 1 / 20 + 1 / 2 ^ 44"
    unfolding sb_def t_def by (rule share_error(1)[OF pos]) simp
  have na: "0 \<le> sa" unfolding sa_def by (rule share_error(2)[OF pos]) simp
  have nb: "0 \<le> sb" unfolding sb_def by (rule share_error(2)[OF pos]) simp
  have "(0::rat) < of_nat (a + b)" using pos by (simp only: of_nat_0_less_iff)
  then have t0: "t \<noteq> 0" by (simp add: t_def)
  have "of_nat a / t + of_nat b / t = (of_nat a + of_nat b) / t"
    by (simp add: add_divide_distrib)
  also have "\<dots> = t / t" by (simp add: t_def)
  also have "\<dots> = 1" using t0 by simp
  finally have one: "of_nat a / t + of_nat b / t = 1" .
  have h: "(1::rat) / 2 ^ 44 + 1 / 2 ^ 44 = 1 / 2 ^ 43" by simp
  have "\<bar>sa + sb - 100\<bar> \<le> 1 / 10 + (1 / 2 ^ 44 + 1 / 2 ^ 44)" using ea eb one by linarith
  then have es: "\<bar>sa + sb - 100\<bar> \<le> 1 / 10 + 1 / 2 ^ 43" unfolding h .
  define e :: rat where "e = 1 / 2 ^ 46"
  have e0: "0 < e" and e1: "e \<le> 1 / 10000" and e2: "1 / 2 ^ 43 = 8 * e"
    and e3: "101 * (1 / 2 ^ 53) \<le> e" and e4: "1 / 2 ^ 42 = 16 * e"
    by (simp_all add: e_def)
  have s0: "0 \<le> sa + sb" using na nb by linarith
  have s1: "sa + sb \<le> 101" using es e1 unfolding e2 by linarith
  from to_double_bound(1)[OF s0 s1] e3 have "\<bar>to_double (sa + sb) - (sa + sb)\<bar> \<le> e"
    by linarith
  with es have "\<bar>to_double (sa + sb) - 100\<bar> \<le> 1 / 10 + 16 * e" unfolding e2 using e0 by linarith
  then have ed: "\<bar>to_double (sa + sb) - 100\<bar> \<le> 1 / 10 + 1 / 2 ^ 42" unfolding e4 .
  from ea eb es ed show ?thesis unfolding A B by (simp add: a_def b_def t_def)
qed

lemma share_23_of_80_quotient: "to_double (23 / 80) = 2589569785738035 / 9007199254740992"
  by code_simp

lemma share_23_of_80_percent: "to_double (2589569785738035 / 9007199254740992 * 100) = 8092405580431359 / 281474976710656"
  by code_simp

lemma share_23_of_80_tenths: "to_double (8092405580431359 / 281474976710656 * 10) = 5057753487769599 / 17592186044416"
  by code_simp

lemma share_23_of_80_rounded: "math_round (5057753487769599 / 17592186044416) = 287"
  by code_simp

lemma share_23_of_80_share: "to_double (of_int 287 / 10) = 8078331831595827 / 281474976710656"
  by code_simp

lemma share_23_of_80:
  "roundPercent (to_double (to_double (23 / 80) * 100)) = 8078331831595827 / 281474976710656"
  unfolding roundPercent_def share_23_of_80_quotient share_23_of_80_percent share_23_of_80_tenths share_23_of_80_rounded share_23_of_80_share ..

lemma share_57_of_80_quotient: "to_double (57 / 80) = 6417629469002957 / 9007199254740992"
  by code_simp

lemma share_57_of_80_percent: "to_double (6417629469002957 / 9007199254740992 * 100) = 285 / 4"
  by code_simp

lemma share_57_of_80_tenths: "to_double (285 / 4 * 10) = 1425 / 2"
  by code_simp

lemma share_57_of_80_rounded: "math_round (1425 / 2) = 713"
  by code_simp

lemma share_57_of_80_share: "to_double (of_int 713 / 10) = 5017291459867443 / 70368744177664"
  by code_simp

lemma share_57_of_80:
  "roundPercent (to_double (to_double (57 / 80) * 100)) = 5017291459867443 / 70368744177664"
  unfolding roundPercent_def share_57_of_80_quotient share_57_of_80_percent share_57_of_80_tenths share_57_of_80_rounded share_57_of_80_share ..

theorem share_invariant_witness:
  "(0::nat) < cs_estimatedWrittenBytes (share_example 23 57 A)
                + cs_estimatedWrittenBytes (share_example 23 57 B)
   \<and> cs_estimatedWrittenBytes (share_example 23 57 A)
        + cs_estimatedWrittenBytes (share_example 23 57 B) < 2 ^ 53
   \<and> roughCodeSharePercent (rs_contributions (buildSummary (share_example 23 57) 0 0) A)
        = to_double (287 / 10)
   \<and> roughCodeSharePercent (rs_contributions (buildSummary (share_example 23 57) 0 0) B)
        = to_double (713 / 10)
   \<and> \<bar>roughCodeSharePercent (rs_contributions (buildSummary (share_example 23 57) 0 0) A)
        + roughCodeSharePercent (rs_contributions (buildSummary (share_example 23 57) 0 0) B)
        - 100\<bar> \<le> 1 / 10 + 1 / 2 ^ 43"
proof -
  have b: "cs_estimatedWrittenBytes (share_example 23 57 A) = 23"
    "cs_estimatedWrittenBytes (share_example 23 57 B) = 57"
    by (simp_all add: share_example_def contributionTemplate_def)
  have sA: "roughCodeSharePercent (rs_contributions (buildSummary (share_example 23 57) 0 0) A)
      = roundPercent (to_double (to_double (23 / 80) * 100))"
    by (simp add: buildSummary_def Let_def set_share_def b)
  have sB: "roughCodeSharePercent (rs_contributions (buildSummary (share_example 23 57) 0 0) B)
      = roundPercent (to_double (to_double (57 / 80) * 100))"
    by (simp add: buildSummary_def Let_def set_share_def b)
  have dA: "to_double (287 / 10) = 8078331831595827 / 281474976710656" by code_simp
  have dB: "to_double (713 / 10) = 5017291459867443 / 70368744177664" by code_simp
  have h: "(0::nat) < 23 + 57" "(23::nat) + 57 < 2 ^ 53" by simp_all
  from share_invariant[of "share_example 23 57" 0 0] h
  have "\<bar>roughCodeSharePercent (rs_contributions (buildSummary (share_example 23 57) 0 0) A)
        + roughCodeSharePercent (rs_contributions (buildSummary (share_example 23 57) 0 0) B)
        - 100\<bar> \<le> 1 / 10 + 1 / 2 ^ 43"
    unfolding b by blast
  moreover note sA[unfolded share_23_of_80 dA[symmetric]] sB[unfolded share_57_of_80 dB[symmetric]]
  ultimately show ?thesis unfolding b using h by blast
qed

text \<open>
  The claim as stated fails in binary64: with 3 and 1997 bytes the shares are the
  doubles 0.2 and 99.9, whose sum, exact or rounded to a double, is more than 0.1 (the
  number or the double) above 100.
\<close>

lemma share_3_of_2000_quotient: "to_double (3 / 2000) = 3458764513820541 / 2305843009213693952"
  by code_simp

lemma share_3_of_2000_percent: "to_double (3458764513820541 / 2305843009213693952 * 100) = 5404319552844595 / 36028797018963968"
  by code_simp

lemma share_3_of_2000_tenths: "to_double (5404319552844595 / 36028797018963968 * 10) = 3 / 2"
  by code_simp

lemma share_3_of_2000_rounded: "math_round (3 / 2) = 2"
  by code_simp

lemma share_3_of_2000_share: "to_double (of_int 2 / 10) = 3602879701896397 / 18014398509481984"
  by code_simp

lemma share_3_of_2000:
  "roundPercent (to_double (to_double (3 / 2000) * 100)) = 3602879701896397 / 18014398509481984"
  unfolding roundPercent_def share_3_of_2000_quotient share_3_of_2000_percent share_3_of_2000_tenths share_3_of_2000_rounded share_3_of_2000_share ..

lemma share_1997_of_2000_quotient: "to_double (1997 / 2000) = 8993688455858881 / 9007199254740992"
  by code_simp

lemma share_1997_of_2000_percent: "to_double (8993688455858881 / 9007199254740992 * 100) = 7026319106139751 / 70368744177664"
  by code_simp

lemma share_1997_of_2000_tenths: "to_double (7026319106139751 / 70368744177664 * 10) = 8782898882674689 / 8796093022208"
  by code_simp

lemma share_1997_of_2000_rounded: "math_round (8782898882674689 / 8796093022208) = 999"
  by code_simp

lemma share_1997_of_2000_share: "to_double (of_int 999 / 10) = 3514918771674317 / 35184372088832"
  by code_simp

lemma share_1997_of_2000:
  "roundPercent (to_double (to_double (1997 / 2000) * 100)) = 3514918771674317 / 35184372088832"
  unfolding roundPercent_def share_1997_of_2000_quotient share_1997_of_2000_percent share_1997_of_2000_tenths share_1997_of_2000_rounded share_1997_of_2000_share ..

theorem share_sum_exceeds_tenth:
  "1 / 10 < roughCodeSharePercent (rs_contributions (buildSummary (share_example 3 1997) 0 0) A)
            + roughCodeSharePercent (rs_contributions (buildSummary (share_example 3 1997) 0 0) B)
            - 100
   \<and> to_double (1 / 10)
       < to_double (to_double
           (roughCodeSharePercent (rs_contributions (buildSummary (share_example 3 1997) 0 0) A)
            + roughCodeSharePercent (rs_contributions (buildSummary (share_example 3 1997) 0 0) B))
           - 100)"
proof -
  have b: "cs_estimatedWrittenBytes (share_example 3 1997 A) = 3"
    "cs_estimatedWrittenBytes (share_example 3 1997 B) = 1997"
    by (simp_all add: share_example_def contributionTemplate_def)
  have sA: "roughCodeSharePercent (rs_contributions (buildSummary (share_example 3 1997) 0 0) A)
      = 3602879701896397 / 18014398509481984"
    by (simp add: buildSummary_def Let_def set_share_def b share_3_of_2000)
  have sB: "roughCodeSharePercent (rs_contributions (buildSummary (share_example 3 1997) 0 0) B)
      = 3514918771674317 / 35184372088832"
    by (simp add: buildSummary_def Let_def set_share_def b share_1997_of_2000)
  have t: "to_double (1 / 10) = 3602879701896397 / 36028797018963968" by code_simp
  have d: "to_double (3602879701896397 / 18014398509481984 + 3514918771674317 / 35184372088832) = 7043911292184167 / 70368744177664"
    by code_simp
  have e: "to_double (7043911292184167 / 70368744177664 - 100) = 7036874417767 / 70368744177664"
    by code_simp
  show ?thesis unfolding sA sB d e t by simp
qed

section \<open>Verification: session observer\<close>

lemma flush_sets_summary:
  "flush now st msg ob = (Inr s, ob1) \<Longrightarrow> flushedSummary ob1 = Some s"
  by (auto simp: flush_def Let_def split: option.splits)

lemma flush_after: "flushedSummary ob = Some s \<Longrightarrow> flush now st msg ob = (Inr s, ob)"
  by (simp add: flush_def)

lemma record_after: "flushedSummary ob = Some s \<Longrightarrow> record_ev now ev ob = ob"
  by (simp add: record_ev_def)

lemma calls_after:
  "flushedSummary ob = Some s \<Longrightarrow>
   observer_calls cs ob = (replicate (length (filter is_flush_call cs)) (Inr s), ob)"
proof (induction cs)
  case Nil then show ?case by simp
next
  case (Cons c cs)
  then show ?case by (cases c) (simp_all add: flush_after record_after)
qed

text \<open>
  C9. Once a flush has returned a summary, every later flush returns that summary,
  whatever its arguments, and every later \<open>record\<close> leaves the observer as it is (no
  event added, no line written to the event stream): any sequence of later calls
  returns that summary at each flush and ends in the same observer state.
\<close>

theorem flush_idempotent:
  assumes "flush now st msg ob = (Inr s, ob1)"
  shows "observer_calls cs ob1 = (replicate (length (filter is_flush_call cs)) (Inr s), ob1)
       \<and> flush now' st' msg' ob1 = (Inr s, ob1)
       \<and> record_ev now'' ev ob1 = ob1"
  using flush_sets_summary[OF assms] by (simp add: calls_after flush_after record_after)

lemma observer_example_flush:
  "\<exists>s ob1. flush 9 Completed None observer_example = (Inr s, ob1)"
  by (simp add: flush_def observer_example_def new_SessionObserver_def record_ev_def
                queueEventStreamLine_def shouldStreamEvent_def or_else_def Let_def
                EventInput.extend_def)

theorem flush_idempotent_witness:
  "\<exists>s ob1. flush 9 Completed None observer_example = (Inr s, ob1)
      \<and> flush 11 Failed (Some ''late'') ob1 = (Inr s, ob1)
      \<and> record_ev 10 \<lparr>category = CatSession, ev_name = ''ignored_after_flush'',
           ev_actor = Some System, ev_round = None, ev_phase = None, ev_details = None\<rparr> ob1 = ob1"
proof -
  from observer_example_flush obtain s ob1
    where f: "flush 9 Completed None observer_example = (Inr s, ob1)" by blast
  from flush_idempotent[OF f] f show ?thesis by blast
qed

section \<open>Verification: command line\<close>

lemma parse_option_neutral:
  "parse_option rs cfg f v = Inr cfg' \<Longrightarrow> \<not> touches_turn_policy (f, v) \<Longrightarrow>
   turnPolicy (pair cfg') = turnPolicy (pair cfg)"
  by (auto simp: parse_option_def touches_turn_policy_def with_value_def with_pair_def Let_def
           split: if_splits sum.splits)

lemma parse_args_neutral:
  "parse_args rs cfg argv = Inr cfg' \<Longrightarrow> \<forall>opt \<in> set (options_of argv). \<not> touches_turn_policy opt \<Longrightarrow>
   turnPolicy (pair cfg') = turnPolicy (pair cfg)"
proof (induction rs cfg argv rule: parse_args.induct)
  case (1 rs cfg)
  then show ?case by simp
next
  case (2 rs cfg arg rest)
  show ?case
  proof (cases "arg = [] \<or> arg = ''--keep-workspace'' \<or> \<not> starts_with ''--'' arg")
    case True
    with "2.prems" "2.IH"(1,2,3) show ?thesis
      by (auto split: if_splits)
  next
    case False
    with "2.prems"(1) obtain nxt rest' cfg1 where
      r: "rest = nxt # rest'" and n: "nxt \<noteq> []" and o: "parse_option rs cfg arg nxt = Inr cfg1"
      and p: "parse_args rs cfg1 rest' = Inr cfg'"
      by (auto split: if_splits list.splits sum.splits)
    from False r have oo: "options_of (arg # rest) = (arg, nxt) # options_of rest'" by simp
    from False "2.prems"(1) have nh: "\<not> (arg = ''--help'' \<or> arg = ''-h'')" by (auto split: if_splits)
    have all: "\<forall>opt \<in> set ((arg, nxt) # options_of rest'). \<not> touches_turn_policy opt"
      using "2.prems"(2) unfolding oo .
    then have nt: "\<not> touches_turn_policy (arg, nxt)"
      and nr: "\<forall>opt \<in> set (options_of rest'). \<not> touches_turn_policy opt" by simp_all
    from False have f1: "arg \<noteq> []" and f3: "arg \<noteq> ''--keep-workspace''" and f4: "\<not> \<not> starts_with ''--'' arg" by simp_all
    have "turnPolicy (pair cfg') = turnPolicy (pair cfg1)"
      using "2.IH"(4)[OF f1 nh f3 f4 r n o p nr] .
    moreover have "turnPolicy (pair cfg1) = turnPolicy (pair cfg)"
      using parse_option_neutral[OF o nt] .
    ultimately show ?thesis by simp
  qed
qed

lemma parse_args_split:
  "parse_args rs cfg argv = Inr cfg' \<Longrightarrow> options_of argv = xs @ (f, v) # ys \<Longrightarrow>
   \<exists>cfg1 cfg2 rest.
      ((\<forall>opt \<in> set xs. \<not> touches_turn_policy opt) \<longrightarrow> turnPolicy (pair cfg1) = turnPolicy (pair cfg)) \<and>
      parse_option rs cfg1 f v = Inr cfg2 \<and> parse_args rs cfg2 rest = Inr cfg' \<and> options_of rest = ys"
proof (induction rs cfg argv arbitrary: xs rule: parse_args.induct)
  case (1 rs cfg)
  then show ?case by simp
next
  case (2 rs cfg arg rest)
  show ?case
  proof (cases "arg = [] \<or> arg = ''--keep-workspace'' \<or> \<not> starts_with ''--'' arg")
    case True
    from True "2.prems"(2) have oo: "options_of rest = xs @ (f, v) # ys" by auto
    from True "2.prems"(1) have nh: "\<not> (arg = ''--help'' \<or> arg = ''-h'')" by (auto split: if_splits)
    show ?thesis
    proof (cases "arg = []")
      case True
      with "2.prems"(1) have "parse_args rs cfg rest = Inr cfg'" by simp
      from "2.IH"(1)[OF True this oo] show ?thesis .
    next
      case ne: False
      show ?thesis
      proof (cases "arg = ''--keep-workspace''")
        case True
        with "2.prems"(1) ne have "parse_args rs (cfg\<lparr>keepWorkspace := True\<rparr>) rest = Inr cfg'" by simp
        from "2.IH"(2)[OF ne nh True this oo] show ?thesis by simp
      next
        case nk: False
        with True ne have ns: "\<not> starts_with ''--'' arg" by simp
        with "2.prems"(1) ne nh nk have "parse_args rs cfg rest = Inr cfg'" by simp
        from "2.IH"(3)[OF ne nh nk ns this oo] show ?thesis .
      qed
    qed
  next
    case False
    with "2.prems"(1) obtain nxt rest' cfg1 where
      r: "rest = nxt # rest'" and n: "nxt \<noteq> []" and o: "parse_option rs cfg arg nxt = Inr cfg1"
      and p: "parse_args rs cfg1 rest' = Inr cfg'"
      by (auto split: if_splits list.splits sum.splits)
    from False r have oo: "options_of (arg # rest) = (arg, nxt) # options_of rest'" by simp
    from False "2.prems"(1) have nh: "\<not> (arg = ''--help'' \<or> arg = ''-h'')" by (auto split: if_splits)
    show ?thesis
    proof (cases xs)
      case Nil
      with "2.prems"(2)[unfolded oo] have "arg = f" "nxt = v" "options_of rest' = ys" by simp_all
      with o p show ?thesis by blast
    next
      case (Cons x xs')
      with "2.prems"(2)[unfolded oo] have x: "x = (arg, nxt)" and oo': "options_of rest' = xs' @ (f, v) # ys" by simp_all
      from False have f1: "arg \<noteq> []" and f3: "arg \<noteq> ''--keep-workspace''" and f4: "\<not> \<not> starts_with ''--'' arg" by simp_all
      from "2.IH"(4)[OF f1 nh f3 f4 r n o p oo']
      obtain c1 c2 rst where c: "(\<forall>opt \<in> set xs'. \<not> touches_turn_policy opt) \<longrightarrow> turnPolicy (pair c1) = turnPolicy (pair cfg1)" 
        "parse_option rs c1 f v = Inr c2" "parse_args rs c2 rst = Inr cfg'" "options_of rst = ys" by auto
      have "(\<forall>opt \<in> set xs. \<not> touches_turn_policy opt) \<longrightarrow> turnPolicy (pair c1) = turnPolicy (pair cfg)"
        using c(1) parse_option_neutral[OF o] Cons x by auto
      with c(2,3,4) show ?thesis by blast
    qed
  qed
qed

lemma turn_policy_alternate:
  "parse_option rs cfg ''--turn-policy'' ''alternate_each_round'' = Inr cfg' \<Longrightarrow>
   turnPolicy (pair cfg') = AlternateEachRound"
  by (auto simp: parse_option_def with_pair_def)

lemma cap_on_alternate:
  assumes "parse_option rs cfg cap n = Inr cfg'" "turnPolicy (pair cfg) = AlternateEachRound"
    "cap = ''--max-consecutive-rounds'' \<or> cap = ''--max-consecutive-checkpoints''"
  shows "\<exists>k. parsePositiveInteger cap n = Inr k \<and>
     turnPolicy (pair cfg') = (if cap = ''--max-consecutive-rounds''
        then SameDriverUntilNavigatorSignoff k 4 else SameDriverUntilNavigatorSignoff 3 k)"
  using assms
  by (auto simp: parse_option_def with_pair_def with_value_def defaultStickyTurnPolicy_def Let_def split: sum.splits)

lemma parseCli_policy:
  "parseCli rs argv pcwd = Inr cfg \<Longrightarrow>
   \<exists>cfg0 cfg1. parse_args rs cfg0 argv = Inr cfg1 \<and> turnPolicy (pair cfg) = turnPolicy (pair cfg1)"
  unfolding parseCli_def
  by (cases "parse_args rs
             \<lparr>cli_task = [], outputPath = None, cli_logFile = None, cli_eventLogFile = None,
              cli_eventStreamMode = Compact, workspaceMode = Direct, keepWorkspace = False,
              pair = defaultPairConfig (rs pcwd)\<rparr> argv")
     (auto split: if_splits intro!: exI)

text \<open>
  C10. When \<open>parseCli\<close> returns, the options it read hold
  \<open>--turn-policy alternate_each_round\<close> and, later, \<open>--max-consecutive-rounds n\<close> or
  \<open>--max-consecutive-checkpoints n\<close>, and no other option between or after the two
  touches the turn policy, then \<open>n\<close> is a positive integer \<open>k\<close> and the returned turn
  policy is \<open>same_driver_until_navigator_signoff\<close> with that cap \<open>k\<close> and the other cap at
  its default (3 rounds, 4 checkpoints).
\<close>

theorem cap_flag_replaces_alternate:
  assumes ok: "parseCli rs argv pcwd = Inr cfg"
    and opts: "options_of argv = pre @ (''--turn-policy'', ''alternate_each_round'') # mid @ (cap, n) # post"
    and cap: "cap = ''--max-consecutive-rounds'' \<or> cap = ''--max-consecutive-checkpoints''"
    and neutral: "\<forall>opt \<in> set (mid @ post). \<not> touches_turn_policy opt"
  shows "\<exists>k. parsePositiveInteger cap n = Inr k \<and>
     turnPolicy (pair cfg) = (if cap = ''--max-consecutive-rounds''
        then SameDriverUntilNavigatorSignoff k 4 else SameDriverUntilNavigatorSignoff 3 k)"
proof -
  from parseCli_policy[OF ok] obtain cfg0 cfgN where
    p0: "parse_args rs cfg0 argv = Inr cfgN" and fin: "turnPolicy (pair cfg) = turnPolicy (pair cfgN)" by blast
  from parse_args_split[OF p0 opts] obtain c1 c2 rest1 where
    s1: "parse_option rs c1 ''--turn-policy'' ''alternate_each_round'' = Inr c2"
    and r1: "parse_args rs c2 rest1 = Inr cfgN" and o1: "options_of rest1 = mid @ (cap, n) # post" by blast
  from turn_policy_alternate[OF s1] have alt: "turnPolicy (pair c2) = AlternateEachRound" .
  from neutral have nm: "\<forall>opt \<in> set mid. \<not> touches_turn_policy opt" and np: "\<forall>opt \<in> set post. \<not> touches_turn_policy opt" by simp_all
  from parse_args_split[OF r1 o1] nm obtain c3 c4 rest2 where
    t3: "turnPolicy (pair c3) = turnPolicy (pair c2)"
    and s2: "parse_option rs c3 cap n = Inr c4"
    and r2: "parse_args rs c4 rest2 = Inr cfgN" and o2: "options_of rest2 = post" by blast
  from cap_on_alternate[OF s2 _ cap] t3 alt obtain k where
    k: "parsePositiveInteger cap n = Inr k" and
    t4: "turnPolicy (pair c4) = (if cap = ''--max-consecutive-rounds''
        then SameDriverUntilNavigatorSignoff k 4 else SameDriverUntilNavigatorSignoff 3 k)" by auto
  from parse_args_neutral[OF r2] np o2 have "turnPolicy (pair cfgN) = turnPolicy (pair c4)" by simp
  with fin t4 k show ?thesis by simp
qed

lemma cli_ex1: "\<exists>cfg. parseCli (\<lambda>p. p) [''--task'', ''x'', ''--turn-policy'', ''alternate_each_round'', ''--max-consecutive-rounds'', ''5''] ''/w'' = Inr cfg"
  by (simp add: parseCli_def parse_option_def starts_with_def with_pair_def with_value_def parsePositiveInteger_def parseInt10_def is_space_def is_digit_def digits_value_def Let_def trim_def defaultStickyTurnPolicy_def)


theorem cap_flag_replaces_alternate_witness:
  "\<exists>cfg. parseCli (\<lambda>p. p) [''--task'', ''x'', ''--turn-policy'', ''alternate_each_round'', ''--max-consecutive-rounds'', ''5''] ''/w'' = Inr cfg
     \<and> turnPolicy (pair cfg) = SameDriverUntilNavigatorSignoff 5 4"
proof -
  from cli_ex1 obtain cfg where c: "parseCli (\<lambda>p. p) [''--task'', ''x'', ''--turn-policy'', ''alternate_each_round'', ''--max-consecutive-rounds'', ''5''] ''/w'' = Inr cfg" ..
  have o: "options_of [''--task'', ''x'', ''--turn-policy'', ''alternate_each_round'', ''--max-consecutive-rounds'', ''5'']
     = [(''--task'', ''x'')] @ (''--turn-policy'', ''alternate_each_round'') # [] @ (''--max-consecutive-rounds'', ''5'') # []"
    by (simp add: starts_with_def)
  have k: "parsePositiveInteger ''--max-consecutive-rounds'' ''5'' = Inr 5"
    by (simp add: parsePositiveInteger_def parseInt10_def is_space_def is_digit_def digits_value_def Let_def)
  from cap_flag_replaces_alternate[OF c o] k have "turnPolicy (pair cfg) = SameDriverUntilNavigatorSignoff 5 4" by simp
  with c show ?thesis by blast
qed

text \<open>
  The claim as stated fails when a later \<open>--turn-policy alternate_each_round\<close> follows the
  cap: the returned policy is \<open>alternate_each_round\<close>.
\<close>

theorem cap_flag_claim_counterexample:
  "map_sum id (\<lambda>cfg. turnPolicy (pair cfg))
     (parseCli (\<lambda>p. p) [''--task'', ''x'', ''--turn-policy'', ''alternate_each_round'',
        ''--max-consecutive-rounds'', ''5'', ''--turn-policy'', ''alternate_each_round''] ''/w'')
   = Inr AlternateEachRound"
  by (simp add: parseCli_def parse_option_def starts_with_def with_pair_def with_value_def parsePositiveInteger_def parseInt10_def is_space_def is_digit_def digits_value_def Let_def trim_def defaultStickyTurnPolicy_def)

section \<open>Verification: two runs side by side\<close>

lemma orch_relI:
  "(\<And>s1 s2. state_rel T s1 s2 \<Longrightarrow> outcome_rel T S (m1 s1) (m2 s2)) \<Longrightarrow> orch_rel T S m1 m2"
  by (simp add: orch_rel_def)

lemma orch_relD:
  "orch_rel T S m1 m2 \<Longrightarrow> state_rel T s1 s2 \<Longrightarrow> outcome_rel T S (m1 s1) (m2 s2)"
  by (simp add: orch_rel_def)

lemma rel_ret: "S x y \<Longrightarrow> orch_rel T S (ret x) (ret y)"
  by (simp add: orch_rel_def outcome_rel_def ret_def)

lemma rel_ret_eq: "orch_rel T (=) (ret x) (ret x)"
  by (rule rel_ret) simp

lemma rel_throw: "orch_rel T S (throw e) (throw e)"
  by (simp add: orch_rel_def outcome_rel_def throw_def)

lemma rel_bnd:
  assumes "orch_rel T S m1 m2" and "\<And>x y. S x y \<Longrightarrow> orch_rel T S' (k1 x) (k2 y)"
  shows "orch_rel T S' (bnd m1 k1) (bnd m2 k2)"
proof (rule orch_relI)
  fix s1 s2 assume r: "state_rel T s1 s2"
  from orch_relD[OF assms(1) r] have o: "outcome_rel T S (m1 s1) (m2 s2)" .
  obtain r1 t1 where m1: "m1 s1 = (r1, t1)" by fastforce
  obtain r2 t2 where m2: "m2 s2 = (r2, t2)" by fastforce
  from o m1 m2 have st: "state_rel T t1 t2" and rs: "rel_sum (=) S r1 r2"
    by (simp_all add: outcome_rel_def)
  show "outcome_rel T S' (bnd m1 k1 s1) (bnd m2 k2 s2)"
  proof (cases r1)
    case (Inl e1)
    with rs obtain e2 where "r2 = Inl e2" "e1 = e2" by (cases r2) simp_all
    with Inl m1 m2 st show ?thesis by (simp add: bnd_def outcome_rel_def)
  next
    case (Inr x)
    with rs obtain y where y: "r2 = Inr y" "S x y" by (cases r2) simp_all
    from orch_relD[OF assms(2)[OF y(2)] st] Inr y m1 m2 show ?thesis by (simp add: bnd_def)
  qed
qed

lemma rel_bnd_eq:
  assumes "orch_rel T (=) m1 m2" and "\<And>x. orch_rel T S' (k1 x) (k2 x)"
  shows "orch_rel T S' (bnd m1 k1) (bnd m2 k2)"
  using assms(1) by (rule rel_bnd) (simp add: assms(2))

lemma rel_seq:
  assumes "orch_rel T (=) m1 m2" and "orch_rel T S' k1 k2"
  shows "orch_rel T S' (seq m1 k1) (seq m2 k2)"
  unfolding seq_def using assms by (intro rel_bnd_eq)

lemma rel_if:
  "(c \<Longrightarrow> orch_rel T S a1 a2) \<Longrightarrow> (\<not> c \<Longrightarrow> orch_rel T S b1 b2) \<Longrightarrow>
   orch_rel T S (if c then a1 else b1) (if c then a2 else b2)"
  by simp

lemma rel_date_now: "world_rel T w1 w2 \<Longrightarrow> orch_rel T T (date_now w1) (date_now w2)"
  by (simp add: orch_rel_def outcome_rel_def date_now_def state_rel_def world_rel_def)

lemma rel_agent_do: "orch_rel T (=) (agent_do c1) (agent_do c2)"
  by (simp add: orch_rel_def outcome_rel_def agent_do_def state_rel_def)

lemma rel_setRole: "orch_rel T (=) (setRole a r) (setRole a r)"
  unfolding setRole_def by (rule rel_agent_do)

lemma rel_appendSharedContext:
  "world_rel T w1 w2 \<Longrightarrow> orch_rel T (=) (appendSharedContext w1 a x1) (appendSharedContext w2 a x2)"
  unfolding appendSharedContext_def
  by (rule rel_bnd[OF rel_date_now]) (auto intro: rel_agent_do)

lemma rel_appendPrivateMemory:
  "world_rel T w1 w2 \<Longrightarrow> orch_rel T (=) (appendPrivateMemory w1 a x1) (appendPrivateMemory w2 a x2)"
  unfolding appendPrivateMemory_def
  by (rule rel_bnd[OF rel_date_now]) (auto intro: rel_agent_do)

lemma record_ev_flushed: "(flushedSummary (record_ev now ev ob) = None) = (flushedSummary ob = None)"
  by (simp add: record_ev_def queueEventStreamLine_def Let_def split: option.splits)

lemma record_ev_log_error: "fs_log_error (record_ev now ev ob) = fs_log_error ob"
  by (simp add: record_ev_def queueEventStreamLine_def Let_def split: option.splits)

lemma observer_rel_record:
  "observer_rel a b \<Longrightarrow> observer_rel (record_ev n1 e1 a) (record_ev n2 e2 b)"
  by (simp add: observer_rel_def record_ev_flushed record_ev_log_error)

lemma recorder_record_ev: "recorder (\<lambda>now. record_ev now ev)"
  by (auto simp: recorder_def)

lemma recorder_prompt_start: "recorder (\<lambda>now. recordPromptStart now sh a rnd ph k p)"
  by (auto simp: recorder_def recordPromptStart_def)

lemma recorder_prompt_end: "recorder (\<lambda>now. recordPromptEnd now sh a rnd ph k p)"
  by (auto simp: recorder_def recordPromptEnd_def)

lemma recorder_agent_event: "recorder (\<lambda>now. recordAgentEvent now sh a rnd ph ev)"
  by (auto simp: recorder_def recordAgentEvent_def)

lemma rel_observe:
  assumes "recorder f1" "recorder f2"
  shows "orch_rel T (=) (observe w1 f1) (observe w2 f2)"
proof (rule orch_relI)
  fix s1 s2 assume r: "state_rel T s1 s2"
  then have o: "rel_option observer_rel (observer s1) (observer s2)" by (simp add: state_rel_def)
  then show "outcome_rel T (=) (observe w1 f1 s1) (observe w2 f2 s2)"
  proof (cases rule: option.rel_cases)
    case None
    with r show ?thesis by (simp add: observe_def outcome_rel_def)
  next
    case (Some a b)
    from assms obtain e1 e2 where
      "f1 (clock w1 (ticks s1)) a = record_ev (clock w1 (ticks s1)) e1 a"
      "f2 (clock w2 (ticks s2)) b = record_ev (clock w2 (ticks s2)) e2 b"
      unfolding recorder_def by metis
    with Some r show ?thesis
      by (simp add: observe_def outcome_rel_def state_rel_def observer_rel_record)
  qed
qed

lemma rel_push_entry:
  "entry_rel T e1 e2 \<Longrightarrow> orch_rel T (=) (push_entry e1) (push_entry e2)"
  by (simp add: orch_rel_def outcome_rel_def push_entry_def state_rel_def list_all2_appendI)

lemma rel_broadcastShared:
  assumes "world_rel T w1 w2"
  shows "orch_rel T (=) (broadcastShared w1 stg act txt) (broadcastShared w2 stg act txt)"
  unfolding broadcastShared_def Let_def
  apply (rule rel_bnd[OF rel_date_now[OF assms]])
  apply (rule rel_seq)
   apply (rule rel_push_entry)
   apply (simp add: entry_rel_def)
  apply (rule rel_seq)
   apply (rule rel_appendSharedContext[OF assms])
  apply (rule rel_appendSharedContext[OF assms])
  done

lemma rel_deliver_events:
  assumes "\<And>ev h. orch_rel T (=) (f1 ev h) (f2 ev h)"
  shows "orch_rel T (=) (deliver_events f1 evs h) (deliver_events f2 evs h)"
proof (induction evs arbitrary: h)
  case Nil
  show ?case by (simp add: rel_ret_eq)
next
  case (Cons ev evs)
  show ?case by (simp, rule rel_bnd_eq[OF assms]) (rule Cons.IH)
qed

lemma rel_agent_prompt:
  "world_rel T w1 w2 \<Longrightarrow> orch_rel T (=) (agent_prompt w1 a p) (agent_prompt w2 a p)"
  by (simp add: orch_rel_def outcome_rel_def agent_prompt_def state_rel_def world_rel_def)

lemma rel_runPrompt:
  assumes "world_rel T w1 w2" and "\<And>ev h. orch_rel T (=) (f1 ev h) (f2 ev h)"
  shows "orch_rel T (=) (runPrompt w1 spec a p f1 h) (runPrompt w2 spec a p f2 h)"
  unfolding runPrompt_def
  apply (rule rel_bnd_eq[OF rel_agent_prompt[OF assms(1)]])
  apply (rule rel_bnd_eq[OF rel_deliver_events[of T f1 f2, OF assms(2)]])
  apply (auto split: agent_result.splits intro: rel_throw rel_ret_eq)
  done

lemma rel_runPromptWithObservability:
  assumes "world_rel T w1 w2" and "\<And>ev h. orch_rel T (=) (f1 ev h) (f2 ev h)"
  shows "orch_rel T (=) (runPromptWithObservability w1 cfg a p k ph rnd f1 h)
                        (runPromptWithObservability w2 cfg a p k ph rnd f2 h)"
  unfolding runPromptWithObservability_def
  apply (rule rel_seq)
   apply (rule rel_observe[OF recorder_prompt_start recorder_prompt_start])
  apply (rule rel_bnd_eq)
   apply (rule rel_runPrompt[OF assms(1)])
   apply (rule rel_seq)
    apply (rule rel_observe[OF recorder_agent_event recorder_agent_event])
   apply (rule assms(2))
  apply (rule rel_seq)
   apply (rule rel_observe[OF recorder_prompt_end recorder_prompt_end])
  apply (rule rel_ret_eq)
  done

lemma rel_runPromptObserved:
  assumes "world_rel T w1 w2"
  shows "orch_rel T (=) (runPromptObserved w1 cfg a p k ph rnd) (runPromptObserved w2 cfg a p k ph rnd)"
  unfolding runPromptObserved_def
  apply (rule rel_bnd_eq)
   apply (rule rel_runPromptWithObservability[OF assms])
   apply (rule rel_ret_eq)
  apply (rule rel_ret_eq)
  done

lemma world_rel_render: "world_rel T w1 w2 \<Longrightarrow> render w2 = render w1"
  by (simp add: world_rel_def)

lemma rel_steer:
  assumes "world_rel T w1 w2"
  shows "orch_rel T (=) (steer w1 d n p) (steer w2 d n p)"
  unfolding steer_def
  by (rule rel_bnd[OF rel_date_now[OF assms]]) (rule rel_agent_do)

lemma rel_tracker_onEvent:
  assumes "rel_option (\<lambda>c1 c2. \<forall>p. orch_rel T (=) (c1 p) (c2 p)) cb1 cb2"
  shows "orch_rel T (=) (tracker_onEvent ps cb1 ev t) (tracker_onEvent ps cb2 ev t)"
  using assms
  by (cases cb1; cases cb2)
     (auto simp: tracker_onEvent_def split: prod.splits option.splits intro!: rel_ret_eq rel_seq)

lemmas rel_steps = rel_seq rel_bnd_eq rel_if rel_ret_eq rel_throw rel_setRole
  rel_broadcastShared rel_runPromptObserved rel_runPromptWithObservability rel_appendPrivateMemory
  rel_observe recorder_record_ev rel_tracker_onEvent rel_steer

lemma rel_collaborativePlanning:
  assumes "world_rel T w1 w2"
  shows "orch_rel T (=) (collaborativePlanning w1 cfg task) (collaborativePlanning w2 cfg task)"
  unfolding collaborativePlanning_def world_rel_render[OF assms]
  by (intro rel_steps assms)

lemma rel_soloPlanning:
  assumes "world_rel T w1 w2"
  shows "orch_rel T (=) (soloPlanning w1 cfg task) (soloPlanning w2 cfg task)"
  unfolding soloPlanning_def world_rel_render[OF assms]
  by (intro rel_steps assms)

lemma rel_finalReview:
  assumes "world_rel T w1 w2"
  shows "orch_rel T (=) (finalReview w1 cfg task plan) (finalReview w2 cfg task plan)"
  unfolding finalReview_def world_rel_render[OF assms] Let_def
  by (intro rel_steps assms)

lemma rel_runRound:
  assumes "world_rel T w1 w2"
  shows "orch_rel T (=) (runRound w1 cfg task plan rnd d) (runRound w2 cfg task plan rnd d)"
  unfolding runRound_def world_rel_render[OF assms] Let_def
  by (intro rel_steps assms option.rel_intros allI)

lemma rel_after_round:
  assumes "world_rel T w1 w2"
  shows "orch_rel T (=) (after_round w1 cfg rnd ls result) (after_round w2 cfg rnd ls result)"
  unfolding after_round_def Let_def
  by (intro rel_steps assms)

lemma rel_paired_iteration:
  assumes "world_rel T w1 w2"
  shows "orch_rel T (=) (paired_iteration w1 cfg task plan rnd ls) (paired_iteration w2 cfg task plan rnd ls)"
  unfolding paired_iteration_def
  by (intro rel_steps rel_runRound rel_after_round assms)

lemma outcome_rel_eq_cases:
  assumes "outcome_rel T (=) r1 r2"
  obtains (err) e t1 t2 where "r1 = (Inl e, t1)" "r2 = (Inl e, t2)" "state_rel T t1 t2"
        | (val) x t1 t2 where "r1 = (Inr x, t1)" "r2 = (Inr x, t2)" "state_rel T t1 t2"
proof -
  obtain a t1 where r1: "r1 = (a, t1)" by fastforce
  obtain b t2 where r2: "r2 = (b, t2)" by fastforce
  from assms r1 r2 have st: "state_rel T t1 t2" and rs: "rel_sum (=) (=) a b"
    by (simp_all add: outcome_rel_def)
  show thesis
  proof (cases a)
    case (Inl e)
    with rs have "b = Inl e" by (cases b) simp_all
    with Inl r1 r2 st show ?thesis by (intro err) simp_all
  next
    case (Inr x)
    with rs have "b = Inr x" by (cases b) simp_all
    with Inr r1 r2 st show ?thesis by (intro val) simp_all
  qed
qed

lemma rel_paired_loop_aux:
  assumes w: "world_rel T w1 w2"
  shows "state_rel T s1 s2 \<Longrightarrow>
         outcome_rel T (=) (paired_loop w1 cfg task plan rnd ls s1) (paired_loop w2 cfg task plan rnd ls s2)"
proof (induction "Suc (maxRounds cfg) - rnd" arbitrary: rnd ls s1 s2 rule: less_induct)
  case less
  show ?case
  proof (cases "rnd \<le> maxRounds cfg")
    case False
    then show ?thesis using less.prems
      by (simp add: paired_loop.simps[of _ cfg task plan rnd] outcome_rel_def)
  next
    case True
    from orch_relD[OF rel_paired_iteration[OF w] less.prems]
    have "outcome_rel T (=) (paired_iteration w1 cfg task plan rnd ls s1)
                            (paired_iteration w2 cfg task plan rnd ls s2)" .
    then show ?thesis
    proof (cases rule: outcome_rel_eq_cases)
      case (err e t1 t2)
      with True show ?thesis
        by (simp add: paired_loop.simps[of _ cfg task plan rnd] outcome_rel_def)
    next
      case (val c t1 t2)
      show ?thesis
      proof (cases c)
        case (Break ls')
        with val True show ?thesis
          by (simp add: paired_loop.simps[of _ cfg task plan rnd] outcome_rel_def)
      next
        case (Continue ls')
        have "Suc (maxRounds cfg) - (rnd + 1) < Suc (maxRounds cfg) - rnd" using True by simp
        from less.hyps[OF this val(3)]
        have "outcome_rel T (=) (paired_loop w1 cfg task plan (rnd + 1) ls' t1)
                                (paired_loop w2 cfg task plan (rnd + 1) ls' t2)" .
        with Continue val True show ?thesis
          by (simp add: paired_loop.simps[of _ cfg task plan rnd])
      qed
    qed
  qed
qed

lemma rel_paired_loop:
  assumes "world_rel T w1 w2"
  shows "orch_rel T (=) (paired_loop w1 cfg task plan rnd ls) (paired_loop w2 cfg task plan rnd ls)"
  by (rule orch_relI) (rule rel_paired_loop_aux[OF assms])

lemma rel_runPairedExecution:
  assumes "world_rel T w1 w2"
  shows "orch_rel T (=) (runPairedExecution w1 cfg task plan) (runPairedExecution w2 cfg task plan)"
  unfolding runPairedExecution_def
  by (intro rel_steps rel_paired_loop assms)

lemma rel_synthesizeSoloFinalReview:
  assumes "world_rel T w1 w2"
  shows "orch_rel T (=) (synthesizeSoloFinalReview w1 r) (synthesizeSoloFinalReview w2 r)"
  unfolding synthesizeSoloFinalReview_def Let_def
  by (intro rel_steps assms)

lemma rel_solo_execution_result:
  assumes "world_rel T w1 w2"
  shows "orch_rel T (=) (solo_execution_result w1 r) (solo_execution_result w2 r)"
  unfolding solo_execution_result_def
  by (intro rel_steps rel_synthesizeSoloFinalReview assms)

lemma rel_runSolo:
  assumes "world_rel T w1 w2"
  shows "orch_rel T (=) (runSoloDriverThenReviewerExecution w1 cfg task plan)
                        (runSoloDriverThenReviewerExecution w2 cfg task plan)"
  unfolding runSoloDriverThenReviewerExecution_def world_rel_render[OF assms] Let_def
  by (intro rel_steps rel_solo_execution_result assms option.rel_intros)

lemma rel_result_core:
  "orch_rel T (core_rel T) (result_core task plan rs fr sm) (result_core task plan rs fr sm)"
  by (simp add: orch_rel_def outcome_rel_def result_core_def core_rel_def state_rel_def)

lemma rel_final_choice:
  assumes "world_rel T w1 w2"
  shows "orch_rel T (=) (case x of Some fr \<Rightarrow> ret fr | None \<Rightarrow> finalReview w1 cfg task plan)
                        (case x of Some fr \<Rightarrow> ret fr | None \<Rightarrow> finalReview w2 cfg task plan)"
  by (cases x) (simp_all add: rel_ret_eq rel_finalReview[OF assms])

lemma rel_run_try:
  assumes "world_rel T w1 w2"
  shows "orch_rel T (core_rel T) (run_try w1 cfg task) (run_try w2 cfg task)"
  unfolding run_try_def
  by (intro rel_steps rel_collaborativePlanning rel_soloPlanning rel_runSolo rel_runPairedExecution
        rel_final_choice rel_result_core assms)

lemma flush_observer_rel:
  assumes "observer_rel a b"
  shows "observer_rel (snd (flush n1 st1 m1 a)) (snd (flush n2 st2 m2 b))
       \<and> rel_sum (=) (\<lambda>x y. True) (fst (flush n1 st1 m1 a)) (fst (flush n2 st2 m2 b))"
  using assms
  by (auto simp: flush_def Let_def queueEventStreamLine_def observer_rel_def split: option.splits)

lemma rel_flush_observer:
  "orch_rel T (\<lambda>x y. True) (flush_observer w1 st1 m1) (flush_observer w2 st2 m2)"
proof (rule orch_relI)
  fix s1 s2 assume r: "state_rel T s1 s2"
  then have o: "rel_option observer_rel (observer s1) (observer s2)" by (simp add: state_rel_def)
  then show "outcome_rel T (\<lambda>x y. True) (flush_observer w1 st1 m1 s1) (flush_observer w2 st2 m2 s2)"
  proof (cases rule: option.rel_cases)
    case None
    with r show ?thesis by (simp add: flush_observer_def outcome_rel_def)
  next
    case (Some a b)
    obtain x1 o1 where f1: "flush (clock w1 (ticks s1)) st1 m1 a = (x1, o1)" by fastforce
    obtain x2 o2 where f2: "flush (clock w2 (ticks s2)) st2 m2 b = (x2, o2)" by fastforce
    from flush_observer_rel[OF Some(3), of "clock w1 (ticks s1)" st1 m1 "clock w2 (ticks s2)" st2 m2] f1 f2
    have 1: "observer_rel o1 o2" and 2: "rel_sum (=) (\<lambda>x y. True) x1 x2"
      by simp_all
    from 2 have "rel_sum (=) (\<lambda>x y. True) (map_sum id Some x1) (map_sum id Some x2)"
      by (cases x1; cases x2) simp_all
    with 1 Some r f1 f2 show ?thesis
      by (simp add: flush_observer_def outcome_rel_def state_rel_def)
  qed
qed

lemma truncate_extend: "ResultCore.truncate (ResultCore.extend c x) = c"
  by (simp add: ResultCore.truncate_def ResultCore.extend_def)

lemma rel_run_end:
  assumes "rel_sum (=) (core_rel T) tried1 tried2"
  shows "orch_rel T (result_rel T) (run_end w1 tried1) (run_end w2 tried2)"
proof (cases tried1)
  case (Inl e)
  with assms have t2: "tried2 = Inl e" by (cases tried2) simp_all
  show ?thesis unfolding run_end_def Inl t2
    apply simp
    apply (rule rel_seq)
     apply (rule rel_observe[OF recorder_record_ev recorder_record_ev])
    apply (rule rel_bnd[OF rel_flush_observer])
    apply (rule rel_throw)
    done
next
  case (Inr c1)
  with assms obtain c2 where t2: "tried2 = Inr c2" and c: "core_rel T c1 c2" by (cases tried2) simp_all
  show ?thesis unfolding run_end_def Inr t2
    apply simp
    apply (rule rel_bnd[OF rel_flush_observer])
    apply (rule rel_ret)
    apply (simp add: result_rel_def truncate_extend c)
    done
qed

lemma rel_run:
  assumes w: "world_rel T w1 w2" and s: "state_rel T s1 s2"
  shows "outcome_rel T (result_rel T) (run w1 cfg task s1) (run w2 cfg task s2)"
proof -
  obtain a t1 where r1: "run_try w1 cfg task s1 = (a, t1)" by fastforce
  obtain b t2 where r2: "run_try w2 cfg task s2 = (b, t2)" by fastforce
  from orch_relD[OF rel_run_try[OF w] s, of cfg task] r1 r2
  have st: "state_rel T t1 t2" and rs: "rel_sum (=) (core_rel T) a b"
    by (simp_all add: outcome_rel_def)
  from orch_relD[OF rel_run_end[OF rs] st] r1 r2 show ?thesis by (simp add: run_def)
qed

lemma state_rel_refl: "(\<And>x. T x x) \<Longrightarrow> state_rel T s s"
  by (simp add: state_rel_def list_all2_same entry_rel_def option.rel_refl observer_rel_def)

lemma journal_texts:
  "list_all2 (entry_rel T) j1 j2 \<Longrightarrow> map entry_text j1 = map entry_text j2"
  by (induction rule: list_all2_induct) (simp_all add: entry_rel_def entry_text_def)


section \<open>Verification: example runs\<close>

lemmas orch_defs = bnd_def seq_def ret_def throw_def date_now_def agent_do_def observe_def
  setRole_def appendSharedContext_def appendPrivateMemory_def agent_prompt_def runPrompt_def
  push_entry_def broadcastShared_def runPromptWithObservability_def runPromptObserved_def



lemma extractTag_empty: "extractTag [] tag = None"
  by (simp add: extractTag_def match_at_def)

lemma trim_empty: "trim [] = []"
  by (simp add: trim_def)

lemma parse_empty:
  "hasFeedback (parseNavigatorReview []) = False"
  by (simp add: parseNavigatorReview_def extractTag_empty or_else_def Let_def trim_def toUpperCase_def
        is_space_def upper_char_def is_terminal_punct_def)

lemma solo_first_timestamp:
  "map_sum id (\<lambda>r. se_timestamp (hd (prr_sharedJournal r)))
     (fst (run (example_world (\<lambda>k. silent) clk) (example_config SoloDriverThenReviewer) ''t''
        (initial_state None))) = Inr (clk 0)"
  by (simp add: run_def run_end_def flush_observer_def run_try_def soloPlanning_def
        runSoloDriverThenReviewerExecution_def solo_execution_result_def synthesizeSoloFinalReview_def
        tracker_onEvent_def result_core_def
        orch_defs example_world_def example_config_def
        initial_state_def silent_def Let_def PairAgentConfig.extend_def trim_empty parse_empty
        ResultCore.extend_def)


lemma trim_done: "trim done_text = done_text"
  by code_simp

lemma trim_none: "trim none_text = none_text"
  by code_simp

lemma done_status: "status (parseDriverReport done_text) = StatusDone"
  by code_simp

lemma none_feedback: "hasFeedback (parseNavigatorReview none_text) = False"
  by code_simp

lemma none_public: "publicFeedback (parseNavigatorReview none_text) = ''NONE.''"
  by code_simp

lemma example_config_fields:
  "maxRounds (example_config m) = 8" "driverStartsAs (example_config m) = A"
  "executionMode (example_config m) = m"
  by (simp_all add: example_config_def PairAgentConfig.extend_def defaultPairConfig_def)

lemma summary_swapCount: "rs_swapCount (buildSummary c k s) = s"
  by (simp add: buildSummary_def Let_def)

text \<open>
  A run of the later orchestrator that completes: three planning calls, one round that
  ends the loop, three calls of the final review.
\<close>

lemma paired_run_example:
  "map_sum id (\<lambda>r. (map rr_round (prr_rounds r), map stage (prr_sharedJournal r),
                      rs_swapCount (prr_summary r)))
     (returned (run handoff_world (example_config PairedTurns) ''t'' (initial_state None)))
   = Inr ([1], [''task'', ''plan_draft'', ''plan_feedback'', ''plan_agreed'', ''driver_report'',
               ''navigator_feedback'', ''navigator_handoff_signal'', ''loop_stop'',
               ''final_review_A'', ''final_review_B'', ''joint_verdict''], 0)"
  by (simp add: returned_def run_def run_end_def flush_observer_def run_try_def
        collaborativePlanning_def runPairedExecution_def paired_iteration_def runRound_def
        after_round_def finalReview_def result_core_def round_result_def
        initial_loop_state_def accumulate_round_def
        orch_defs handoff_world_def example_world_def said_def initial_state_def
        assistantText_def trim_done trim_none done_status none_feedback Let_def
        example_config_fields summary_swapCount ResultCore.extend_def ResultCore.truncate_def)

section \<open>Verification: replay\<close>

text \<open>
  C7. Two runs of \<open>run\<close> from the same state, in two worlds whose agents answer alike
  (the same events and the same end of every call) and whose prompts read alike, while
  their clocks may differ, both raise the same error or both return the same
  \<open>RoundResult\<close> sequence and shared journals with the same entries in the same order
  up to the entries' time stamps.
\<close>

theorem replay_up_to_timestamps:
  assumes "env w1 = env w2" and "render w1 = render w2"
  shows "replayed (run w1 cfg task st) = replayed (run w2 cfg task st)"
proof -
  let ?T = "\<lambda>(x::int) (y::int). True"
  have w: "world_rel ?T w1 w2" using assms by (simp add: world_rel_def)
  have s: "state_rel ?T st st" by (rule state_rel_refl) simp
  from rel_run[OF w s, of cfg task]
  have rs: "rel_sum (=) (result_rel ?T) (fst (run w1 cfg task st)) (fst (run w2 cfg task st))"
    by (simp add: outcome_rel_def)
  show ?thesis
  proof (cases "fst (run w1 cfg task st)")
    case (Inl e)
    with rs have "fst (run w2 cfg task st) = Inl e" by (cases "fst (run w2 cfg task st)") simp_all
    with Inl show ?thesis by (simp add: replayed_def)
  next
    case (Inr r1)
    with rs obtain r2 where r2: "fst (run w2 cfg task st) = Inr r2" and rr: "result_rel ?T r1 r2"
      by (cases "fst (run w2 cfg task st)") simp_all
    from rr have "prr_rounds r1 = prr_rounds r2"
      and "list_all2 (entry_rel ?T) (prr_sharedJournal r1) (prr_sharedJournal r2)"
      by (simp_all add: result_rel_def core_rel_def ResultCore.truncate_def)
    with Inr r2 show ?thesis by (simp add: replayed_def journal_texts)
  qed
qed

theorem replay_up_to_timestamps_witness:
  "env (example_world (\<lambda>k. silent) (\<lambda>k. 0)) = env (example_world (\<lambda>k. silent) (\<lambda>k. 1))
   \<and> render (example_world (\<lambda>k. silent) (\<lambda>k. 0)) = render (example_world (\<lambda>k. silent) (\<lambda>k. 1))
   \<and> replayed (run (example_world (\<lambda>k. silent) (\<lambda>k. 0)) (example_config SoloDriverThenReviewer)
        ''t'' (initial_state None))
     = replayed (run (example_world (\<lambda>k. silent) (\<lambda>k. 1)) (example_config SoloDriverThenReviewer)
        ''t'' (initial_state None))"
  using replay_up_to_timestamps[of "example_world (\<lambda>k. silent) (\<lambda>k. 0)"
      "example_world (\<lambda>k. silent) (\<lambda>k. 1)" "example_config SoloDriverThenReviewer" "''t''"
      "initial_state None"]
  by (simp add: example_world_def)


text \<open>
  The claim as stated fails: the entries of the journal carry the clock's readings, so
  two runs with the same agent answers and different clocks return different journals.
\<close>

theorem journal_differs_with_clock:
  "map_sum id prr_sharedJournal
     (fst (run (example_world (\<lambda>k. silent) (\<lambda>k. 0)) (example_config SoloDriverThenReviewer)
        ''t'' (initial_state None)))
   \<noteq> map_sum id prr_sharedJournal
     (fst (run (example_world (\<lambda>k. silent) (\<lambda>k. 1)) (example_config SoloDriverThenReviewer)
        ''t'' (initial_state None)))"
proof
  let ?run = "\<lambda>c. fst (run (example_world (\<lambda>k. silent) c) (example_config SoloDriverThenReviewer)
        ''t'' (initial_state None))"
  assume eq: "map_sum id prr_sharedJournal (?run (\<lambda>k. 0)) = map_sum id prr_sharedJournal (?run (\<lambda>k. 1))"
  have f: "\<And>x. map_sum id (\<lambda>r. se_timestamp (hd (prr_sharedJournal r))) x
             = map_sum id (\<lambda>j. se_timestamp (hd j)) (map_sum id prr_sharedJournal x)"
    subgoal for x by (cases x) simp_all
    done
  from solo_first_timestamp[of "\<lambda>k. 0"] solo_first_timestamp[of "\<lambda>k. 1"]
  have "map_sum id (\<lambda>j. se_timestamp (hd j)) (map_sum id prr_sharedJournal (?run (\<lambda>k. 0))) = Inr 0"
    and "map_sum id (\<lambda>j. se_timestamp (hd j)) (map_sum id prr_sharedJournal (?run (\<lambda>k. 1))) = Inr 1"
    by (simp_all only: f)
  with eq show False by simp
qed


section \<open>Verification: the two versions of the orchestrator\<close>

lemma bnd_ret: "bnd (ret x) k = k x"
  by (rule ext) (simp add: bnd_def ret_def)

lemma bnd_assoc: "bnd (bnd m f) g = bnd m (\<lambda>x. bnd (f x) g)"
  by (rule ext) (simp add: bnd_def split: prod.splits sum.splits)

lemma seq_bnd: "bnd (seq m k) g = seq m (bnd k g)"
  by (simp add: seq_def bnd_assoc)

lemma seq_assoc: "seq (bnd m f) k = bnd m (\<lambda>x. seq (f x) k)"
  by (simp add: seq_def bnd_assoc)

lemma bnd_if: "bnd (if c then a else b) k = (if c then bnd a k else bnd b k)"
  by simp

lemma onDriverEvent_eq:
  "onDriverEvent w cfg d n ev t = tracker_onEvent (pauseStrategy cfg) (Some (steer w d n)) ev t"
proof (cases ev)
  case (ToolExecutionEnd cid toolName isError res)
  show ?thesis
  proof (cases "pauseStrategy cfg")
    case PauseNone
    with ToolExecutionEnd show ?thesis
      by (simp add: onDriverEvent_def tracker_onEvent_def clear_pending_def promote_def)
  next
    case (EveryNFileEdits k tools)
    with ToolExecutionEnd show ?thesis
      by (simp add: onDriverEvent_def tracker_onEvent_def clear_pending_def promote_def Let_def
            steer_def seq_assoc)
  qed
qed (simp_all add: onDriverEvent_def tracker_onEvent_def)

lemma onDriverEvent_fun:
  "onDriverEvent w cfg d n = tracker_onEvent (pauseStrategy cfg) (Some (steer w d n))"
  by (rule ext, rule ext) (rule onDriverEvent_eq)

lemma runRound_v1_eq: "runRound_v1 w cfg task plan rnd d = runRound w cfg task plan rnd d"
  unfolding runRound_v1_def runRound_def onDriverEvent_fun
  by (simp add: Let_def createDriverExecutionTracker_def snapshot_def setPhase_def round_result_def
        bnd_if bnd_ret bnd_assoc seq_bnd cong: if_cong)

lemma iteration_v1_eq: "iteration_v1 w cfg task plan rnd ls = paired_iteration w cfg task plan rnd ls"
  by (simp add: iteration_v1_def paired_iteration_def runRound_v1_eq)

lemma loop_v1_eq: "loop_v1 w cfg task plan rnd ls st = paired_loop w cfg task plan rnd ls st"
proof (induction "Suc (maxRounds cfg) - rnd" arbitrary: rnd ls st rule: less_induct)
  case less
  show ?case
  proof (cases "rnd \<le> maxRounds cfg")
    case False
    then show ?thesis
      by (simp add: paired_loop.simps[of w cfg task plan rnd] loop_v1.simps[of w cfg task plan rnd])
  next
    case True
    then have "Suc (maxRounds cfg) - (rnd + 1) < Suc (maxRounds cfg) - rnd" by simp
    from less.hyps[OF this] True show ?thesis
      by (simp add: paired_loop.simps[of w cfg task plan rnd] loop_v1.simps[of w cfg task plan rnd]
            iteration_v1_eq split: prod.splits sum.splits loop_ctl.splits)
  qed
qed

lemma loop_v1_fun: "loop_v1 w cfg task plan rnd ls = paired_loop w cfg task plan rnd ls"
  by (rule ext) (rule loop_v1_eq)

lemma run_try_v1_unfold:
  "run_try_v1 w cfg task =
     seq (observe w (\<lambda>now. record_ev now (session_start_event_v1 task cfg))) (paired_rest w cfg task)"
  unfolding run_try_v1_def paired_rest_def loop_v1_fun ..

lemma run_try_unfold:
  "executionMode cfg = PairedTurns \<Longrightarrow>
   run_try w cfg task =
     seq (observe w (\<lambda>now. record_ev now (session_start_event task cfg))) (paired_rest w cfg task)"
  unfolding run_try_def paired_rest_def
  by (simp add: runPairedExecution_def bnd_assoc bnd_ret del: paired_loop.simps)

lemma rel_paired_rest:
  assumes "world_rel T w1 w2"
  shows "orch_rel T (core_rel T) (paired_rest w1 cfg task) (paired_rest w2 cfg task)"
  unfolding paired_rest_def
  by (intro rel_steps rel_collaborativePlanning rel_paired_loop rel_finalReview rel_result_core assms)

lemma entry_rel_eq: "entry_rel (=) e1 e2 \<Longrightarrow> e1 = (e2 :: SharedEntry)"
  by (cases e1; cases e2) (simp add: entry_rel_def)

lemma journal_eq: "list_all2 (entry_rel (=)) j1 j2 \<Longrightarrow> j1 = (j2 :: SharedEntry list)"
  by (induction rule: list_all2_induct) (simp_all add: entry_rel_eq)

lemma core_rel_eq: "core_rel (=) c1 c2 \<Longrightarrow> c1 = (c2 :: ResultCore)"
  by (cases c1; cases c2) (simp add: core_rel_def journal_eq)


text \<open>
  C8. For \<open>paired_turns\<close>, in the same world from the same state (the same
  configuration, the same agent answers and events, the same clock), the \<open>run\<close> of
  the earlier orchestrator and the \<open>run\<close> of the later one both raise the same error
  or both return the same task, agreed plan, rounds, final review, summary and shared
  journal.
\<close>

theorem versions_agree_on_paired_turns:
  assumes "executionMode cfg = PairedTurns"
  shows "returned (run_v1 w cfg task st) = returned (run w cfg task st)"
proof -
  have w: "world_rel (=) w w" by (simp add: world_rel_def)
  have s: "state_rel (=) st st" by (rule state_rel_refl) simp
  have "orch_rel (=) (core_rel (=)) (run_try_v1 w cfg task) (run_try w cfg task)"
    unfolding run_try_v1_unfold run_try_unfold[OF assms]
    by (intro rel_seq rel_observe recorder_record_ev rel_paired_rest w)
  from orch_relD[OF this s]
  have o: "outcome_rel (=) (core_rel (=)) (run_try_v1 w cfg task st) (run_try w cfg task st)" .
  obtain a t1 where r1: "run_try_v1 w cfg task st = (a, t1)" by fastforce
  obtain b t2 where r2: "run_try w cfg task st = (b, t2)" by fastforce
  from o r1 r2 have st': "state_rel (=) t1 t2" and rs: "rel_sum (=) (core_rel (=)) a b"
    by (simp_all add: outcome_rel_def)
  from orch_relD[OF rel_run_end[OF rs] st', of w w] r1 r2
  have "rel_sum (=) (result_rel (=)) (fst (run_v1 w cfg task st)) (fst (run w cfg task st))"
    by (simp add: run_def run_v1_def outcome_rel_def)
  then show ?thesis
    by (cases "fst (run_v1 w cfg task st)"; cases "fst (run w cfg task st)")
       (simp_all add: returned_def result_rel_def core_rel_eq)
qed

theorem versions_agree_on_paired_turns_witness:
  "executionMode (example_config PairedTurns) = PairedTurns
   \<and> map_sum id (\<lambda>r. (map rr_round (prr_rounds r), map stage (prr_sharedJournal r),
                          rs_swapCount (prr_summary r)))
        (returned (run_v1 handoff_world (example_config PairedTurns) ''t'' (initial_state None)))
     = Inr ([1], [''task'', ''plan_draft'', ''plan_feedback'', ''plan_agreed'', ''driver_report'',
                 ''navigator_feedback'', ''navigator_handoff_signal'', ''loop_stop'',
                 ''final_review_A'', ''final_review_B'', ''joint_verdict''], 0)"
  using versions_agree_on_paired_turns[of "example_config PairedTurns" handoff_world "''t''"
      "initial_state None"] paired_run_example
  by (simp add: example_config_fields)

section \<open>Verification: the observer through a run\<close>












































section \<open>Verification: how a run ends\<close>
















section \<open>Verification: the round loop\<close>

lemma broadcastShared_returns:
  "\<exists>s'. broadcastShared w stg act txt s = (Inr (), s')
     \<and> calls s' = calls s
     \<and> sharedJournal s' = sharedJournal s @ [\<lparr>stage = stg, se_actor = act, content = txt,
                                               se_timestamp = clock w (ticks s)\<rparr>]"
  by (simp add: broadcastShared_def bnd_def seq_def date_now_def push_entry_def
        appendSharedContext_def agent_do_def Let_def)

lemma observe_keeps:
  "\<exists>s'. observe w f s = (Inr (), s') \<and> calls s' = calls s \<and> sharedJournal s' = sharedJournal s"
  by (simp add: observe_def split: option.splits)

lemma after_round_done:
  assumes "status (driverReport result) = StatusDone" and "\<not> hasFeedback (navigatorReview result)"
  shows "after_round w cfg rnd ls result =
     seq (observe w (\<lambda>now. record_ev now (round_end_event rnd result)))
         (seq (broadcastShared w ''loop_stop'' System (stop_done_text rnd))
              (ret (Break (accumulate_round result ls))))"
  using assms by (simp add: after_round_def Let_def)


text \<open>
  C3. In the round loop of \<open>runPairedExecution\<close>, when round \<open>rnd\<close> (not beyond
  \<open>maxRounds\<close>) returns a result whose driver status is \<open>done\<close> and whose navigator
  review has no feedback, the loop returns after that round: the result is added to the
  rounds, the journal gets the \<open>loop_stop\<close> entry and nothing else, no further agent
  call is made, and the swap count and the driver are those from before the round.
\<close>

theorem loop_stops_when_done:
  assumes "rnd \<le> maxRounds cfg"
    and "runRound w cfg task plan rnd (ls_driverId ls)
           (snd (observe w (\<lambda>now. record_ev now (round_start_event rnd (ls_driverId ls))) st))
         = (Inr result, st1)"
    and "status (driverReport result) = StatusDone"
    and "\<not> hasFeedback (navigatorReview result)"
  shows "\<exists>st2. paired_loop w cfg task plan rnd ls st = (Inr (accumulate_round result ls), st2)
      \<and> calls st2 = calls st1
      \<and> map stage (sharedJournal st2) = map stage (sharedJournal st1) @ [''loop_stop'']
      \<and> ls_rounds (accumulate_round result ls) = ls_rounds ls @ [result]
      \<and> ls_swapCount (accumulate_round result ls) = ls_swapCount ls
      \<and> ls_driverId (accumulate_round result ls) = ls_driverId ls"
proof -
  let ?start = "observe w (\<lambda>now. record_ev now (round_start_event rnd (ls_driverId ls)))"
  let ?end = "observe w (\<lambda>now. record_ev now (round_end_event rnd result))"
  from observe_keeps obtain s0 where s0: "?start st = (Inr (), s0)" by blast
  with assms(2) have rr: "runRound w cfg task plan rnd (ls_driverId ls) s0 = (Inr result, st1)"
    by simp
  from observe_keeps obtain s2 where s2: "?end st1 = (Inr (), s2)"
    and c2: "calls s2 = calls st1" and j2: "sharedJournal s2 = sharedJournal st1" by blast
  from broadcastShared_returns obtain s3 where
    s3: "broadcastShared w ''loop_stop'' System (stop_done_text rnd) s2 = (Inr (), s3)"
    and c3: "calls s3 = calls s2"
    and j3: "sharedJournal s3 = sharedJournal s2 @ [\<lparr>stage = ''loop_stop'', se_actor = System,
               content = stop_done_text rnd, se_timestamp = clock w (ticks s2)\<rparr>]" by blast
  have it: "paired_iteration w cfg task plan rnd ls st = (Inr (Break (accumulate_round result ls)), s3)"
    unfolding paired_iteration_def
    by (simp add: seq_def bnd_def s0 rr after_round_done[OF assms(3,4)] s2 s3 ret_def)
  have "paired_loop w cfg task plan rnd ls st = (Inr (accumulate_round result ls), s3)"
    using assms(1) it by (simp add: paired_loop.simps[of w cfg task plan rnd])
  moreover have "calls s3 = calls st1" using c2 c3 by simp
  moreover have "map stage (sharedJournal s3) = map stage (sharedJournal st1) @ [''loop_stop'']"
    using j2 j3 by simp
  ultimately show ?thesis by (simp add: accumulate_round_def)
qed


lemma round_example:
  "\<exists>st1. runRound done_world (example_config PairedTurns) ''t'' ''p'' 1
       (ls_driverId (initial_loop_state (example_config PairedTurns)))
       (snd (observe done_world (\<lambda>now. record_ev now (round_start_event 1
               (ls_driverId (initial_loop_state (example_config PairedTurns)))))
          (initial_state None)))
     = (Inr (round_result 1 A B
               (snapshot (createDriverExecutionTracker (pauseStrategy (example_config PairedTurns))))
               (parseDriverReport done_text) (parseNavigatorReview none_text) None), st1)
     \<and> calls st1 = 2"
  by (simp add: runRound_def orch_defs done_world_def example_world_def said_def initial_state_def
        initial_loop_state_def assistantText_def trim_done trim_none none_feedback Let_def
        example_config_def PairAgentConfig.extend_def defaultPairConfig_def)


theorem loop_stops_when_done_witness:
  "1 \<le> maxRounds (example_config PairedTurns)
   \<and> status (parseDriverReport done_text) = StatusDone
   \<and> publicFeedback (parseNavigatorReview none_text) = ''NONE.''
   \<and> hasFeedback (parseNavigatorReview none_text) = False
   \<and> (\<exists>ls st2. paired_loop done_world (example_config PairedTurns) ''t'' ''p'' 1
          (initial_loop_state (example_config PairedTurns)) (initial_state None) = (Inr ls, st2)
        \<and> length (ls_rounds ls) = 1 \<and> ls_swapCount ls = 0 \<and> ls_driverId ls = A
        \<and> calls st2 = 2)"
proof -
  let ?C = "example_config PairedTurns"
  let ?r = "round_result 1 A B (snapshot (createDriverExecutionTracker (pauseStrategy ?C)))
              (parseDriverReport done_text) (parseNavigatorReview none_text) None"
  have m: "1 \<le> maxRounds ?C"
    by (simp add: example_config_def PairAgentConfig.extend_def defaultPairConfig_def)
  from round_example obtain st1 where
    r: "runRound done_world ?C ''t'' ''p'' 1 (ls_driverId (initial_loop_state ?C))
          (snd (observe done_world (\<lambda>now. record_ev now (round_start_event 1
                  (ls_driverId (initial_loop_state ?C)))) (initial_state None)))
        = (Inr ?r, st1)"
    and c: "calls st1 = 2" by blast
  have d: "status (driverReport ?r) = StatusDone" by (simp add: round_result_def done_status)
  have n: "\<not> hasFeedback (navigatorReview ?r)" by (simp add: round_result_def none_feedback)
  from loop_stops_when_done[OF m r d n] obtain st2 where
    l: "paired_loop done_world ?C ''t'' ''p'' 1 (initial_loop_state ?C) (initial_state None)
          = (Inr (accumulate_round ?r (initial_loop_state ?C)), st2)"
    and c2: "calls st2 = calls st1"
    and rs: "ls_rounds (accumulate_round ?r (initial_loop_state ?C))
               = ls_rounds (initial_loop_state ?C) @ [?r]"
    and sw: "ls_swapCount (accumulate_round ?r (initial_loop_state ?C))
               = ls_swapCount (initial_loop_state ?C)"
    and dr: "ls_driverId (accumulate_round ?r (initial_loop_state ?C))
               = ls_driverId (initial_loop_state ?C)"
    by blast
  have "length (ls_rounds (accumulate_round ?r (initial_loop_state ?C))) = 1"
    using rs by (simp add: initial_loop_state_def)
  moreover have "ls_swapCount (accumulate_round ?r (initial_loop_state ?C)) = 0"
    using sw by (simp add: initial_loop_state_def)
  moreover have "ls_driverId (accumulate_round ?r (initial_loop_state ?C)) = A"
    using dr by (simp add: initial_loop_state_def example_config_def PairAgentConfig.extend_def
        defaultPairConfig_def)
  moreover have "calls st2 = 2" using c c2 by simp
  ultimately show ?thesis using l m done_status none_public none_feedback by blast
qed

end
